theory Spec2Isabelle
  imports Complex_Main
begin

section \<open>Siege game: level generator and physics step\<close>

text \<open>
  A shallow embedding of \<^verbatim>\<open>src/game.js\<close>. JavaScript numbers are modelled as exact
  reals (IEEE-754 rounding is not modelled); integer-valued quantities that the source
  obtains with \<^verbatim>\<open>Math.floor\<close> are integers. The state of the linear congruential
  generator is a natural number below \<open>2^32\<close> with the wrap-around of \<^verbatim>\<open>>>> 0\<close>
  written out; the product \<open>1664525 * s\<close> stays below \<open>2^53\<close>, so the source computes
  it exactly. The module's global variables are the fields of the record \<open>game\<close>; the
  window size read from \<^verbatim>\<open>window.innerWidth\<close> and \<^verbatim>\<open>window.innerHeight\<close> is the
  record \<open>env\<close>. Rendering (\<^verbatim>\<open>draw\<close>, \<^verbatim>\<open>resize\<close>) changes no game state and is
  left out.
\<close>

subsection \<open>Simple physics helpers and world settings\<close>

definition clamp :: "'a::linorder \<Rightarrow> 'a \<Rightarrow> 'a \<Rightarrow> 'a" where
  "clamp v a b = max a (min b v)"

definition len :: "real \<Rightarrow> real \<Rightarrow> real" where
  "len x y = sqrt (x * x + y * y)"

definition G :: real where "G = 1200"
definition AIR :: real where "AIR = 0.998"
definition RESTITUTION :: real where "RESTITUTION = 0.35"
definition FRICTION :: real where "FRICTION = 0.84"
definition DT_MAX :: real where "DT_MAX = 1 / 30"

record env =
  innerWidth :: real
  innerHeight :: real

definition groundY :: "env \<Rightarrow> real" where
  "groundY e = innerHeight e * 0.83"

definition cannonPos :: "env \<Rightarrow> real \<times> real" where
  "cannonPos e = (innerWidth e * 0.14, groundY e - 12)"

subsection \<open>Materials\<close>

text \<open>The keys of the object \<^verbatim>\<open>materials\<close>, in the order the source lists them.\<close>

datatype material = Wood | Stone | Metal | Glass

record mat_entry =
  m_hp :: real
  m_color :: string
  m_score :: real

definition materials :: "(material \<times> mat_entry) list" where
  "materials =
     [(Wood,  \<lparr>m_hp = 90,  m_color = ''#b87a4b'', m_score = 1.0\<rparr>),
      (Stone, \<lparr>m_hp = 150, m_color = ''#8b93a1'', m_score = 1.3\<rparr>),
      (Metal, \<lparr>m_hp = 220, m_color = ''#6b7a8f'', m_score = 1.6\<rparr>),
      (Glass, \<lparr>m_hp = 45,  m_color = ''#7ad7ff'', m_score = 0.8\<rparr>)]"

text \<open>The lookup \<^verbatim>\<open>materials[mat]\<close>; every key of the enumeration is present.\<close>

definition material_entry :: "material \<Rightarrow> mat_entry" where
  "material_entry mat = the (map_of materials mat)"

subsection \<open>Blocks, projectile and game state\<close>

text \<open>
  The fields of a block and of the projectile carry a prefix, since both objects have
  fields \<^verbatim>\<open>x\<close>, \<^verbatim>\<open>y\<close> and \<^verbatim>\<open>alive\<close> in the source.
\<close>

record block =
  b_x :: real
  b_y :: real
  b_w :: real
  b_h :: real
  b_hp :: real
  b_maxHp :: real
  b_mat :: material
  b_alive :: bool

record projectile =
  p_x :: real
  p_y :: real
  p_vx :: real
  p_vy :: real
  p_r :: real
  p_damage :: real
  p_alive :: bool
  p_traveled :: real

text \<open>
  The HUD elements hold the values that \<^verbatim>\<open>syncHud\<close> writes; their rendering as text
  (\<^verbatim>\<open>String\<close>, \<^verbatim>\<open>toFixed\<close>, the percent sign) is not modelled.
\<close>

record hud =
  elLevel :: nat
  elShots :: nat
  elPower :: real
  elDestroyed :: int

record game =
  level :: nat
  shots :: nat
  powerMult :: real
  aiming :: bool
  aimStart :: "real \<times> real"
  aimNow :: "real \<times> real"
  ball :: "projectile option"
  blocks :: "block list"
  totalBlocks :: nat
  last :: real
  display :: hud

subsection \<open>Level generator\<close>

text \<open>
  \<^verbatim>\<open>rand(seed)\<close> starts the generator at \<^verbatim>\<open>seed >>> 0\<close>; each call of the closure
  advances the state and returns it divided by \<open>2^32\<close>.
\<close>

definition rand :: "nat \<Rightarrow> nat" where
  "rand seed = seed mod 4294967296"

definition r :: "nat \<Rightarrow> real \<times> nat" where
  "r s = (let s' = (1664525 * s + 1013904223) mod 4294967296
          in (real s' / 4294967296, s'))"

datatype theme = Castle | City | Towers

definition themeOf :: "nat \<Rightarrow> theme \<times> nat" where
  "themeOf n =
     (let (themeRoll, s) = r (rand (1337 + n * 999))
      in (if themeRoll < 0.33 then Castle else if themeRoll < 0.66 then City else Towers, s))"

definition floors :: "nat \<Rightarrow> int" where
  "floors n = clamp (3 + \<lfloor>real n * 0.35\<rfloor>) 3 9"

definition density :: "nat \<Rightarrow> real" where
  "density n = clamp (0.55 + real n * 0.02) 0.55 0.85"

definition bw :: "nat \<Rightarrow> real" where
  "bw n = of_int (clamp (44 - \<lfloor>real n * 0.4\<rfloor>) 26 44)"

definition bh :: "nat \<Rightarrow> real" where
  "bh n = of_int (clamp (28 - \<lfloor>real n * 0.25\<rfloor>) 18 28)"

definition pickMat :: "nat \<Rightarrow> nat \<Rightarrow> material \<times> nat" where
  "pickMat n s =
     (let t = clamp (real n / 18) 0 1;
          (p, s') = r s
      in (if p < 0.10 then Glass
          else if p < 0.58 - 0.18 * t then Wood
          else if p < 0.90 - 0.10 * t then Stone
          else Metal, s'))"

text \<open>\<^verbatim>\<open>addBlock\<close> pushes a new object at the end of \<^verbatim>\<open>blocks\<close>.\<close>

definition newBlock :: "real \<Rightarrow> real \<Rightarrow> real \<Rightarrow> real \<Rightarrow> material \<Rightarrow> block" where
  "newBlock x y w h mat =
     (let m = material_entry mat
      in \<lparr>b_x = x, b_y = y, b_w = w, b_h = h,
          b_hp = m_hp m, b_maxHp = m_hp m, b_mat = mat, b_alive = True\<rparr>)"

definition addBlock :: "real \<Rightarrow> real \<Rightarrow> real \<Rightarrow> real \<Rightarrow> material \<Rightarrow> block list \<Rightarrow> block list" where
  "addBlock x y w h mat bs = bs @ [newBlock x y w h mat]"

text \<open>One iteration of the inner loop of a city building (a \<^verbatim>\<open>continue\<close> skips the cell).\<close>

definition baseX :: "env \<Rightarrow> real" where
  "baseX e = innerWidth e * 0.55"

definition baseW :: "env \<Rightarrow> real" where
  "baseW e = innerWidth e * 0.38"

fun cityCell :: "env \<Rightarrow> nat \<Rightarrow> real \<Rightarrow> nat \<Rightarrow> nat \<Rightarrow> nat \<times> block list \<Rightarrow> nat \<times> block list" where
  "cityCell e n bx y x (s, bs) =
     (let (p, s1) = r s
      in if p > density n then (s1, bs)
         else (let (mat, s2) = pickMat n s1
               in (s2, addBlock (bx + real x * (bw n + 2)) (groundY e - (real y + 1) * (bh n + 2))
                         (bw n) (bh n) mat bs)))"

fun cityBuilding :: "env \<Rightarrow> nat \<Rightarrow> int \<Rightarrow> nat \<Rightarrow> nat \<times> block list \<Rightarrow> nat \<times> block list" where
  "cityBuilding e n buildings b (s, bs) =
     (let (p1, s1) = r s;
          bx = baseX e + (real b / of_int buildings) * baseW e + (p1 * 20 - 10);
          (p2, s2) = r s1;
          widthBlocks = 3 + \<lfloor>p2 * 4\<rfloor>;
          (p3, s3) = r s2;
          heightBlocks = clamp (2 + \<lfloor>p3 * of_int (floors n)\<rfloor>) 2 (floors n)
      in fold (\<lambda>y. fold (cityCell e n bx y) [0..<nat widthBlocks]) [0..<nat heightBlocks] (s3, bs))"

definition buildCity :: "env \<Rightarrow> nat \<Rightarrow> nat \<times> block list \<Rightarrow> nat \<times> block list" where
  "buildCity e n g =
     (let (p, s1) = r (fst g);
          buildings = 3 + \<lfloor>p * 3\<rfloor>
      in fold (cityBuilding e n buildings) [0..<nat buildings] (s1, snd g))"

text \<open>Towers: the loop state also carries the array \<^verbatim>\<open>topYs\<close>.\<close>

fun towerCell :: "env \<Rightarrow> nat \<Rightarrow> real \<Rightarrow> nat \<Rightarrow> nat \<Rightarrow> nat \<times> block list \<Rightarrow> nat \<times> block list" where
  "towerCell e n tx y x (s, bs) =
     (let (p, s1) = r s
      in if p > density n + 0.08 then (s1, bs)
         else (let (mat, s2) = pickMat n s1
               in (s2, addBlock (tx + real x * (bw n + 2)) (groundY e - (real y + 1) * (bh n + 2))
                         (bw n) (bh n) mat bs)))"

fun tower :: "env \<Rightarrow> nat \<Rightarrow> real \<Rightarrow> nat \<Rightarrow> nat \<times> block list \<times> real list \<Rightarrow> nat \<times> block list \<times> real list" where
  "tower e n gap tIdx (s, bs, topYs) =
     (let (p1, s1) = r s;
          tx = baseX e + gap * (real tIdx + 1) + (p1 * 18 - 9);
          (p2, s2) = r s1;
          heightBlocks = clamp (4 + \<lfloor>p2 * of_int (floors n)\<rfloor>) 4 (floors n);
          (s3, bs3) = fold (\<lambda>y. fold (towerCell e n tx y) [0..<2]) [0..<nat heightBlocks] (s2, bs)
      in (s3, bs3, topYs @ [groundY e - of_int heightBlocks * (bh n + 2)]))"

fun bridgeCell :: "nat \<Rightarrow> real \<Rightarrow> real \<Rightarrow> nat \<Rightarrow> nat \<times> block list \<Rightarrow> nat \<times> block list" where
  "bridgeCell n bridgeX bridgeY i (s, bs) =
     (let (p, s1) = r s
      in if p > 0.75 then (s1, bs)
         else (s1, addBlock (bridgeX + real i * (bw n * 0.78)) bridgeY (bw n * 0.72) (bh n * 0.65) Wood bs))"

text \<open>The number of towers, the gap between them, and the state after the tower loop.\<close>

definition towersOf :: "nat \<Rightarrow> int \<times> nat" where
  "towersOf s = (let (p, s1) = r s in (2 + \<lfloor>p * 2\<rfloor>, s1))"

definition towerLoop :: "env \<Rightarrow> nat \<Rightarrow> nat \<times> block list \<Rightarrow> nat \<times> block list \<times> real list" where
  "towerLoop e n g =
     (let (towers, s1) = towersOf (fst g);
          gap = baseW e / (of_int towers + 1)
      in fold (tower e n gap) [0..<nat towers] (s1, snd g, []))"

definition buildTowers :: "env \<Rightarrow> nat \<Rightarrow> nat \<times> block list \<Rightarrow> nat \<times> block list" where
  "buildTowers e n g =
     (let (towers, s1) = towersOf (fst g);
          gap = baseW e / (of_int towers + 1);
          (s2, bs2, topYs) = towerLoop e n g
      in if towers \<ge> 2 then
           (let bridgeY = Min (set topYs) - (bh n + 8);
                bridgeX = baseX e + gap * 1.1;
                (p3, s3) = r s2;
                bridgeBlocks = 9 + \<lfloor>p3 * 5\<rfloor>
            in fold (bridgeCell n bridgeX bridgeY) [0..<nat bridgeBlocks] (s3, bs2))
         else (s2, bs2))"

text \<open>The array \<^verbatim>\<open>topYs\<close> of level \<open>n\<close>: the top of each tower, in the order built.\<close>

definition towerTops :: "env \<Rightarrow> nat \<Rightarrow> real list" where
  "towerTops e n = snd (snd (towerLoop e n (snd (themeOf n), [])))"

text \<open>Castle: wall, two towers, battlements.\<close>

definition wallHeight :: "nat \<Rightarrow> int" where
  "wallHeight n = clamp (3 + \<lfloor>real n * 0.18\<rfloor>) 3 (floors n)"

fun wallCell :: "env \<Rightarrow> nat \<Rightarrow> real \<Rightarrow> nat \<Rightarrow> nat \<Rightarrow> nat \<times> block list \<Rightarrow> nat \<times> block list" where
  "wallCell e n startX y x (s, bs) =
     (let (p, s1) = r s
      in if p > density n then (s1, bs)
         else (let (mat, s2) = (if int y = wallHeight n - 1 then (Stone, s1) else pickMat n s1)
               in (s2, addBlock (startX + real x * (bw n + 2)) (groundY e - (real y + 1) * (bh n + 2))
                         (bw n) (bh n) mat bs)))"

text \<open>One row of the wall: the inner loop over \<^verbatim>\<open>x\<close>.\<close>

definition wallRow :: "env \<Rightarrow> nat \<Rightarrow> real \<Rightarrow> int \<Rightarrow> nat \<Rightarrow> nat \<times> block list \<Rightarrow> nat \<times> block list" where
  "wallRow e n startX wallWidthBlocks y g =
     fold (wallCell e n startX y) [0..<nat wallWidthBlocks] g"

fun castleTowerCell :: "env \<Rightarrow> nat \<Rightarrow> real \<Rightarrow> nat \<Rightarrow> nat \<Rightarrow> nat \<times> block list \<Rightarrow> nat \<times> block list" where
  "castleTowerCell e n tx y x (s, bs) =
     (let (p, s1) = r s
      in if p > density n + 0.05 then (s1, bs)
         else (s1, addBlock (tx + real x * (bw n + 2)) (groundY e - (real y + 1) * (bh n + 2))
                     (bw n) (bh n) Stone bs))"

fun battlementCell :: "env \<Rightarrow> nat \<Rightarrow> real \<Rightarrow> int \<Rightarrow> nat \<Rightarrow> nat \<times> block list \<Rightarrow> nat \<times> block list" where
  "battlementCell e n tx towerH i (s, bs) =
     (let (p, s1) = r s
      in if p > 0.65 then (s1, bs)
         else (s1, addBlock (tx + real i * (bw n + 2)) (groundY e - (of_int towerH + 1) * (bh n + 2))
                     (bw n) (bh n * 0.7) Wood bs))"

definition castleTower :: "env \<Rightarrow> nat \<Rightarrow> int \<Rightarrow> int \<Rightarrow> real \<Rightarrow> nat \<times> block list \<Rightarrow> nat \<times> block list" where
  "castleTower e n towerW towerH tx g =
     fold (battlementCell e n tx towerH) [0..<nat towerW]
       (fold (\<lambda>y. fold (castleTowerCell e n tx y) [0..<nat towerW]) [0..<nat towerH] g)"

definition buildCastle :: "env \<Rightarrow> nat \<Rightarrow> nat \<times> block list \<Rightarrow> nat \<times> block list" where
  "buildCastle e n g =
     (let (p1, s1) = r (fst g);
          wallWidthBlocks = 10 + \<lfloor>p1 * 6\<rfloor>;
          (p2, s2) = r s1;
          startX = baseX e + (p2 * 20 - 10);
          (s3, bs3) = fold (wallRow e n startX wallWidthBlocks) [0..<nat (wallHeight n)] (s2, snd g);
          towerW = 3;
          (p4, s4) = r s3;
          towerH = wallHeight n + 2 + \<lfloor>p4 * 3\<rfloor>;
          tower1X = startX - (bw n + 2) * 1.2;
          tower2X = startX + (bw n + 2) * (of_int wallWidthBlocks - of_int towerW + 0.2)
      in fold (castleTower e n towerW towerH) [tower1X, tower2X] (s4, bs3))"

text \<open>The decorative blocks.\<close>

fun decoCell :: "env \<Rightarrow> nat \<Rightarrow> nat \<Rightarrow> nat \<times> block list \<Rightarrow> nat \<times> block list" where
  "decoCell e n i (s, bs) =
     (let (p, s1) = r s
      in if p > 0.55 then (s1, bs)
         else (let (p2, s2) = r s1;
                   x = baseX e + p2 * baseW e;
                   (p3, s3) = r s2;
                   y = groundY e - (1 + of_int \<lfloor>p3 * (of_int (floors n) + 1)\<rfloor>) * (bh n + 2);
                   (p4, s4) = r s3
               in (s4, addBlock x y (bw n * 0.75) (bh n * 0.75) (if p4 < 0.5 then Glass else Wood) bs)))"

definition buildDeco :: "env \<Rightarrow> nat \<Rightarrow> nat \<times> block list \<Rightarrow> nat \<times> block list" where
  "buildDeco e n g =
     (let (p, s1) = r (fst g);
          deco = 6 + \<lfloor>p * 10\<rfloor>
      in fold (decoCell e n) [0..<nat deco] (s1, snd g))"

text \<open>\<^verbatim>\<open>Math.round\<close> rounds half up.\<close>

definition round_js :: "real \<Rightarrow> int" where
  "round_js v = \<lfloor>v + 1 / 2\<rfloor>"

definition syncHud :: "game \<Rightarrow> game" where
  "syncHud st =
     (let destroyed =
            (if totalBlocks st = 0 then 0
             else round_js (100 * (1 - real (length (filter b_alive (blocks st))) / real (totalBlocks st))))
      in st\<lparr>display := \<lparr>elLevel = level st, elShots = shots st, elPower = powerMult st,
                          elDestroyed = destroyed\<rparr>\<rparr>)"

text \<open>The blocks of level \<open>n\<close>: the theme's layout followed by the decorative blocks.\<close>

definition levelBlocks :: "env \<Rightarrow> nat \<Rightarrow> block list" where
  "levelBlocks e n =
     (let (theme, s1) = themeOf n;
          g = (case theme of
                 City \<Rightarrow> buildCity e n (s1, [])
               | Towers \<Rightarrow> buildTowers e n (s1, [])
               | Castle \<Rightarrow> buildCastle e n (s1, []))
      in snd (buildDeco e n g))"

definition makeLevel :: "env \<Rightarrow> nat \<Rightarrow> game \<Rightarrow> game" where
  "makeLevel e n st =
     syncHud (st\<lparr>blocks := levelBlocks e n,
                 shots := 0,
                 powerMult := 1.0 + (real n - 1) * 0.08,
                 ball := None,
                 totalBlocks := length (levelBlocks e n)\<rparr>)"

subsection \<open>Collision: circle against rectangle\<close>

text \<open>
  The result object of \<^verbatim>\<open>circleRectCollision\<close>: \<open>None\<close> for \<^verbatim>\<open>{ hit: false }\<close>,
  otherwise the fields \<^verbatim>\<open>dx, dy, closestX, closestY\<close>.
\<close>

definition circleRectCollision :: "real \<Rightarrow> real \<Rightarrow> real \<Rightarrow> block \<Rightarrow> (real \<times> real \<times> real \<times> real) option" where
  "circleRectCollision cx cy rad rect =
     (let closestX = clamp cx (b_x rect) (b_x rect + b_w rect);
          closestY = clamp cy (b_y rect) (b_y rect + b_h rect);
          dx = cx - closestX;
          dy = cy - closestY;
          d2 = dx * dx + dy * dy
      in if d2 \<le> rad * rad then Some (dx, dy, closestX, closestY) else None)"

subsection \<open>Firing and input\<close>

text \<open>\<^verbatim>\<open>Math.atan2\<close> on reals (there is no negative zero).\<close>

definition atan2 :: "real \<Rightarrow> real \<Rightarrow> real" where
  "atan2 y x =
     (if 0 < x then arctan (y / x)
      else if x < 0 \<and> 0 \<le> y then arctan (y / x) + pi
      else if x < 0 \<and> y < 0 then arctan (y / x) - pi
      else if 0 < y then pi / 2
      else if y < 0 then - (pi / 2)
      else 0)"

definition fire :: "real \<Rightarrow> real \<Rightarrow> real \<Rightarrow> real \<Rightarrow> game \<Rightarrow> game" where
  "fire fromX fromY toX toY st =
     (let dx = fromX - toX;
          dy = fromY - toY;
          drag = clamp (len dx dy) 0 160;
          angle = atan2 dy dx;
          base = 700;
          speed = (base + drag * 6) * powerMult st;
          vx = cos angle * speed;
          vy = sin angle * speed;
          radius = clamp (14 + real (level st) * 0.25) 14 22;
          damage = (120 + drag * 1.4) * powerMult st
      in syncHud (st\<lparr>ball := Some \<lparr>p_x = fromX, p_y = fromY, p_vx = vx, p_vy = vy, p_r = radius,
                                     p_damage = damage, p_alive = True, p_traveled = 0\<rparr>,
                     shots := shots st + 1\<rparr>))"

text \<open>The handlers take the point that \<^verbatim>\<open>getPoint\<close> extracts from the event.\<close>

definition onDown :: "real \<times> real \<Rightarrow> game \<Rightarrow> game" where
  "onDown p st = st\<lparr>aiming := True, aimStart := p, aimNow := p\<rparr>"

definition onMove :: "real \<times> real \<Rightarrow> game \<Rightarrow> game" where
  "onMove p st = (if \<not> aiming st then st else st\<lparr>aimNow := p\<rparr>)"

definition onUp :: "env \<Rightarrow> game \<Rightarrow> game" where
  "onUp e st =
     (if \<not> aiming st then st
      else (let st1 = st\<lparr>aiming := False\<rparr>;
                (x, y) = cannonPos e
            in case ball st1 of
                 None \<Rightarrow> fire x y (fst (aimNow st1)) (snd (aimNow st1)) st1
               | Some bl \<Rightarrow>
                   if \<not> p_alive bl then fire x y (fst (aimNow st1)) (snd (aimNow st1)) st1
                   else st1))"

definition restart :: "env \<Rightarrow> game \<Rightarrow> game" where
  "restart e st = makeLevel e (level st) st"

subsection \<open>Game loop\<close>

text \<open>The phases of \<^verbatim>\<open>update\<close> on a live projectile, in the order of the source.\<close>

definition integrate :: "real \<Rightarrow> projectile \<Rightarrow> projectile" where
  "integrate dt bl =
     (let vy1 = p_vy bl + G * dt;
          vx2 = p_vx bl * AIR;
          vy2 = vy1 * AIR;
          oldX = p_x bl;
          oldY = p_y bl;
          x2 = p_x bl + vx2 * dt;
          y2 = p_y bl + vy2 * dt
      in bl\<lparr>p_x := x2, p_y := y2, p_vx := vx2, p_vy := vy2,
             p_traveled := p_traveled bl + len (x2 - oldX) (y2 - oldY)\<rparr>)"

definition ground :: "env \<Rightarrow> projectile \<Rightarrow> projectile" where
  "ground e bl =
     (let gy = groundY e
      in if p_y bl + p_r bl > gy then
           (let bl1 = bl\<lparr>p_y := gy - p_r bl, p_vy := - p_vy bl * RESTITUTION,
                         p_vx := p_vx bl * FRICTION\<rparr>
            in if \<bar>p_vy bl1\<bar> < 120 \<and> \<bar>p_vx bl1\<bar> < 90 then bl1\<lparr>p_alive := False\<rparr> else bl1)
         else bl)"

definition outOfBounds :: "env \<Rightarrow> projectile \<Rightarrow> projectile" where
  "outOfBounds e bl =
     (if p_x bl < - 200 \<or> p_x bl > innerWidth e + 200 \<or> p_y bl > innerHeight e + 300
      then bl\<lparr>p_alive := False\<rparr> else bl)"

text \<open>The body of the block loop once a hit is found (the loop then breaks).\<close>

definition hitBlock :: "projectile \<Rightarrow> block \<Rightarrow> projectile \<times> block" where
  "hitBlock bl b =
     (let speed = len (p_vx bl) (p_vy bl);
          dmg = p_damage bl * (0.35 + clamp (speed / 1200) 0.0 1.2);
          b1 = b\<lparr>b_hp := b_hp b - dmg\<rparr>;
          overlapX = min \<bar>p_x bl - b_x b\<bar> \<bar>p_x bl - (b_x b + b_w b)\<bar>;
          overlapY = min \<bar>p_y bl - b_y b\<bar> \<bar>p_y bl - (b_y b + b_h b)\<bar>;
          bl1 = (if overlapX < overlapY then bl\<lparr>p_vx := - p_vx bl * 0.55\<rparr>
                 else bl\<lparr>p_vy := - p_vy bl * 0.55\<rparr>);
          bl2 = bl1\<lparr>p_vx := p_vx bl1 * 0.92, p_vy := p_vy bl1 * 0.92\<rparr>;
          b2 = (if b_hp b1 \<le> 0 then b1\<lparr>b_alive := False\<rparr> else b1)
      in (bl2, b2))"

fun collide :: "projectile \<Rightarrow> block list \<Rightarrow> projectile \<times> block list" where
  "collide bl [] = (bl, [])"
| "collide bl (b # bs) =
     (if \<not> b_alive b then (let (bl', bs') = collide bl bs in (bl', b # bs'))
      else case circleRectCollision (p_x bl) (p_y bl) (p_r bl) b of
             None \<Rightarrow> (let (bl', bs') = collide bl bs in (bl', b # bs'))
           | Some hit \<Rightarrow> (let (bl', b') = hitBlock bl b in (bl', b' # bs)))"

definition destroyedPct :: "nat \<Rightarrow> block list \<Rightarrow> real" where
  "destroyedPct tot bs =
     (let aliveCount = length (filter b_alive bs)
      in if tot \<noteq> 0 then 1 - real aliveCount / real tot else 1)"

definition update :: "env \<Rightarrow> real \<Rightarrow> game \<Rightarrow> game" where
  "update e dt st =
     (case ball st of
        None \<Rightarrow> syncHud st
      | Some bl \<Rightarrow>
          if \<not> p_alive bl then syncHud st
          else (let bl3 = outOfBounds e (ground e (integrate dt bl));
                    (bl4, bs) = collide bl3 (blocks st);
                    st1 = st\<lparr>ball := Some bl4, blocks := bs\<rparr>
                in if destroyedPct (totalBlocks st1) (blocks st1) \<ge> 0.85
                   then syncHud (makeLevel e (level st1 + 1)
                                  (st1\<lparr>ball := Some (bl4\<lparr>p_alive := False\<rparr>),
                                        level := level st1 + 1\<rparr>))
                   else syncHud st1))"

definition tick :: "env \<Rightarrow> real \<Rightarrow> game \<Rightarrow> game" where
  "tick e now st = update e (clamp ((now - last st) / 1000) 0 DT_MAX) (st\<lparr>last := now\<rparr>)"

subsection \<open>Runs of the game\<close>

text \<open>
  The module starts with level 1 and then reacts to pointer events, the restart button
  and animation frames. The window size \<open>e\<close> is held fixed along a run.
\<close>

definition initial :: "real \<Rightarrow> hud \<Rightarrow> game" where
  "initial t0 d =
     \<lparr>level = 1, shots = 0, powerMult = 1.0, aiming = False, aimStart = (0, 0), aimNow = (0, 0),
      ball = None, blocks = [], totalBlocks = 0, last = t0, display = d\<rparr>"

inductive reachable :: "env \<Rightarrow> game \<Rightarrow> bool" for e :: env where
  start: "reachable e (makeLevel e (level (initial t0 d)) (initial t0 d))"
| down: "reachable e st \<Longrightarrow> reachable e (onDown p st)"
| move: "reachable e st \<Longrightarrow> reachable e (onMove p st)"
| up: "reachable e st \<Longrightarrow> reachable e (onUp e st)"
| again: "reachable e st \<Longrightarrow> reachable e (restart e st)"
| frame: "reachable e st \<Longrightarrow> reachable e (tick e now st)"

subsection \<open>Notions used in the statements\<close>

text \<open>
  The projectile overlaps a block when \<^verbatim>\<open>circleRectCollision\<close> reports a hit; \<open>firstHit\<close>
  is the index of the first live block in collection order that the projectile overlaps;
  \<open>impactDamage\<close> is the value of \<^verbatim>\<open>dmg\<close> in the block loop; \<open>moved\<close> is the projectile
  as it enters the block loop of a step.
\<close>

definition overlaps :: "projectile \<Rightarrow> block \<Rightarrow> bool" where
  "overlaps bl b = (circleRectCollision (p_x bl) (p_y bl) (p_r bl) b \<noteq> None)"

fun firstHit :: "projectile \<Rightarrow> block list \<Rightarrow> nat option" where
  "firstHit bl [] = None"
| "firstHit bl (b # bs) =
     (if b_alive b \<and> overlaps bl b then Some 0 else map_option Suc (firstHit bl bs))"

definition impactDamage :: "projectile \<Rightarrow> real" where
  "impactDamage bl = p_damage bl * (0.35 + clamp (len (p_vx bl) (p_vy bl) / 1200) 0 1.2)"

definition moved :: "env \<Rightarrow> real \<Rightarrow> projectile \<Rightarrow> projectile" where
  "moved e dt bl = outOfBounds e (ground e (integrate dt bl))"

text \<open>
  The properties that every state of a run has: the level and the power multiplier are at
  least 1, every live block has \<open>0 < hp \<le> maxHp\<close>, the damage of the projectile is
  positive, and an inert projectile does not reach below the ground line.
\<close>

definition sound :: "env \<Rightarrow> game \<Rightarrow> bool" where
  "sound e st \<longleftrightarrow>
     1 \<le> level st \<and> 1 \<le> powerMult st
     \<and> (\<forall>b\<in>set (blocks st). b_alive b \<longrightarrow> 0 < b_hp b \<and> b_hp b \<le> b_maxHp b)
     \<and> (\<forall>bl. ball st = Some bl \<longrightarrow>
            0 < p_damage bl \<and> (\<not> p_alive bl \<longrightarrow> p_y bl + p_r bl \<le> groundY e))"

subsection \<open>Example states\<close>

definition e0 :: env where
  "e0 = \<lparr>innerWidth = 1000, innerHeight = 600\<rparr>"

definition hud0 :: hud where
  "hud0 = \<lparr>elLevel = 4, elShots = 1, elPower = 1.24, elDestroyed = 0\<rparr>"

definition blockA :: block where
  "blockA = \<lparr>b_x = 45, b_y = 215, b_w = 43, b_h = 27, b_hp = 150, b_maxHp = 150,
             b_mat = Stone, b_alive = True\<rparr>"

definition blockB :: block where
  "blockB = \<lparr>b_x = 100, b_y = 200, b_w = 43, b_h = 27, b_hp = 150, b_maxHp = 150,
             b_mat = Stone, b_alive = True\<rparr>"

text \<open>A projectile falling straight down onto the left end of \<open>blockB\<close>.\<close>

definition shot :: projectile where
  "shot = \<lparr>p_x = 101, p_y = 170, p_vx = 0, p_vy = 560, p_r = 15, p_damage = 148.8,
           p_alive = True, p_traveled = 400\<rparr>"

definition exTwo :: game where
  "exTwo = \<lparr>level = 4, shots = 1, powerMult = 1.24, aiming = False, aimStart = (0, 0),
            aimNow = (0, 0), ball = Some shot, blocks = [blockA, blockB], totalBlocks = 2,
            last = 0, display = hud0\<rparr>"

definition exTwo1 :: game where
  "exTwo1 = update e0 (1 / 30) exTwo"

definition exTwo2 :: game where
  "exTwo2 = update e0 (1 / 30) exTwo1"

text \<open>The same with the two blocks in the other order.\<close>

definition exRepeat :: game where
  "exRepeat = exTwo\<lparr>blocks := [blockB, blockA]\<rparr>"

definition exRepeat1 :: game where
  "exRepeat1 = update e0 (1 / 30) exRepeat"

definition exRepeat2 :: game where
  "exRepeat2 = update e0 (1 / 30) exRepeat1"

text \<open>A projectile about to leave on the left, and one far above the top of the window.\<close>

definition shotLeft :: projectile where
  "shotLeft = \<lparr>p_x = - 190, p_y = 300, p_vx = - 600, p_vy = 0, p_r = 15, p_damage = 148.8,
               p_alive = True, p_traveled = 400\<rparr>"

definition exLeft :: game where
  "exLeft = exTwo\<lparr>ball := Some shotLeft\<rparr>"

definition shotTop :: projectile where
  "shotTop = \<lparr>p_x = 500, p_y = - 1000, p_vx = 0, p_vy = - 300, p_r = 15, p_damage = 148.8,
              p_alive = True, p_traveled = 1500\<rparr>"

definition exTop :: game where
  "exTop = exTwo\<lparr>ball := Some shotTop\<rparr>"

text \<open>A level without blocks, before and after a shot is fired.\<close>

definition exEmpty :: game where
  "exEmpty = exTwo\<lparr>ball := None, blocks := [], totalBlocks := 0, shots := 0\<rparr>"

definition exEmptyLive :: game where
  "exEmptyLive = exTwo\<lparr>blocks := [], totalBlocks := 0\<rparr>"

text \<open>The player is aiming while the projectile is in flight.\<close>

definition exAiming :: game where
  "exAiming = exTwo\<lparr>aiming := True, aimStart := (300, 400), aimNow := (50, 550)\<rparr>"

text \<open>The first level, and a shot released with the pointer on the cannon.\<close>

definition exStart :: game where
  "exStart = makeLevel e0 (level (initial 0 hud0)) (initial 0 hud0)"

definition exFired :: game where
  "exFired = onUp e0 (onDown (cannonPos e0) exStart)"

text \<open>
  A projectile that moves diagonally and overlaps \<open>blockB\<close> only, and a level whose
  last block is about to break.
\<close>

definition shotDiag :: projectile where
  "shotDiag = shot\<lparr>p_y := 190, p_vx := 300, p_vy := 400\<rparr>"

definition exLast :: game where
  "exLast = exTwo\<lparr>blocks := [blockB\<lparr>b_hp := 20\<rparr>], totalBlocks := 1\<rparr>"

text \<open>A slow projectile that lands beside a block standing on the ground.\<close>

definition blockG :: block where
  "blockG = \<lparr>b_x = 100, b_y = 469, b_w = 43, b_h = 27, b_hp = 150, b_maxHp = 150,
             b_mat = Stone, b_alive = True\<rparr>"

definition shotLand :: projectile where
  "shotLand = \<lparr>p_x = 90, p_y = 480, p_vx = 0, p_vy = 100, p_r = 15, p_damage = 148.8,
               p_alive = True, p_traveled = 900\<rparr>"

definition exLand :: game where
  "exLand = exTwo\<lparr>ball := Some shotLand, blocks := [blockG, blockA]\<rparr>"

definition exLand1 :: game where
  "exLand1 = update e0 (1 / 30) exLand"

section \<open>Properties\<close>

subsection \<open>The material catalog\<close>

lemma material_entry_simps:
  "material_entry Wood = \<lparr>m_hp = 90, m_color = ''#b87a4b'', m_score = 1.0\<rparr>"
  "material_entry Stone = \<lparr>m_hp = 150, m_color = ''#8b93a1'', m_score = 1.3\<rparr>"
  "material_entry Metal = \<lparr>m_hp = 220, m_color = ''#6b7a8f'', m_score = 1.6\<rparr>"
  "material_entry Glass = \<lparr>m_hp = 45, m_color = ''#7ad7ff'', m_score = 0.8\<rparr>"
  by (simp_all add: material_entry_def materials_def)

lemma material_hp_cases:
  "m_hp (material_entry mat) = (case mat of Wood \<Rightarrow> 90 | Stone \<Rightarrow> 150 | Metal \<Rightarrow> 220 | Glass \<Rightarrow> 45)"
  by (cases mat) (simp_all add: material_entry_simps)

lemma material_hp_pos: "0 < m_hp (material_entry mat)"
  by (cases mat) (simp_all add: material_entry_simps)

text \<open>
  C5, as stated: the catalog contains five materials. It fails: the catalog has four entries.
\<close>

theorem C5_five_materials_counterexample:
  "\<not> (length materials = 5)"
  by (simp add: materials_def)

text \<open>
  C5, amended: the material catalog contains four materials (wood, stone, metal, glass,
  each listed once), and their base hp values are strictly increasing in the toughness
  order glass < wood < stone < metal.
\<close>

theorem C5_catalog_four_materials_ordered:
  "length materials = 4
   \<and> distinct (map fst materials)
   \<and> set (map fst materials) = {Glass, Wood, Stone, Metal}
   \<and> m_hp (material_entry Glass) < m_hp (material_entry Wood)
   \<and> m_hp (material_entry Wood) < m_hp (material_entry Stone)
   \<and> m_hp (material_entry Stone) < m_hp (material_entry Metal)"
  by (auto simp add: materials_def material_entry_def)

subsection \<open>The collision loop and the step\<close>

lemma hitBlock_block:
  "snd (hitBlock bl b) = b\<lparr>b_hp := b_hp b - impactDamage bl,
                            b_alive := (if b_hp b - impactDamage bl \<le> 0 then False else b_alive b)\<rparr>"
  by (simp add: hitBlock_def impactDamage_def Let_def)

lemma hitBlock_ball_frame:
  "p_x (fst (hitBlock bl b)) = p_x bl" "p_y (fst (hitBlock bl b)) = p_y bl"
  "p_r (fst (hitBlock bl b)) = p_r bl" "p_damage (fst (hitBlock bl b)) = p_damage bl"
  "p_alive (fst (hitBlock bl b)) = p_alive bl" "p_traveled (fst (hitBlock bl b)) = p_traveled bl"
  by (simp_all add: hitBlock_def Let_def)

lemma collide_firstHit:
  "collide bl bs =
     (case firstHit bl bs of
        None \<Rightarrow> (bl, bs)
      | Some i \<Rightarrow> (fst (hitBlock bl (bs ! i)), bs[i := snd (hitBlock bl (bs ! i))]))"
proof (induction bs)
  case Nil
  show ?case by simp
next
  case (Cons b bs)
  show ?case
  proof (cases "b_alive b \<and> overlaps bl b")
    case True
    then show ?thesis
      by (auto simp add: overlaps_def split: prod.splits)
  next
    case False
    then have "collide bl (b # bs) = (fst (collide bl bs), b # snd (collide bl bs))"
      by (auto simp add: overlaps_def split: prod.splits option.splits)
    with False Cons show ?thesis
      by (auto split: option.splits)
  qed
qed

lemma firstHit_Some_iff:
  "firstHit bl bs = Some i \<longleftrightarrow>
     i < length bs \<and> b_alive (bs ! i) \<and> overlaps bl (bs ! i)
     \<and> (\<forall>j<i. \<not> (b_alive (bs ! j) \<and> overlaps bl (bs ! j)))"
proof (induction bs arbitrary: i)
  case Nil
  show ?case by simp
next
  case (Cons b bs)
  show ?case
  proof (cases "b_alive b \<and> overlaps bl b")
    case True
    then show ?thesis by (cases i) auto
  next
    case False
    show ?thesis
    proof (cases i)
      case 0
      with False show ?thesis by auto
    next
      case (Suc k)
      have "(\<forall>j<Suc k. \<not> (b_alive ((b # bs) ! j) \<and> overlaps bl ((b # bs) ! j)))
            \<longleftrightarrow> (\<forall>j<k. \<not> (b_alive (bs ! j) \<and> overlaps bl (bs ! j)))"
        using False by (auto simp add: less_Suc_eq_0_disj)
      with False Suc Cons.IH [of k] show ?thesis by auto
    qed
  qed
qed

lemma firstHit_None_iff:
  "firstHit bl bs = None \<longleftrightarrow> (\<forall>j<length bs. \<not> (b_alive (bs ! j) \<and> overlaps bl (bs ! j)))"
proof (induction bs)
  case Nil
  show ?case by simp
next
  case (Cons b bs)
  then show ?case by (auto simp add: less_Suc_eq_0_disj)
qed

lemma collide_length: "length (snd (collide bl bs)) = length bs"
  by (simp add: collide_firstHit split: option.splits)

lemma collide_ball_frame:
  "p_x (fst (collide bl bs)) = p_x bl" "p_y (fst (collide bl bs)) = p_y bl"
  "p_r (fst (collide bl bs)) = p_r bl" "p_damage (fst (collide bl bs)) = p_damage bl"
  "p_alive (fst (collide bl bs)) = p_alive bl" "p_traveled (fst (collide bl bs)) = p_traveled bl"
  by (simp_all add: collide_firstHit hitBlock_ball_frame split: option.splits)

lemma impactDamage_bounds:
  assumes "0 \<le> p_damage bl"
  shows "0.35 * p_damage bl \<le> impactDamage bl" "impactDamage bl \<le> 1.55 * p_damage bl"
proof -
  have c: "0 \<le> clamp (len (p_vx bl) (p_vy bl) / 1200) 0 (1.2::real)"
       "clamp (len (p_vx bl) (p_vy bl) / 1200) 0 (1.2::real) \<le> 1.2"
    by (simp_all add: clamp_def)
  have "p_damage bl * 0.35 \<le> p_damage bl * (0.35 + clamp (len (p_vx bl) (p_vy bl) / 1200) 0 1.2)"
    using assms c(1) by (intro mult_left_mono) auto
  then show "0.35 * p_damage bl \<le> impactDamage bl"
    by (simp add: impactDamage_def mult.commute)
  have "p_damage bl * (0.35 + clamp (len (p_vx bl) (p_vy bl) / 1200) 0 1.2) \<le> p_damage bl * 1.55"
    using assms c(2) by (intro mult_left_mono) auto
  then show "impactDamage bl \<le> 1.55 * p_damage bl"
    by (simp add: impactDamage_def mult.commute)
qed

lemma impactDamage_mono:
  assumes "0 \<le> p_damage bl" "p_damage bl' = p_damage bl"
    and "len (p_vx bl) (p_vy bl) \<le> len (p_vx bl') (p_vy bl')"
  shows "impactDamage bl \<le> impactDamage bl'"
proof -
  have "clamp (len (p_vx bl) (p_vy bl) / 1200) 0 (1.2::real)
        \<le> clamp (len (p_vx bl') (p_vy bl') / 1200) 0 1.2"
    using assms(3) by (auto simp add: clamp_def max_def min_def divide_right_mono)
  then show ?thesis
    unfolding impactDamage_def assms(2) using assms(1) by (intro mult_left_mono) auto
qed

lemma syncHud_fields:
  "level (syncHud st) = level st" "shots (syncHud st) = shots st"
  "powerMult (syncHud st) = powerMult st" "aiming (syncHud st) = aiming st"
  "aimStart (syncHud st) = aimStart st" "aimNow (syncHud st) = aimNow st"
  "ball (syncHud st) = ball st" "blocks (syncHud st) = blocks st"
  "totalBlocks (syncHud st) = totalBlocks st" "last (syncHud st) = last st"
  by (simp_all add: syncHud_def Let_def)

lemma makeLevel_fields:
  "level (makeLevel e n st) = level st" "shots (makeLevel e n st) = 0"
  "powerMult (makeLevel e n st) = 1 + (real n - 1) * 0.08"
  "ball (makeLevel e n st) = None" "blocks (makeLevel e n st) = levelBlocks e n"
  "totalBlocks (makeLevel e n st) = length (levelBlocks e n)"
  "aiming (makeLevel e n st) = aiming st" "aimNow (makeLevel e n st) = aimNow st"
  by (simp_all add: makeLevel_def syncHud_fields)

text \<open>The two outcomes of a step on a live projectile.\<close>

lemma update_idle:
  "ball st = None \<or> (\<exists>bl. ball st = Some bl \<and> \<not> p_alive bl) \<Longrightarrow> update e dt st = syncHud st"
  by (auto simp add: update_def)

lemma update_live:
  assumes "ball st = Some bl" "p_alive bl"
  shows "update e dt st =
     (if destroyedPct (totalBlocks st) (snd (collide (moved e dt bl) (blocks st))) \<ge> 0.85
      then syncHud (makeLevel e (level st + 1)
             (st\<lparr>blocks := snd (collide (moved e dt bl) (blocks st)),
                 ball := Some ((fst (collide (moved e dt bl) (blocks st)))\<lparr>p_alive := False\<rparr>),
                 level := level st + 1\<rparr>))
      else syncHud (st\<lparr>ball := Some (fst (collide (moved e dt bl) (blocks st))),
                       blocks := snd (collide (moved e dt bl) (blocks st))\<rparr>))"
  using assms by (simp add: update_def moved_def Let_def split: prod.splits)

lemma update_live_level:
  assumes "ball st = Some bl" "p_alive bl"
  shows "level (update e dt st) = level st \<longleftrightarrow>
         \<not> destroyedPct (totalBlocks st) (snd (collide (moved e dt bl) (blocks st))) \<ge> 0.85"
  by (simp add: update_live [OF assms] syncHud_fields makeLevel_fields)

lemma moved_frame:
  "p_r (moved e dt bl) = p_r bl" "p_damage (moved e dt bl) = p_damage bl"
  by (simp_all add: moved_def outOfBounds_def ground_def integrate_def Let_def)

lemma moved_grounded: "p_y (moved e dt bl) + p_r (moved e dt bl) \<le> groundY e"
  by (simp add: moved_def outOfBounds_def ground_def integrate_def Let_def)

lemma moved_outside:
  "p_x (moved e dt bl) < - 200 \<or> p_x (moved e dt bl) > innerWidth e + 200
     \<or> p_y (moved e dt bl) > innerHeight e + 300 \<Longrightarrow> \<not> p_alive (moved e dt bl)"
  by (auto simp add: moved_def outOfBounds_def split: if_splits)


lemma len_vertical: "len 0 v = \<bar>v\<bar>"
  by (simp add: len_def)

lemmas step_defs = update_def integrate_def ground_def outOfBounds_def circleRectCollision_def
  hitBlock_def destroyedPct_def syncHud_def round_js_def clamp_def groundY_def G_def AIR_def
  RESTITUTION_def FRICTION_def Let_def len_vertical

lemmas ex_defs = e0_def hud0_def blockA_def blockB_def shot_def exTwo_def

lemmas ex_all = ex_defs exLeft_def shotLeft_def exTop_def shotTop_def exEmpty_def exEmptyLive_def
  exAiming_def exRepeat_def

subsection \<open>The level generator\<close>

text \<open>
  A property of blocks that holds of every new block holds of every block of a level:
  the loops of the generator only append blocks made by \<^verbatim>\<open>addBlock\<close>.
\<close>

lemma fold_invariant:
  assumes "I g" and "\<And>i g. i \<in> set xs \<Longrightarrow> I g \<Longrightarrow> I (f i g)"
  shows "I (fold f xs g)"
  using assms by (induction xs arbitrary: g) auto

lemma set_addBlock: "set (addBlock x y w h mat bs) = insert (newBlock x y w h mat) (set bs)"
  by (simp add: addBlock_def)

lemma bw_bounds: "26 \<le> bw n" "bw n \<le> 44"
  by (simp_all add: bw_def clamp_def)

lemma bh_bounds: "18 \<le> bh n" "bh n \<le> 28"
  by (simp_all add: bh_def clamp_def)

lemma cityCell_inv:
  assumes "\<forall>b\<in>set (snd g). P b" and "\<And>x y m. P (newBlock x y (bw n) (bh n) m)"
  shows "\<forall>b\<in>set (snd (cityCell e n bx y x g)). P b"
  using assms by (cases g) (auto simp add: set_addBlock Let_def split: prod.splits)

lemma blocks_fold:
  assumes "\<forall>b\<in>set (snd g). P b"
    and "\<And>i g. i \<in> set xs \<Longrightarrow> \<forall>b\<in>set (snd g). P b \<Longrightarrow> \<forall>b\<in>set (snd (f i g)). P b"
  shows "\<forall>b\<in>set (snd (fold f xs g)). P b"
  using assms by (rule fold_invariant [where I = "\<lambda>g. \<forall>b\<in>set (snd g). P b"])

lemma cityBuilding_inv:
  assumes old: "\<forall>b\<in>set (snd g). P b" and new: "\<And>x y m. P (newBlock x y (bw n) (bh n) m)"
  shows "\<forall>b\<in>set (snd (cityBuilding e n k b g)). P b"
proof -
  obtain s bs where g: "g = (s, bs)" by (cases g)
  have loops: "\<forall>b\<in>set (snd (fold (\<lambda>y. fold (cityCell e n bx y) [0..<w]) [0..<h] (s', bs))). P b"
    for bx w h s'
  proof (rule blocks_fold)
    show "\<forall>b\<in>set (snd (s', bs)). P b" using old g by simp
  next
    fix y and g' :: "nat \<times> block list" assume "\<forall>b\<in>set (snd g'). P b"
    then show "\<forall>b\<in>set (snd (fold (cityCell e n bx y) [0..<w] g')). P b"
      by (rule blocks_fold) (rule cityCell_inv, assumption, rule new)
  qed
  show ?thesis
    unfolding g by (simp add: Let_def loops split: prod.splits)
qed

lemma buildCity_inv:
  assumes old: "\<forall>b\<in>set (snd g). P b" and new: "\<And>x y m. P (newBlock x y (bw n) (bh n) m)"
  shows "\<forall>b\<in>set (snd (buildCity e n g)). P b"
proof -
  obtain s bs where g: "g = (s, bs)" by (cases g)
  have "\<forall>b\<in>set (snd (fold (cityBuilding e n k) [0..<m] (s', bs))). P b" for k m s'
  proof (rule blocks_fold)
    show "\<forall>b\<in>set (snd (s', bs)). P b" using old g by simp
  next
    fix i and g' :: "nat \<times> block list" assume "\<forall>b\<in>set (snd g'). P b"
    then show "\<forall>b\<in>set (snd (cityBuilding e n k i g')). P b"
      by (rule cityBuilding_inv) (rule new)
  qed
  then show ?thesis
    unfolding g by (simp add: buildCity_def Let_def split: prod.splits)
qed

lemma decoCell_inv:
  assumes "\<forall>b\<in>set (snd g). P b" and "\<And>x y m. P (newBlock x y (bw n * 0.75) (bh n * 0.75) m)"
  shows "\<forall>b\<in>set (snd (decoCell e n i g)). P b"
  using assms by (cases g) (auto simp add: set_addBlock Let_def split: prod.splits)

lemma buildDeco_inv:
  assumes old: "\<forall>b\<in>set (snd g). P b"
    and new: "\<And>x y m. P (newBlock x y (bw n * 0.75) (bh n * 0.75) m)"
  shows "\<forall>b\<in>set (snd (buildDeco e n g)). P b"
proof -
  obtain s bs where g: "g = (s, bs)" by (cases g)
  have "\<forall>b\<in>set (snd (fold (decoCell e n) [0..<m] (s', bs))). P b" for m s'
  proof (rule blocks_fold)
    show "\<forall>b\<in>set (snd (s', bs)). P b" using old g by simp
  next
    fix i and g' :: "nat \<times> block list" assume "\<forall>b\<in>set (snd g'). P b"
    then show "\<forall>b\<in>set (snd (decoCell e n i g')). P b"
      by (rule decoCell_inv) (rule new)
  qed
  then show ?thesis
    unfolding g by (simp add: buildDeco_def Let_def split: prod.splits)
qed


lemma towerCell_inv:
  assumes "\<forall>b\<in>set (snd g). P b" and "\<And>x y m. P (newBlock x y (bw n) (bh n) m)"
  shows "\<forall>b\<in>set (snd (towerCell e n tx y x g)). P b"
  using assms by (cases g) (auto simp add: set_addBlock Let_def split: prod.splits)

lemma tower_inv:
  assumes old: "\<forall>b\<in>set (fst (snd g)). P b" and new: "\<And>x y m. P (newBlock x y (bw n) (bh n) m)"
  shows "\<forall>b\<in>set (fst (snd (tower e n gap tIdx g))). P b"
proof -
  obtain s bs tops where g: "g = (s, bs, tops)" by (cases g)
  have loops: "\<forall>b\<in>set (snd (fold (\<lambda>y. fold (towerCell e n tx y) [0..<2]) [0..<h] (s', bs))). P b"
    for tx h s'
  proof (rule blocks_fold)
    show "\<forall>b\<in>set (snd (s', bs)). P b" using old g by simp
  next
    fix y and g' :: "nat \<times> block list" assume "\<forall>b\<in>set (snd g'). P b"
    then show "\<forall>b\<in>set (snd (fold (towerCell e n tx y) [0..<2] g')). P b"
      by (rule blocks_fold) (rule towerCell_inv, assumption, rule new)
  qed
  have "\<forall>b\<in>set bs3. P b" if "fold (\<lambda>y. fold (towerCell e n tx y) [0..<2]) [0..<h] (s', bs) = (s3, bs3)"
    for tx h s' s3 bs3
    using loops [of tx h s'] that by simp
  then show ?thesis
    unfolding g by (auto simp add: Let_def split: prod.splits)
qed

lemma towerLoop_inv:
  assumes old: "\<forall>b\<in>set (snd g). P b" and new: "\<And>x y m. P (newBlock x y (bw n) (bh n) m)"
  shows "\<forall>b\<in>set (fst (snd (towerLoop e n g))). P b"
proof -
  have "\<forall>b\<in>set (fst (snd (fold (tower e n gap) [0..<m] (s', snd g, [])))). P b" for gap m s'
  proof (rule fold_invariant [where I = "\<lambda>g. \<forall>b\<in>set (fst (snd g)). P b"])
    show "\<forall>b\<in>set (fst (snd (s', snd g, []))). P b" using old by simp
  next
    fix i and g' :: "nat \<times> block list \<times> real list" assume "\<forall>b\<in>set (fst (snd g')). P b"
    then show "\<forall>b\<in>set (fst (snd (tower e n gap i g'))). P b"
      by (rule tower_inv) (rule new)
  qed
  then show ?thesis
    by (simp add: towerLoop_def Let_def split: prod.splits)
qed

lemma bridgeCell_inv:
  assumes "\<forall>b\<in>set (snd g). P b"
    and "\<And>x. P (newBlock x bridgeY (bw n * 0.72) (bh n * 0.65) Wood)"
  shows "\<forall>b\<in>set (snd (bridgeCell n bridgeX bridgeY i g)). P b"
  using assms by (cases g) (auto simp add: set_addBlock Let_def split: prod.splits)

lemma buildTowers_inv:
  assumes old: "\<forall>b\<in>set (snd g). P b" and new: "\<And>x y m. P (newBlock x y (bw n) (bh n) m)"
    and bridge: "\<And>x. P (newBlock x (Min (set (snd (snd (towerLoop e n g)))) - (bh n + 8))
                              (bw n * 0.72) (bh n * 0.65) Wood)"
  shows "\<forall>b\<in>set (snd (buildTowers e n g)). P b"
proof -
  obtain s2 bs2 tops where tl: "towerLoop e n g = (s2, bs2, tops)" by (cases "towerLoop e n g")
  have bs2: "\<forall>b\<in>set bs2. P b"
    using towerLoop_inv [of g P n e, OF old new] tl by simp
  have br: "\<forall>b\<in>set (snd (fold (bridgeCell n bridgeX (Min (set tops) - (bh n + 8))) [0..<m] (s', bs2))). P b"
    for bridgeX m s'
  proof (rule blocks_fold)
    show "\<forall>b\<in>set (snd (s', bs2)). P b" using bs2 by simp
  next
    fix i and g' :: "nat \<times> block list" assume "\<forall>b\<in>set (snd g'). P b"
    then show "\<forall>b\<in>set (snd (bridgeCell n bridgeX (Min (set tops) - (bh n + 8)) i g')). P b"
      using bridge tl by (intro bridgeCell_inv) simp_all
  qed
  show ?thesis
    using bs2 br by (simp add: buildTowers_def tl Let_def split: prod.splits)
qed

lemma wallCell_inv:
  assumes "\<forall>b\<in>set (snd g). P b"
    and "\<And>x m. P (newBlock x (groundY e - (real y + 1) * (bh n + 2)) (bw n) (bh n)
                     (if int y = wallHeight n - 1 then Stone else m))"
  shows "\<forall>b\<in>set (snd (wallCell e n startX y x g)). P b"
proof -
  obtain s bs where g: "g = (s, bs)" by (cases g)
  have a: "P (newBlock x' (groundY e - (real y + 1) * (bh n + 2)) (bw n) (bh n) Stone)"
    if "int y = wallHeight n - 1" for x'
    using assms(2) [of x' Stone] that by simp
  have b: "P (newBlock x' (groundY e - (real y + 1) * (bh n + 2)) (bw n) (bh n) m)"
    if "int y \<noteq> wallHeight n - 1" for x' m
    using assms(2) [of x' m] that by simp
  show ?thesis
    using assms(1) a b unfolding g
    by (auto simp add: set_addBlock Let_def split: prod.splits if_splits)
qed

lemma wallRow_inv:
  assumes "\<forall>b\<in>set (snd g). P b"
    and "\<And>x m. P (newBlock x (groundY e - (real y + 1) * (bh n + 2)) (bw n) (bh n)
                     (if int y = wallHeight n - 1 then Stone else m))"
  shows "\<forall>b\<in>set (snd (wallRow e n startX ww y g)). P b"
  unfolding wallRow_def using assms(1)
  by (rule blocks_fold) (rule wallCell_inv, assumption, rule assms(2))

lemma castleTowerCell_inv:
  assumes "\<forall>b\<in>set (snd g). P b" and "\<And>x y. P (newBlock x y (bw n) (bh n) Stone)"
  shows "\<forall>b\<in>set (snd (castleTowerCell e n tx y x g)). P b"
  using assms by (cases g) (auto simp add: set_addBlock Let_def split: prod.splits)

lemma battlementCell_inv:
  assumes "\<forall>b\<in>set (snd g). P b" and "\<And>x y. P (newBlock x y (bw n) (bh n * 0.7) Wood)"
  shows "\<forall>b\<in>set (snd (battlementCell e n tx towerH i g)). P b"
  using assms by (cases g) (auto simp add: set_addBlock Let_def split: prod.splits)

lemma castleTower_inv:
  assumes old: "\<forall>b\<in>set (snd g). P b" and tw: "\<And>x y. P (newBlock x y (bw n) (bh n) Stone)"
    and bt: "\<And>x y. P (newBlock x y (bw n) (bh n * 0.7) Wood)"
  shows "\<forall>b\<in>set (snd (castleTower e n towerW towerH tx g)). P b"
  unfolding castleTower_def
proof (rule blocks_fold)
  show "\<forall>b\<in>set (snd (fold (\<lambda>y. fold (castleTowerCell e n tx y) [0..<nat towerW]) [0..<nat towerH] g)). P b"
    using old
  proof (rule blocks_fold)
    fix y and g' :: "nat \<times> block list" assume "\<forall>b\<in>set (snd g'). P b"
    then show "\<forall>b\<in>set (snd (fold (castleTowerCell e n tx y) [0..<nat towerW] g')). P b"
      by (rule blocks_fold) (rule castleTowerCell_inv, assumption, rule tw)
  qed
next
  fix i and g' :: "nat \<times> block list" assume "\<forall>b\<in>set (snd g'). P b"
  then show "\<forall>b\<in>set (snd (battlementCell e n tx towerH i g')). P b"
    by (rule battlementCell_inv) (rule bt)
qed

lemma buildCastle_inv:
  assumes old: "\<forall>b\<in>set (snd g). P b"
    and wall: "\<And>x y m. y < nat (wallHeight n) \<Longrightarrow>
        P (newBlock x (groundY e - (real y + 1) * (bh n + 2)) (bw n) (bh n)
             (if int y = wallHeight n - 1 then Stone else m))"
    and tw: "\<And>x y. P (newBlock x y (bw n) (bh n) Stone)"
    and bt: "\<And>x y. P (newBlock x y (bw n) (bh n * 0.7) Wood)"
  shows "\<forall>b\<in>set (snd (buildCastle e n g)). P b"
proof -
  obtain s bs where g: "g = (s, bs)" by (cases g)
  have w: "\<forall>b\<in>set (snd (fold (wallRow e n startX ww) [0..<nat (wallHeight n)] (s', bs))). P b"
    for startX ww s'
  proof (rule blocks_fold)
    show "\<forall>b\<in>set (snd (s', bs)). P b" using old g by simp
  next
    fix y and g' :: "nat \<times> block list"
    assume "y \<in> set [0..<nat (wallHeight n)]" and "\<forall>b\<in>set (snd g'). P b"
    then show "\<forall>b\<in>set (snd (wallRow e n startX ww y g')). P b"
      by (intro wallRow_inv wall) simp_all
  qed
  have w': "\<forall>b\<in>set bs3. P b"
    if "fold (wallRow e n startX ww) [0..<nat (wallHeight n)] (s', bs) = (s3, bs3)"
    for startX ww s' s3 bs3
    using w [of startX ww s'] that by simp
  have t: "\<forall>b\<in>set (snd (fold (castleTower e n towerW towerH) txs g')). P b"
    if "\<forall>b\<in>set (snd g'). P b" for towerW towerH txs g'
    using that
  proof (rule blocks_fold)
    fix tx and g'' :: "nat \<times> block list" assume "\<forall>b\<in>set (snd g''). P b"
    then show "\<forall>b\<in>set (snd (castleTower e n towerW towerH tx g'')). P b"
      by (rule castleTower_inv) (rule tw, rule bt)
  qed
  obtain p1 s1 where r1: "r s = (p1, s1)" by (cases "r s")
  obtain p2 s2 where r2: "r s1 = (p2, s2)" by (cases "r s1")
  obtain s3 bs3 where wl: "fold (wallRow e n (baseX e + (p2 * 20 - 10)) (10 + \<lfloor>p1 * 6\<rfloor>))
      [0..<nat (wallHeight n)] (s2, bs) = (s3, bs3)"
    by (cases "fold (wallRow e n (baseX e + (p2 * 20 - 10)) (10 + \<lfloor>p1 * 6\<rfloor>))
      [0..<nat (wallHeight n)] (s2, bs)")
  obtain p4 s4 where r4: "r s3 = (p4, s4)" by (cases "r s3")
  have bs3: "\<forall>b\<in>set (snd (s4, bs3)). P b"
    using w' [OF wl] by simp
  have eq: "buildCastle e n (s, bs) =
      fold (castleTower e n 3 (wallHeight n + 2 + \<lfloor>p4 * 3\<rfloor>))
        [baseX e + (p2 * 20 - 10) - (bw n + 2) * 1.2,
         baseX e + (p2 * 20 - 10) + (bw n + 2) * (of_int (10 + \<lfloor>p1 * 6\<rfloor>) - of_int 3 + 0.2)]
        (s4, bs3)"
    by (simp only: buildCastle_def fst_conv snd_conv Let_def r1 r2 wl r4 prod.case)
  show ?thesis
    unfolding g eq by (rule t [OF bs3])
qed


lemma levelBlocks_alt:
  "levelBlocks e n =
     snd (buildDeco e n
       (case fst (themeOf n) of
          City \<Rightarrow> buildCity e n (snd (themeOf n), [])
        | Towers \<Rightarrow> buildTowers e n (snd (themeOf n), [])
        | Castle \<Rightarrow> buildCastle e n (snd (themeOf n), [])))"
  unfolding levelBlocks_def by (simp add: Let_def split_beta)

lemma newBlock_fields:
  "b_x (newBlock x y w h m) = x" "b_y (newBlock x y w h m) = y" "b_w (newBlock x y w h m) = w"
  "b_h (newBlock x y w h m) = h" "b_hp (newBlock x y w h m) = m_hp (material_entry m)"
  "b_maxHp (newBlock x y w h m) = m_hp (material_entry m)" "b_mat (newBlock x y w h m) = m"
  "b_alive (newBlock x y w h m)"
  by (simp_all add: newBlock_def Let_def)

lemma levelBlocks_fresh:
  "\<forall>b\<in>set (levelBlocks e n). b_alive b \<and> b_hp b = b_maxHp b \<and> 0 < b_hp b"
proof -
  let ?P = "\<lambda>b. b_alive b \<and> b_hp b = b_maxHp b \<and> 0 < b_hp b"
  have new: "?P (newBlock x y w h m)" for x y w h m
    by (simp add: newBlock_fields material_hp_pos)
  have e: "\<forall>b\<in>set (snd (snd (themeOf n), [] :: block list)). ?P b" by simp
  have "\<forall>b\<in>set (snd (case fst (themeOf n) of
          City \<Rightarrow> buildCity e n (snd (themeOf n), [])
        | Towers \<Rightarrow> buildTowers e n (snd (themeOf n), [])
        | Castle \<Rightarrow> buildCastle e n (snd (themeOf n), []))). ?P b"
  proof (cases "fst (themeOf n)")
    case Castle
    have "\<forall>b\<in>set (snd (buildCastle e n (snd (themeOf n), []))). ?P b"
      by (rule buildCastle_inv [OF e]) (rule new)+
    then show ?thesis unfolding Castle by (simp only: theme.case)
  next
    case City
    have "\<forall>b\<in>set (snd (buildCity e n (snd (themeOf n), []))). ?P b"
      by (rule buildCity_inv [OF e]) (rule new)
    then show ?thesis unfolding City by (simp only: theme.case)
  next
    case Towers
    have "\<forall>b\<in>set (snd (buildTowers e n (snd (themeOf n), []))). ?P b"
      by (rule buildTowers_inv [OF e]) (rule new)+
    then show ?thesis unfolding Towers by (simp only: theme.case)
  qed
  then show ?thesis
    unfolding levelBlocks_alt by (rule buildDeco_inv) (rule new)
qed

subsection \<open>Running the generator\<close>

text \<open>
  The cells of the generator without local bindings, so that a level can be computed by
  rewriting, and the stages of the castle layout.
\<close>

lemma r_num:
  "r s = (real ((1664525 * s + 1013904223) mod 4294967296) / 4294967296,
          (1664525 * s + 1013904223) mod 4294967296)"
  by (simp add: r_def Let_def)

lemma pickMat_flat:
  "pickMat n s =
     (if fst (r s) < 0.10 then Glass
      else if fst (r s) < 0.58 - 0.18 * clamp (real n / 18) 0 1 then Wood
      else if fst (r s) < 0.90 - 0.10 * clamp (real n / 18) 0 1 then Stone
      else Metal, snd (r s))"
  by (simp add: pickMat_def Let_def split_beta)

lemma wallCell_flat:
  "wallCell e n startX y x (s, bs) =
     (if fst (r s) > density n then (snd (r s), bs)
      else if int y = wallHeight n - 1
        then (snd (r s), addBlock (startX + real x * (bw n + 2)) (groundY e - (real y + 1) * (bh n + 2))
                           (bw n) (bh n) Stone bs)
        else (snd (pickMat n (snd (r s))),
              addBlock (startX + real x * (bw n + 2)) (groundY e - (real y + 1) * (bh n + 2))
                (bw n) (bh n) (fst (pickMat n (snd (r s)))) bs))"
  by (simp add: Let_def split_beta)

lemma castleTowerCell_flat:
  "castleTowerCell e n tx y x (s, bs) =
     (if fst (r s) > density n + 0.05 then (snd (r s), bs)
      else (snd (r s), addBlock (tx + real x * (bw n + 2)) (groundY e - (real y + 1) * (bh n + 2))
                     (bw n) (bh n) Stone bs))"
  by (simp add: Let_def split_beta)

lemma battlementCell_flat:
  "battlementCell e n tx towerH i (s, bs) =
     (if fst (r s) > 0.65 then (snd (r s), bs)
      else (snd (r s), addBlock (tx + real i * (bw n + 2)) (groundY e - (of_int towerH + 1) * (bh n + 2))
                     (bw n) (bh n * 0.7) Wood bs))"
  by (simp add: Let_def split_beta)

lemma decoCell_flat:
  "decoCell e n i (s, bs) =
     (if fst (r s) > 0.55 then (snd (r s), bs)
      else (snd (r (snd (r (snd (r (snd (r s))))))),
            addBlock (baseX e + fst (r (snd (r s))) * baseW e)
              (groundY e - (1 + of_int \<lfloor>fst (r (snd (r (snd (r s))))) * (of_int (floors n) + 1)\<rfloor>) * (bh n + 2))
              (bw n * 0.75) (bh n * 0.75)
              (if fst (r (snd (r (snd (r (snd (r s))))))) < 0.5 then Glass else Wood) bs))"
  by (simp add: Let_def split_beta)

lemma level1_params:
  "density 1 = 57 / 100" "bw 1 = 44" "bh 1 = 28" "floors 1 = 3"
  "wallHeight 1 = 3" "groundY e0 = 498" "baseX e0 = 550" "baseW e0 = 380"
  by (simp_all add: density_def bw_def bh_def floors_def wallHeight_def groundY_def baseX_def baseW_def
      clamp_def e0_def)

lemmas params1 = level1_params [unfolded One_nat_def]

lemmas cell_flat = wallCell_flat castleTowerCell_flat battlementCell_flat decoCell_flat pickMat_flat
  r_num addBlock_def upt_rec clamp_def

lemmas cell_simps = wallCell.simps castleTowerCell.simps battlementCell.simps decoCell.simps

lemma c1_row2:
  "wallRow e0 1 (586221330605 / 1073741824) 10 2 (3906782450, bs) =
     (4124517148, bs @ [newBlock (586221330605 / 1073741824) 408 44 28 Stone,
      newBlock (635613454509 / 1073741824) 408 44 28 Stone,
      newBlock (685005578413 / 1073741824) 408 44 28 Stone,
      newBlock (734397702317 / 1073741824) 408 44 28 Stone,
      newBlock (882574074029 / 1073741824) 408 44 28 Stone,
      newBlock (931966197933 / 1073741824) 408 44 28 Stone])"
  by (simp add: wallRow_def cell_flat params1 del: cell_simps)

lemma buildCastle_staged:
  assumes "r (fst g) = (p1, s1)" and "r s1 = (p2, s2)"
    and "fold (wallRow e n (baseX e + (p2 * 20 - 10)) (10 + \<lfloor>p1 * 6\<rfloor>)) [0..<nat (wallHeight n)] (s2, snd g)
           = (s3, bs3)"
    and "r s3 = (p4, s4)"
  shows "buildCastle e n g =
     fold (castleTower e n 3 (wallHeight n + 2 + \<lfloor>p4 * 3\<rfloor>))
       [baseX e + (p2 * 20 - 10) - (bw n + 2) * 1.2,
        baseX e + (p2 * 20 - 10) + (bw n + 2) * (of_int (10 + \<lfloor>p1 * 6\<rfloor>) - 3 + 0.2)] (s4, bs3)"
  using assms by (simp add: buildCastle_def Let_def)

lemma levelBlocks_castle_staged:
  assumes "themeOf n = (Castle, s0)" and "buildCastle e n (s0, []) = (s5, bs5)"
    and "r s5 = (p, s6)"
    and "fold (decoCell e n) [0..<nat (6 + \<lfloor>p * 10\<rfloor>)] (s6, bs5) = (s7, bs7)"
  shows "levelBlocks e n = bs7"
  using assms by (simp add: levelBlocks_def buildDeco_def Let_def)

lemma themeOf_1: "themeOf 1 = (Castle, 607267327)"
  by (simp add: themeOf_def rand_def r_num)

lemma level1_wall:
  "fold (wallRow e0 1 (baseX e0 + (1280149129 / 4294967296 * 20 - 10)) (10 + \<lfloor>349099945 / 2147483648 * 6 :: real\<rfloor>))
     [0..<nat (wallHeight 1)] (1280149129, snd (607267327 :: nat, [] :: block list)) =
     (4124517148, [newBlock (586221330605 / 1073741824) 468 44 28 Wood,
      newBlock (635613454509 / 1073741824) 468 44 28 Wood,
      newBlock (882574074029 / 1073741824) 468 44 28 Wood,
      newBlock (931966197933 / 1073741824) 468 44 28 Wood,
      newBlock (981358321837 / 1073741824) 468 44 28 Wood,
      newBlock (635613454509 / 1073741824) 438 44 28 Metal,
      newBlock (685005578413 / 1073741824) 438 44 28 Glass,
      newBlock (783789826221 / 1073741824) 438 44 28 Wood,
      newBlock (833181950125 / 1073741824) 438 44 28 Wood,
      newBlock (882574074029 / 1073741824) 438 44 28 Wood,
      newBlock (981358321837 / 1073741824) 438 44 28 Stone,
      newBlock (586221330605 / 1073741824) 408 44 28 Stone,
      newBlock (635613454509 / 1073741824) 408 44 28 Stone,
      newBlock (685005578413 / 1073741824) 408 44 28 Stone,
      newBlock (734397702317 / 1073741824) 408 44 28 Stone,
      newBlock (882574074029 / 1073741824) 408 44 28 Stone,
      newBlock (931966197933 / 1073741824) 408 44 28 Stone])"
  by (simp add: wallRow_def cell_flat params1 del: cell_simps)

lemma level1_castle:
  "buildCastle e0 1 (607267327, []) =
     (789014779, [newBlock (586221330605 / 1073741824) 468 44 28 Wood,
      newBlock (635613454509 / 1073741824) 468 44 28 Wood,
      newBlock (882574074029 / 1073741824) 468 44 28 Wood,
      newBlock (931966197933 / 1073741824) 468 44 28 Wood,
      newBlock (981358321837 / 1073741824) 468 44 28 Wood,
      newBlock (635613454509 / 1073741824) 438 44 28 Metal,
      newBlock (685005578413 / 1073741824) 438 44 28 Glass,
      newBlock (783789826221 / 1073741824) 438 44 28 Wood,
      newBlock (833181950125 / 1073741824) 438 44 28 Wood,
      newBlock (882574074029 / 1073741824) 438 44 28 Wood,
      newBlock (981358321837 / 1073741824) 438 44 28 Stone,
      newBlock (586221330605 / 1073741824) 408 44 28 Stone,
      newBlock (635613454509 / 1073741824) 408 44 28 Stone,
      newBlock (685005578413 / 1073741824) 408 44 28 Stone,
      newBlock (734397702317 / 1073741824) 408 44 28 Stone,
      newBlock (882574074029 / 1073741824) 408 44 28 Stone,
      newBlock (931966197933 / 1073741824) 408 44 28 Stone,
      newBlock (2634753909601 / 5368709120) 468 44 28 Stone,
      newBlock (2881714529121 / 5368709120) 468 44 28 Stone,
      newBlock (2634753909601 / 5368709120) 438 44 28 Stone,
      newBlock (3128675148641 / 5368709120) 438 44 28 Stone,
      newBlock (3128675148641 / 5368709120) 408 44 28 Stone,
      newBlock (2881714529121 / 5368709120) 378 44 28 Stone,
      newBlock (3128675148641 / 5368709120) 378 44 28 Stone,
      newBlock (2634753909601 / 5368709120) 348 44 28 Stone,
      newBlock (3128675148641 / 5368709120) 348 44 28 Stone,
      newBlock (2634753909601 / 5368709120) 318 44 28 Stone,
      newBlock (3128675148641 / 5368709120) 318 44 28 Stone,
      newBlock (2634753909601 / 5368709120) 288 44 28 Stone,
      newBlock (2881714529121 / 5368709120) 258 44 (98 / 5) Wood,
      newBlock (3128675148641 / 5368709120) 258 44 (98 / 5) Wood,
      newBlock (4709223113569 / 5368709120) 468 44 28 Stone,
      newBlock (5203144352609 / 5368709120) 468 44 28 Stone,
      newBlock (4709223113569 / 5368709120) 438 44 28 Stone,
      newBlock (4956183733089 / 5368709120) 438 44 28 Stone,
      newBlock (4709223113569 / 5368709120) 408 44 28 Stone,
      newBlock (5203144352609 / 5368709120) 408 44 28 Stone,
      newBlock (4709223113569 / 5368709120) 378 44 28 Stone,
      newBlock (4956183733089 / 5368709120) 378 44 28 Stone,
      newBlock (5203144352609 / 5368709120) 378 44 28 Stone,
      newBlock (4709223113569 / 5368709120) 348 44 28 Stone,
      newBlock (4956183733089 / 5368709120) 348 44 28 Stone,
      newBlock (4709223113569 / 5368709120) 318 44 28 Stone,
      newBlock (4956183733089 / 5368709120) 318 44 28 Stone,
      newBlock (4709223113569 / 5368709120) 288 44 28 Stone,
      newBlock (4956183733089 / 5368709120) 288 44 28 Stone,
      newBlock (5203144352609 / 5368709120) 288 44 28 Stone,
      newBlock (4709223113569 / 5368709120) 258 44 (98 / 5) Wood,
      newBlock (5203144352609 / 5368709120) 258 44 (98 / 5) Wood])"
proof -
  have 1: "r (fst (607267327 :: nat, [] :: block list)) = (349099945 / 2147483648, 698199890)"
    by (simp add: r_num)
  have 2: "r 698199890 = (1280149129 / 4294967296, 1280149129)"
    by (simp add: r_num)
  have 4: "r 4124517148 = (3725910987 / 4294967296, 3725910987)"
    by (simp add: r_num)
  show ?thesis
    unfolding buildCastle_staged [OF 1 2 level1_wall 4]
    by (simp add: castleTower_def cell_flat params1 del: cell_simps)
qed

lemma level1_blocks:
  "levelBlocks e0 1 =
     [newBlock (586221330605 / 1073741824) 468 44 28 Wood,
      newBlock (635613454509 / 1073741824) 468 44 28 Wood,
      newBlock (882574074029 / 1073741824) 468 44 28 Wood,
      newBlock (931966197933 / 1073741824) 468 44 28 Wood,
      newBlock (981358321837 / 1073741824) 468 44 28 Wood,
      newBlock (635613454509 / 1073741824) 438 44 28 Metal,
      newBlock (685005578413 / 1073741824) 438 44 28 Glass,
      newBlock (783789826221 / 1073741824) 438 44 28 Wood,
      newBlock (833181950125 / 1073741824) 438 44 28 Wood,
      newBlock (882574074029 / 1073741824) 438 44 28 Wood,
      newBlock (981358321837 / 1073741824) 438 44 28 Stone,
      newBlock (586221330605 / 1073741824) 408 44 28 Stone,
      newBlock (635613454509 / 1073741824) 408 44 28 Stone,
      newBlock (685005578413 / 1073741824) 408 44 28 Stone,
      newBlock (734397702317 / 1073741824) 408 44 28 Stone,
      newBlock (882574074029 / 1073741824) 408 44 28 Stone,
      newBlock (931966197933 / 1073741824) 408 44 28 Stone,
      newBlock (2634753909601 / 5368709120) 468 44 28 Stone,
      newBlock (2881714529121 / 5368709120) 468 44 28 Stone,
      newBlock (2634753909601 / 5368709120) 438 44 28 Stone,
      newBlock (3128675148641 / 5368709120) 438 44 28 Stone,
      newBlock (3128675148641 / 5368709120) 408 44 28 Stone,
      newBlock (2881714529121 / 5368709120) 378 44 28 Stone,
      newBlock (3128675148641 / 5368709120) 378 44 28 Stone,
      newBlock (2634753909601 / 5368709120) 348 44 28 Stone,
      newBlock (3128675148641 / 5368709120) 348 44 28 Stone,
      newBlock (2634753909601 / 5368709120) 318 44 28 Stone,
      newBlock (3128675148641 / 5368709120) 318 44 28 Stone,
      newBlock (2634753909601 / 5368709120) 288 44 28 Stone,
      newBlock (2881714529121 / 5368709120) 258 44 (98 / 5) Wood,
      newBlock (3128675148641 / 5368709120) 258 44 (98 / 5) Wood,
      newBlock (4709223113569 / 5368709120) 468 44 28 Stone,
      newBlock (5203144352609 / 5368709120) 468 44 28 Stone,
      newBlock (4709223113569 / 5368709120) 438 44 28 Stone,
      newBlock (4956183733089 / 5368709120) 438 44 28 Stone,
      newBlock (4709223113569 / 5368709120) 408 44 28 Stone,
      newBlock (5203144352609 / 5368709120) 408 44 28 Stone,
      newBlock (4709223113569 / 5368709120) 378 44 28 Stone,
      newBlock (4956183733089 / 5368709120) 378 44 28 Stone,
      newBlock (5203144352609 / 5368709120) 378 44 28 Stone,
      newBlock (4709223113569 / 5368709120) 348 44 28 Stone,
      newBlock (4956183733089 / 5368709120) 348 44 28 Stone,
      newBlock (4709223113569 / 5368709120) 318 44 28 Stone,
      newBlock (4956183733089 / 5368709120) 318 44 28 Stone,
      newBlock (4709223113569 / 5368709120) 288 44 28 Stone,
      newBlock (4956183733089 / 5368709120) 288 44 28 Stone,
      newBlock (5203144352609 / 5368709120) 288 44 28 Stone,
      newBlock (4709223113569 / 5368709120) 258 44 (98 / 5) Wood,
      newBlock (5203144352609 / 5368709120) 258 44 (98 / 5) Wood,
      newBlock (3899386305 / 4194304) 438 33 21 Glass,
      newBlock (158612114515 / 268435456) 438 33 21 Glass,
      newBlock (122406145035 / 134217728) 408 33 21 Glass,
      newBlock (201199974025 / 268435456) 378 33 21 Wood,
      newBlock (868140997425 / 1073741824) 378 33 21 Glass,
      newBlock (300842193525 / 536870912) 438 33 21 Wood,
      newBlock (325974062955 / 536870912) 468 33 21 Glass,
      newBlock (454058320065 / 536870912) 438 33 21 Glass,
      newBlock (952576139005 / 1073741824) 378 33 21 Glass]"
proof -
  have 3: "r 789014779 = (1779639567 / 2147483648, 3559279134)"
    by (simp add: r_num)
  have 4: "fold (decoCell e0 1) [0..<nat (6 + \<lfloor>1779639567 / 2147483648 * 10 :: real\<rfloor>)]
       (3559279134, [newBlock (586221330605 / 1073741824) 468 44 28 Wood,
        newBlock (635613454509 / 1073741824) 468 44 28 Wood,
        newBlock (882574074029 / 1073741824) 468 44 28 Wood,
        newBlock (931966197933 / 1073741824) 468 44 28 Wood,
        newBlock (981358321837 / 1073741824) 468 44 28 Wood,
        newBlock (635613454509 / 1073741824) 438 44 28 Metal,
        newBlock (685005578413 / 1073741824) 438 44 28 Glass,
        newBlock (783789826221 / 1073741824) 438 44 28 Wood,
        newBlock (833181950125 / 1073741824) 438 44 28 Wood,
        newBlock (882574074029 / 1073741824) 438 44 28 Wood,
        newBlock (981358321837 / 1073741824) 438 44 28 Stone,
        newBlock (586221330605 / 1073741824) 408 44 28 Stone,
        newBlock (635613454509 / 1073741824) 408 44 28 Stone,
        newBlock (685005578413 / 1073741824) 408 44 28 Stone,
        newBlock (734397702317 / 1073741824) 408 44 28 Stone,
        newBlock (882574074029 / 1073741824) 408 44 28 Stone,
        newBlock (931966197933 / 1073741824) 408 44 28 Stone,
        newBlock (2634753909601 / 5368709120) 468 44 28 Stone,
        newBlock (2881714529121 / 5368709120) 468 44 28 Stone,
        newBlock (2634753909601 / 5368709120) 438 44 28 Stone,
        newBlock (3128675148641 / 5368709120) 438 44 28 Stone,
        newBlock (3128675148641 / 5368709120) 408 44 28 Stone,
        newBlock (2881714529121 / 5368709120) 378 44 28 Stone,
        newBlock (3128675148641 / 5368709120) 378 44 28 Stone,
        newBlock (2634753909601 / 5368709120) 348 44 28 Stone,
        newBlock (3128675148641 / 5368709120) 348 44 28 Stone,
        newBlock (2634753909601 / 5368709120) 318 44 28 Stone,
        newBlock (3128675148641 / 5368709120) 318 44 28 Stone,
        newBlock (2634753909601 / 5368709120) 288 44 28 Stone,
        newBlock (2881714529121 / 5368709120) 258 44 (98 / 5) Wood,
        newBlock (3128675148641 / 5368709120) 258 44 (98 / 5) Wood,
        newBlock (4709223113569 / 5368709120) 468 44 28 Stone,
        newBlock (5203144352609 / 5368709120) 468 44 28 Stone,
        newBlock (4709223113569 / 5368709120) 438 44 28 Stone,
        newBlock (4956183733089 / 5368709120) 438 44 28 Stone,
        newBlock (4709223113569 / 5368709120) 408 44 28 Stone,
        newBlock (5203144352609 / 5368709120) 408 44 28 Stone,
        newBlock (4709223113569 / 5368709120) 378 44 28 Stone,
        newBlock (4956183733089 / 5368709120) 378 44 28 Stone,
        newBlock (5203144352609 / 5368709120) 378 44 28 Stone,
        newBlock (4709223113569 / 5368709120) 348 44 28 Stone,
        newBlock (4956183733089 / 5368709120) 348 44 28 Stone,
        newBlock (4709223113569 / 5368709120) 318 44 28 Stone,
        newBlock (4956183733089 / 5368709120) 318 44 28 Stone,
        newBlock (4709223113569 / 5368709120) 288 44 28 Stone,
        newBlock (4956183733089 / 5368709120) 288 44 28 Stone,
        newBlock (5203144352609 / 5368709120) 288 44 28 Stone,
        newBlock (4709223113569 / 5368709120) 258 44 (98 / 5) Wood,
        newBlock (5203144352609 / 5368709120) 258 44 (98 / 5) Wood]) =
     (60551757, [newBlock (586221330605 / 1073741824) 468 44 28 Wood,
      newBlock (635613454509 / 1073741824) 468 44 28 Wood,
      newBlock (882574074029 / 1073741824) 468 44 28 Wood,
      newBlock (931966197933 / 1073741824) 468 44 28 Wood,
      newBlock (981358321837 / 1073741824) 468 44 28 Wood,
      newBlock (635613454509 / 1073741824) 438 44 28 Metal,
      newBlock (685005578413 / 1073741824) 438 44 28 Glass,
      newBlock (783789826221 / 1073741824) 438 44 28 Wood,
      newBlock (833181950125 / 1073741824) 438 44 28 Wood,
      newBlock (882574074029 / 1073741824) 438 44 28 Wood,
      newBlock (981358321837 / 1073741824) 438 44 28 Stone,
      newBlock (586221330605 / 1073741824) 408 44 28 Stone,
      newBlock (635613454509 / 1073741824) 408 44 28 Stone,
      newBlock (685005578413 / 1073741824) 408 44 28 Stone,
      newBlock (734397702317 / 1073741824) 408 44 28 Stone,
      newBlock (882574074029 / 1073741824) 408 44 28 Stone,
      newBlock (931966197933 / 1073741824) 408 44 28 Stone,
      newBlock (2634753909601 / 5368709120) 468 44 28 Stone,
      newBlock (2881714529121 / 5368709120) 468 44 28 Stone,
      newBlock (2634753909601 / 5368709120) 438 44 28 Stone,
      newBlock (3128675148641 / 5368709120) 438 44 28 Stone,
      newBlock (3128675148641 / 5368709120) 408 44 28 Stone,
      newBlock (2881714529121 / 5368709120) 378 44 28 Stone,
      newBlock (3128675148641 / 5368709120) 378 44 28 Stone,
      newBlock (2634753909601 / 5368709120) 348 44 28 Stone,
      newBlock (3128675148641 / 5368709120) 348 44 28 Stone,
      newBlock (2634753909601 / 5368709120) 318 44 28 Stone,
      newBlock (3128675148641 / 5368709120) 318 44 28 Stone,
      newBlock (2634753909601 / 5368709120) 288 44 28 Stone,
      newBlock (2881714529121 / 5368709120) 258 44 (98 / 5) Wood,
      newBlock (3128675148641 / 5368709120) 258 44 (98 / 5) Wood,
      newBlock (4709223113569 / 5368709120) 468 44 28 Stone,
      newBlock (5203144352609 / 5368709120) 468 44 28 Stone,
      newBlock (4709223113569 / 5368709120) 438 44 28 Stone,
      newBlock (4956183733089 / 5368709120) 438 44 28 Stone,
      newBlock (4709223113569 / 5368709120) 408 44 28 Stone,
      newBlock (5203144352609 / 5368709120) 408 44 28 Stone,
      newBlock (4709223113569 / 5368709120) 378 44 28 Stone,
      newBlock (4956183733089 / 5368709120) 378 44 28 Stone,
      newBlock (5203144352609 / 5368709120) 378 44 28 Stone,
      newBlock (4709223113569 / 5368709120) 348 44 28 Stone,
      newBlock (4956183733089 / 5368709120) 348 44 28 Stone,
      newBlock (4709223113569 / 5368709120) 318 44 28 Stone,
      newBlock (4956183733089 / 5368709120) 318 44 28 Stone,
      newBlock (4709223113569 / 5368709120) 288 44 28 Stone,
      newBlock (4956183733089 / 5368709120) 288 44 28 Stone,
      newBlock (5203144352609 / 5368709120) 288 44 28 Stone,
      newBlock (4709223113569 / 5368709120) 258 44 (98 / 5) Wood,
      newBlock (5203144352609 / 5368709120) 258 44 (98 / 5) Wood,
      newBlock (3899386305 / 4194304) 438 33 21 Glass,
      newBlock (158612114515 / 268435456) 438 33 21 Glass,
      newBlock (122406145035 / 134217728) 408 33 21 Glass,
      newBlock (201199974025 / 268435456) 378 33 21 Wood,
      newBlock (868140997425 / 1073741824) 378 33 21 Glass,
      newBlock (300842193525 / 536870912) 438 33 21 Wood,
      newBlock (325974062955 / 536870912) 468 33 21 Glass,
      newBlock (454058320065 / 536870912) 438 33 21 Glass,
      newBlock (952576139005 / 1073741824) 378 33 21 Glass])"
    by (simp add: cell_flat params1 del: cell_simps)
  show ?thesis
    by (rule levelBlocks_castle_staged [OF themeOf_1 level1_castle 3 4])
qed

text \<open>The stages of the towers layout, and level 16.\<close>

lemma towerCell_flat:
  "towerCell e n tx y x (s, bs) =
     (if fst (r s) > density n + 0.08 then (snd (r s), bs)
      else (snd (pickMat n (snd (r s))),
            addBlock (tx + real x * (bw n + 2)) (groundY e - (real y + 1) * (bh n + 2))
              (bw n) (bh n) (fst (pickMat n (snd (r s)))) bs))"
  by (simp add: Let_def split_beta)

lemma bridgeCell_flat:
  "bridgeCell n bridgeX bridgeY i (s, bs) =
     (if fst (r s) > 0.75 then (snd (r s), bs)
      else (snd (r s), addBlock (bridgeX + real i * (bw n * 0.78)) bridgeY (bw n * 0.72) (bh n * 0.65)
                         Wood bs))"
  by (simp add: Let_def split_beta)

lemma tower_staged:
  assumes "r s = (p1, s1)" and "r s1 = (p2, s2)"
    and "tx = baseX e + gap * (real tIdx + 1) + (p1 * 18 - 9)"
    and "h = clamp (4 + \<lfloor>p2 * of_int (floors n)\<rfloor>) 4 (floors n)"
    and "fold (\<lambda>y. fold (towerCell e n tx y) [0..<2]) [0..<nat h] (s2, bs) = (s3, bs3)"
    and "topY = groundY e - of_int h * (bh n + 2)"
  shows "tower e n gap tIdx (s, bs, topYs) = (s3, bs3, topYs @ [topY])"
  using assms by (simp add: Let_def del: towerCell.simps)

lemma towerLoop_staged:
  assumes "towersOf (fst g) = (2, s1)" and "gap = baseW e / 3"
    and "tower e n gap 0 (s1, snd g, []) = t1" and "tower e n gap 1 t1 = t2"
  shows "towerLoop e n g = t2"
  using assms(1,3,4) unfolding assms(2)
  by (simp add: towerLoop_def Let_def upt_rec del: tower.simps)

lemma buildTowers_staged:
  assumes "towersOf (fst g) = (towers, s1)" and "2 \<le> towers"
    and "towerLoop e n g = (s2, bs2, topYs)" and "r s2 = (p3, s3)"
    and "brX = baseX e + baseW e / (of_int towers + 1) * 1.1"
    and "brY = Min (set topYs) - (bh n + 8)"
    and "k = nat (9 + \<lfloor>p3 * 5\<rfloor>)"
    and "fold (bridgeCell n brX brY) [0..<k] (s3, bs2) = res"
  shows "buildTowers e n g = res"
  using assms by (simp add: buildTowers_def Let_def del: bridgeCell.simps)

lemma levelBlocks_towers_staged:
  assumes "themeOf n = (Towers, s0)" and "buildTowers e n (s0, []) = (s5, bs5)"
    and "r s5 = (p, s6)" and "k = nat (6 + \<lfloor>p * 10\<rfloor>)"
    and "fold (decoCell e n) [0..<k] (s6, bs5) = (s7, bs7)"
  shows "levelBlocks e n = bs7"
  using assms by (simp add: levelBlocks_def buildDeco_def Let_def del: decoCell.simps)

lemma towerTops_staged:
  assumes "themeOf n = (th, s0)" and "towerLoop e n (s0, []) = (s2, bs2, topYs)"
  shows "towerTops e n = topYs"
  using assms by (simp add: towerTops_def)

lemma level16_params:
  "density 16 = 17 / 20" "bw 16 = 38" "bh 16 = 24" "floors 16 = 8"
  by (simp_all add: density_def bw_def bh_def floors_def clamp_def)

lemmas tower_flat = towerCell_flat bridgeCell_flat decoCell_flat pickMat_flat r_num addBlock_def
  upt_rec clamp_def level16_params level1_params(6-8)

lemmas tower_simps = towerCell.simps bridgeCell.simps decoCell.simps

lemma themeOf_16: "themeOf 16 = (Towers, 4075337972)"
  by (simp add: themeOf_def rand_def r_num)

lemma level16_towersOf: "towersOf (fst (4075337972 :: nat, [] :: block list)) = (2, 1539674051)"
  by (simp add: towersOf_def r_num)

lemma level16_tower1:
  "tower e0 16 (380 / 3) 0 (1539674051, snd (4075337972 :: nat, [] :: block list), []) =
     (3890831846,
      [newBlock (2188481283761 / 3221225472) 472 38 24 Stone,
       newBlock (2317330302641 / 3221225472) 472 38 24 Wood,
       newBlock (2317330302641 / 3221225472) 446 38 24 Stone,
       newBlock (2188481283761 / 3221225472) 420 38 24 Metal,
       newBlock (2317330302641 / 3221225472) 420 38 24 Metal,
       newBlock (2188481283761 / 3221225472) 394 38 24 Stone,
       newBlock (2317330302641 / 3221225472) 394 38 24 Wood,
       newBlock (2188481283761 / 3221225472) 368 38 24 Metal,
       newBlock (2317330302641 / 3221225472) 368 38 24 Stone,
       newBlock (2188481283761 / 3221225472) 342 38 24 Stone,
       newBlock (2317330302641 / 3221225472) 342 38 24 Metal,
       newBlock (2188481283761 / 3221225472) 316 38 24 Metal,
       newBlock (2317330302641 / 3221225472) 316 38 24 Wood,
       newBlock (2188481283761 / 3221225472) 290 38 24 Metal,
       newBlock (2317330302641 / 3221225472) 290 38 24 Metal],
      [] @ [290])"
proof (rule tower_staged)
  show "r 1539674051 = (1399126307 / 2147483648, 2798252614)"
    by (simp add: r_num)
  show "r 2798252614 = (3557696749 / 4294967296, 3557696749)"
    by (simp add: r_num)
  show "2188481283761 / 3221225472 = baseX e0 + 380 / 3 * (real 0 + 1) + (1399126307 / 2147483648 * 18 - 9)"
    by (simp add: level1_params)
  show "(8 :: int) = clamp (4 + \<lfloor>3557696749 / 4294967296 * of_int (floors 16) :: real\<rfloor>) 4 (floors 16)"
    by (simp add: level16_params clamp_def)
  show "fold (\<lambda>y. fold (towerCell e0 16 (2188481283761 / 3221225472) y) [0..<2]) [0..<nat 8]
          (3557696749, snd (4075337972 :: nat, [] :: block list)) =
     (3890831846,
      [newBlock (2188481283761 / 3221225472) 472 38 24 Stone,
       newBlock (2317330302641 / 3221225472) 472 38 24 Wood,
       newBlock (2317330302641 / 3221225472) 446 38 24 Stone,
       newBlock (2188481283761 / 3221225472) 420 38 24 Metal,
       newBlock (2317330302641 / 3221225472) 420 38 24 Metal,
       newBlock (2188481283761 / 3221225472) 394 38 24 Stone,
       newBlock (2317330302641 / 3221225472) 394 38 24 Wood,
       newBlock (2188481283761 / 3221225472) 368 38 24 Metal,
       newBlock (2317330302641 / 3221225472) 368 38 24 Stone,
       newBlock (2188481283761 / 3221225472) 342 38 24 Stone,
       newBlock (2317330302641 / 3221225472) 342 38 24 Metal,
       newBlock (2188481283761 / 3221225472) 316 38 24 Metal,
       newBlock (2317330302641 / 3221225472) 316 38 24 Wood,
       newBlock (2188481283761 / 3221225472) 290 38 24 Metal,
       newBlock (2317330302641 / 3221225472) 290 38 24 Metal])"
    by (simp add: tower_flat del: tower_simps)
  show "290 = groundY e0 - of_int 8 * (bh 16 + 2)"
    by (simp add: level16_params level1_params)
qed

lemma level16_tower2:
  "tower e0 16 (380 / 3) 1
     (3890831846,
      [newBlock (2188481283761 / 3221225472) 472 38 24 Stone,
       newBlock (2317330302641 / 3221225472) 472 38 24 Wood,
       newBlock (2317330302641 / 3221225472) 446 38 24 Stone,
       newBlock (2188481283761 / 3221225472) 420 38 24 Metal,
       newBlock (2317330302641 / 3221225472) 420 38 24 Metal,
       newBlock (2188481283761 / 3221225472) 394 38 24 Stone,
       newBlock (2317330302641 / 3221225472) 394 38 24 Wood,
       newBlock (2188481283761 / 3221225472) 368 38 24 Metal,
       newBlock (2317330302641 / 3221225472) 368 38 24 Stone,
       newBlock (2188481283761 / 3221225472) 342 38 24 Stone,
       newBlock (2317330302641 / 3221225472) 342 38 24 Metal,
       newBlock (2188481283761 / 3221225472) 316 38 24 Metal,
       newBlock (2317330302641 / 3221225472) 316 38 24 Wood,
       newBlock (2188481283761 / 3221225472) 290 38 24 Metal,
       newBlock (2317330302641 / 3221225472) 290 38 24 Metal],
      [] @ [290]) =
     (3733336832,
      [newBlock (2188481283761 / 3221225472) 472 38 24 Stone,
       newBlock (2317330302641 / 3221225472) 472 38 24 Wood,
       newBlock (2317330302641 / 3221225472) 446 38 24 Stone,
       newBlock (2188481283761 / 3221225472) 420 38 24 Metal,
       newBlock (2317330302641 / 3221225472) 420 38 24 Metal,
       newBlock (2188481283761 / 3221225472) 394 38 24 Stone,
       newBlock (2317330302641 / 3221225472) 394 38 24 Wood,
       newBlock (2188481283761 / 3221225472) 368 38 24 Metal,
       newBlock (2317330302641 / 3221225472) 368 38 24 Stone,
       newBlock (2188481283761 / 3221225472) 342 38 24 Stone,
       newBlock (2317330302641 / 3221225472) 342 38 24 Metal,
       newBlock (2188481283761 / 3221225472) 316 38 24 Metal,
       newBlock (2317330302641 / 3221225472) 316 38 24 Wood,
       newBlock (2188481283761 / 3221225472) 290 38 24 Metal,
       newBlock (2317330302641 / 3221225472) 290 38 24 Metal,
       newBlock (5182571098463 / 6442450944) 472 38 24 Metal,
       newBlock (5440269136223 / 6442450944) 472 38 24 Metal,
       newBlock (5182571098463 / 6442450944) 446 38 24 Wood,
       newBlock (5440269136223 / 6442450944) 446 38 24 Stone,
       newBlock (5182571098463 / 6442450944) 420 38 24 Wood,
       newBlock (5440269136223 / 6442450944) 420 38 24 Stone,
       newBlock (5182571098463 / 6442450944) 394 38 24 Wood,
       newBlock (5440269136223 / 6442450944) 394 38 24 Stone,
       newBlock (5182571098463 / 6442450944) 368 38 24 Wood,
       newBlock (5440269136223 / 6442450944) 368 38 24 Wood,
       newBlock (5182571098463 / 6442450944) 342 38 24 Stone,
       newBlock (5440269136223 / 6442450944) 342 38 24 Metal],
      ([] @ [290]) @ [342])"
proof (rule tower_staged)
  show "r 3890831846 = (2411761677 / 4294967296, 2411761677)"
    by (simp add: r_num)
  show "r 2411761677 = (175902273 / 536870912, 1407218184)"
    by (simp add: r_num)
  show "5182571098463 / 6442450944 = baseX e0 + 380 / 3 * (real 1 + 1) + (2411761677 / 4294967296 * 18 - 9)"
    by (simp add: level1_params)
  show "(6 :: int) = clamp (4 + \<lfloor>175902273 / 536870912 * of_int (floors 16) :: real\<rfloor>) 4 (floors 16)"
    by (simp add: level16_params clamp_def)
  show "fold (\<lambda>y. fold (towerCell e0 16 (5182571098463 / 6442450944) y) [0..<2]) [0..<nat 6]
          (1407218184,
           [newBlock (2188481283761 / 3221225472) 472 38 24 Stone,
       newBlock (2317330302641 / 3221225472) 472 38 24 Wood,
       newBlock (2317330302641 / 3221225472) 446 38 24 Stone,
       newBlock (2188481283761 / 3221225472) 420 38 24 Metal,
       newBlock (2317330302641 / 3221225472) 420 38 24 Metal,
       newBlock (2188481283761 / 3221225472) 394 38 24 Stone,
       newBlock (2317330302641 / 3221225472) 394 38 24 Wood,
       newBlock (2188481283761 / 3221225472) 368 38 24 Metal,
       newBlock (2317330302641 / 3221225472) 368 38 24 Stone,
       newBlock (2188481283761 / 3221225472) 342 38 24 Stone,
       newBlock (2317330302641 / 3221225472) 342 38 24 Metal,
       newBlock (2188481283761 / 3221225472) 316 38 24 Metal,
       newBlock (2317330302641 / 3221225472) 316 38 24 Wood,
       newBlock (2188481283761 / 3221225472) 290 38 24 Metal,
       newBlock (2317330302641 / 3221225472) 290 38 24 Metal]) =
     (3733336832,
      [newBlock (2188481283761 / 3221225472) 472 38 24 Stone,
       newBlock (2317330302641 / 3221225472) 472 38 24 Wood,
       newBlock (2317330302641 / 3221225472) 446 38 24 Stone,
       newBlock (2188481283761 / 3221225472) 420 38 24 Metal,
       newBlock (2317330302641 / 3221225472) 420 38 24 Metal,
       newBlock (2188481283761 / 3221225472) 394 38 24 Stone,
       newBlock (2317330302641 / 3221225472) 394 38 24 Wood,
       newBlock (2188481283761 / 3221225472) 368 38 24 Metal,
       newBlock (2317330302641 / 3221225472) 368 38 24 Stone,
       newBlock (2188481283761 / 3221225472) 342 38 24 Stone,
       newBlock (2317330302641 / 3221225472) 342 38 24 Metal,
       newBlock (2188481283761 / 3221225472) 316 38 24 Metal,
       newBlock (2317330302641 / 3221225472) 316 38 24 Wood,
       newBlock (2188481283761 / 3221225472) 290 38 24 Metal,
       newBlock (2317330302641 / 3221225472) 290 38 24 Metal,
       newBlock (5182571098463 / 6442450944) 472 38 24 Metal,
       newBlock (5440269136223 / 6442450944) 472 38 24 Metal,
       newBlock (5182571098463 / 6442450944) 446 38 24 Wood,
       newBlock (5440269136223 / 6442450944) 446 38 24 Stone,
       newBlock (5182571098463 / 6442450944) 420 38 24 Wood,
       newBlock (5440269136223 / 6442450944) 420 38 24 Stone,
       newBlock (5182571098463 / 6442450944) 394 38 24 Wood,
       newBlock (5440269136223 / 6442450944) 394 38 24 Stone,
       newBlock (5182571098463 / 6442450944) 368 38 24 Wood,
       newBlock (5440269136223 / 6442450944) 368 38 24 Wood,
       newBlock (5182571098463 / 6442450944) 342 38 24 Stone,
       newBlock (5440269136223 / 6442450944) 342 38 24 Metal])"
    by (simp add: tower_flat del: tower_simps)
  show "342 = groundY e0 - of_int 6 * (bh 16 + 2)"
    by (simp add: level16_params level1_params)
qed

lemma level16_towerLoop:
  "towerLoop e0 16 (4075337972, []) =
     (3733336832,
      [newBlock (2188481283761 / 3221225472) 472 38 24 Stone,
       newBlock (2317330302641 / 3221225472) 472 38 24 Wood,
       newBlock (2317330302641 / 3221225472) 446 38 24 Stone,
       newBlock (2188481283761 / 3221225472) 420 38 24 Metal,
       newBlock (2317330302641 / 3221225472) 420 38 24 Metal,
       newBlock (2188481283761 / 3221225472) 394 38 24 Stone,
       newBlock (2317330302641 / 3221225472) 394 38 24 Wood,
       newBlock (2188481283761 / 3221225472) 368 38 24 Metal,
       newBlock (2317330302641 / 3221225472) 368 38 24 Stone,
       newBlock (2188481283761 / 3221225472) 342 38 24 Stone,
       newBlock (2317330302641 / 3221225472) 342 38 24 Metal,
       newBlock (2188481283761 / 3221225472) 316 38 24 Metal,
       newBlock (2317330302641 / 3221225472) 316 38 24 Wood,
       newBlock (2188481283761 / 3221225472) 290 38 24 Metal,
       newBlock (2317330302641 / 3221225472) 290 38 24 Metal,
       newBlock (5182571098463 / 6442450944) 472 38 24 Metal,
       newBlock (5440269136223 / 6442450944) 472 38 24 Metal,
       newBlock (5182571098463 / 6442450944) 446 38 24 Wood,
       newBlock (5440269136223 / 6442450944) 446 38 24 Stone,
       newBlock (5182571098463 / 6442450944) 420 38 24 Wood,
       newBlock (5440269136223 / 6442450944) 420 38 24 Stone,
       newBlock (5182571098463 / 6442450944) 394 38 24 Wood,
       newBlock (5440269136223 / 6442450944) 394 38 24 Stone,
       newBlock (5182571098463 / 6442450944) 368 38 24 Wood,
       newBlock (5440269136223 / 6442450944) 368 38 24 Wood,
       newBlock (5182571098463 / 6442450944) 342 38 24 Stone,
       newBlock (5440269136223 / 6442450944) 342 38 24 Metal],
      [290, 342])"
proof -
  have gap: "380 / 3 = baseW e0 / 3" by (simp add: level1_params)
  show ?thesis
    using towerLoop_staged [OF level16_towersOf gap level16_tower1 level16_tower2] by simp
qed

lemma level16_towerTops: "towerTops e0 16 = [290, 342]"
  by (rule towerTops_staged [OF themeOf_16 level16_towerLoop])

lemma level16_towers:
  "buildTowers e0 16 (4075337972, []) =
     (3598397934,
      [newBlock (2188481283761 / 3221225472) 472 38 24 Stone,
       newBlock (2317330302641 / 3221225472) 472 38 24 Wood,
       newBlock (2317330302641 / 3221225472) 446 38 24 Stone,
       newBlock (2188481283761 / 3221225472) 420 38 24 Metal,
       newBlock (2317330302641 / 3221225472) 420 38 24 Metal,
       newBlock (2188481283761 / 3221225472) 394 38 24 Stone,
       newBlock (2317330302641 / 3221225472) 394 38 24 Wood,
       newBlock (2188481283761 / 3221225472) 368 38 24 Metal,
       newBlock (2317330302641 / 3221225472) 368 38 24 Stone,
       newBlock (2188481283761 / 3221225472) 342 38 24 Stone,
       newBlock (2317330302641 / 3221225472) 342 38 24 Metal,
       newBlock (2188481283761 / 3221225472) 316 38 24 Metal,
       newBlock (2317330302641 / 3221225472) 316 38 24 Wood,
       newBlock (2188481283761 / 3221225472) 290 38 24 Metal,
       newBlock (2317330302641 / 3221225472) 290 38 24 Metal,
       newBlock (5182571098463 / 6442450944) 472 38 24 Metal,
       newBlock (5440269136223 / 6442450944) 472 38 24 Metal,
       newBlock (5182571098463 / 6442450944) 446 38 24 Wood,
       newBlock (5440269136223 / 6442450944) 446 38 24 Stone,
       newBlock (5182571098463 / 6442450944) 420 38 24 Wood,
       newBlock (5440269136223 / 6442450944) 420 38 24 Stone,
       newBlock (5182571098463 / 6442450944) 394 38 24 Wood,
       newBlock (5440269136223 / 6442450944) 394 38 24 Stone,
       newBlock (5182571098463 / 6442450944) 368 38 24 Wood,
       newBlock (5440269136223 / 6442450944) 368 38 24 Wood,
       newBlock (5182571098463 / 6442450944) 342 38 24 Stone,
       newBlock (5440269136223 / 6442450944) 342 38 24 Metal,
       newBlock (2068 / 3) 258 (684 / 25) (78 / 5) Wood,
       newBlock (53923 / 75) 258 (684 / 25) (78 / 5) Wood,
       newBlock (60592 / 75) 258 (684 / 25) (78 / 5) Wood,
       newBlock (65038 / 75) 258 (684 / 25) (78 / 5) Wood,
       newBlock (67261 / 75) 258 (684 / 25) (78 / 5) Wood,
       newBlock (69484 / 75) 258 (684 / 25) (78 / 5) Wood,
       newBlock (71707 / 75) 258 (684 / 25) (78 / 5) Wood,
       newBlock (14786 / 15) 258 (684 / 25) (78 / 5) Wood,
       newBlock (76153 / 75) 258 (684 / 25) (78 / 5) Wood])"
proof (rule buildTowers_staged [OF level16_towersOf _ level16_towerLoop])
  show "(2 :: int) \<le> 2" by simp
  show "r 3733336832 = (4237396575 / 4294967296, 4237396575)"
    by (simp add: r_num)
  show "2068 / 3 = baseX e0 + baseW e0 / (of_int 2 + 1) * 1.1"
    by (simp add: level1_params)
  show "258 = Min (set [290, 342 :: real]) - (bh 16 + 8)"
    by (simp add: level16_params)
  show "13 = nat (9 + \<lfloor>4237396575 / 4294967296 * 5 :: real\<rfloor>)"
    by simp
  show "fold (bridgeCell 16 (2068 / 3) 258) [0..<13]
          (4237396575,
           [newBlock (2188481283761 / 3221225472) 472 38 24 Stone,
       newBlock (2317330302641 / 3221225472) 472 38 24 Wood,
       newBlock (2317330302641 / 3221225472) 446 38 24 Stone,
       newBlock (2188481283761 / 3221225472) 420 38 24 Metal,
       newBlock (2317330302641 / 3221225472) 420 38 24 Metal,
       newBlock (2188481283761 / 3221225472) 394 38 24 Stone,
       newBlock (2317330302641 / 3221225472) 394 38 24 Wood,
       newBlock (2188481283761 / 3221225472) 368 38 24 Metal,
       newBlock (2317330302641 / 3221225472) 368 38 24 Stone,
       newBlock (2188481283761 / 3221225472) 342 38 24 Stone,
       newBlock (2317330302641 / 3221225472) 342 38 24 Metal,
       newBlock (2188481283761 / 3221225472) 316 38 24 Metal,
       newBlock (2317330302641 / 3221225472) 316 38 24 Wood,
       newBlock (2188481283761 / 3221225472) 290 38 24 Metal,
       newBlock (2317330302641 / 3221225472) 290 38 24 Metal,
       newBlock (5182571098463 / 6442450944) 472 38 24 Metal,
       newBlock (5440269136223 / 6442450944) 472 38 24 Metal,
       newBlock (5182571098463 / 6442450944) 446 38 24 Wood,
       newBlock (5440269136223 / 6442450944) 446 38 24 Stone,
       newBlock (5182571098463 / 6442450944) 420 38 24 Wood,
       newBlock (5440269136223 / 6442450944) 420 38 24 Stone,
       newBlock (5182571098463 / 6442450944) 394 38 24 Wood,
       newBlock (5440269136223 / 6442450944) 394 38 24 Stone,
       newBlock (5182571098463 / 6442450944) 368 38 24 Wood,
       newBlock (5440269136223 / 6442450944) 368 38 24 Wood,
       newBlock (5182571098463 / 6442450944) 342 38 24 Stone,
       newBlock (5440269136223 / 6442450944) 342 38 24 Metal]) =
     (3598397934,
      [newBlock (2188481283761 / 3221225472) 472 38 24 Stone,
       newBlock (2317330302641 / 3221225472) 472 38 24 Wood,
       newBlock (2317330302641 / 3221225472) 446 38 24 Stone,
       newBlock (2188481283761 / 3221225472) 420 38 24 Metal,
       newBlock (2317330302641 / 3221225472) 420 38 24 Metal,
       newBlock (2188481283761 / 3221225472) 394 38 24 Stone,
       newBlock (2317330302641 / 3221225472) 394 38 24 Wood,
       newBlock (2188481283761 / 3221225472) 368 38 24 Metal,
       newBlock (2317330302641 / 3221225472) 368 38 24 Stone,
       newBlock (2188481283761 / 3221225472) 342 38 24 Stone,
       newBlock (2317330302641 / 3221225472) 342 38 24 Metal,
       newBlock (2188481283761 / 3221225472) 316 38 24 Metal,
       newBlock (2317330302641 / 3221225472) 316 38 24 Wood,
       newBlock (2188481283761 / 3221225472) 290 38 24 Metal,
       newBlock (2317330302641 / 3221225472) 290 38 24 Metal,
       newBlock (5182571098463 / 6442450944) 472 38 24 Metal,
       newBlock (5440269136223 / 6442450944) 472 38 24 Metal,
       newBlock (5182571098463 / 6442450944) 446 38 24 Wood,
       newBlock (5440269136223 / 6442450944) 446 38 24 Stone,
       newBlock (5182571098463 / 6442450944) 420 38 24 Wood,
       newBlock (5440269136223 / 6442450944) 420 38 24 Stone,
       newBlock (5182571098463 / 6442450944) 394 38 24 Wood,
       newBlock (5440269136223 / 6442450944) 394 38 24 Stone,
       newBlock (5182571098463 / 6442450944) 368 38 24 Wood,
       newBlock (5440269136223 / 6442450944) 368 38 24 Wood,
       newBlock (5182571098463 / 6442450944) 342 38 24 Stone,
       newBlock (5440269136223 / 6442450944) 342 38 24 Metal,
       newBlock (2068 / 3) 258 (684 / 25) (78 / 5) Wood,
       newBlock (53923 / 75) 258 (684 / 25) (78 / 5) Wood,
       newBlock (60592 / 75) 258 (684 / 25) (78 / 5) Wood,
       newBlock (65038 / 75) 258 (684 / 25) (78 / 5) Wood,
       newBlock (67261 / 75) 258 (684 / 25) (78 / 5) Wood,
       newBlock (69484 / 75) 258 (684 / 25) (78 / 5) Wood,
       newBlock (71707 / 75) 258 (684 / 25) (78 / 5) Wood,
       newBlock (14786 / 15) 258 (684 / 25) (78 / 5) Wood,
       newBlock (76153 / 75) 258 (684 / 25) (78 / 5) Wood])"
    by (simp add: tower_flat del: tower_simps)
qed

lemma level16_blocks:
  "levelBlocks e0 16 =
     [newBlock (2188481283761 / 3221225472) 472 38 24 Stone,
      newBlock (2317330302641 / 3221225472) 472 38 24 Wood,
      newBlock (2317330302641 / 3221225472) 446 38 24 Stone,
      newBlock (2188481283761 / 3221225472) 420 38 24 Metal,
      newBlock (2317330302641 / 3221225472) 420 38 24 Metal,
      newBlock (2188481283761 / 3221225472) 394 38 24 Stone,
      newBlock (2317330302641 / 3221225472) 394 38 24 Wood,
      newBlock (2188481283761 / 3221225472) 368 38 24 Metal,
      newBlock (2317330302641 / 3221225472) 368 38 24 Stone,
      newBlock (2188481283761 / 3221225472) 342 38 24 Stone,
      newBlock (2317330302641 / 3221225472) 342 38 24 Metal,
      newBlock (2188481283761 / 3221225472) 316 38 24 Metal,
      newBlock (2317330302641 / 3221225472) 316 38 24 Wood,
      newBlock (2188481283761 / 3221225472) 290 38 24 Metal,
      newBlock (2317330302641 / 3221225472) 290 38 24 Metal,
      newBlock (5182571098463 / 6442450944) 472 38 24 Metal,
      newBlock (5440269136223 / 6442450944) 472 38 24 Metal,
      newBlock (5182571098463 / 6442450944) 446 38 24 Wood,
      newBlock (5440269136223 / 6442450944) 446 38 24 Stone,
      newBlock (5182571098463 / 6442450944) 420 38 24 Wood,
      newBlock (5440269136223 / 6442450944) 420 38 24 Stone,
      newBlock (5182571098463 / 6442450944) 394 38 24 Wood,
      newBlock (5440269136223 / 6442450944) 394 38 24 Stone,
      newBlock (5182571098463 / 6442450944) 368 38 24 Wood,
      newBlock (5440269136223 / 6442450944) 368 38 24 Wood,
      newBlock (5182571098463 / 6442450944) 342 38 24 Stone,
      newBlock (5440269136223 / 6442450944) 342 38 24 Metal,
      newBlock (2068 / 3) 258 (684 / 25) (78 / 5) Wood,
      newBlock (53923 / 75) 258 (684 / 25) (78 / 5) Wood,
      newBlock (60592 / 75) 258 (684 / 25) (78 / 5) Wood,
      newBlock (65038 / 75) 258 (684 / 25) (78 / 5) Wood,
      newBlock (67261 / 75) 258 (684 / 25) (78 / 5) Wood,
      newBlock (69484 / 75) 258 (684 / 25) (78 / 5) Wood,
      newBlock (71707 / 75) 258 (684 / 25) (78 / 5) Wood,
      newBlock (14786 / 15) 258 (684 / 25) (78 / 5) Wood,
      newBlock (76153 / 75) 258 (684 / 25) (78 / 5) Wood,
      newBlock (753641756465 / 1073741824) 420 (57 / 2) 18 Glass,
      newBlock (756098989225 / 1073741824) 342 (57 / 2) 18 Glass]"
proof (rule levelBlocks_towers_staged [OF themeOf_16 level16_towers])
  show "r 3598397934 = (382947445 / 4294967296, 382947445)"
    by (simp add: r_num)
  show "6 = nat (6 + \<lfloor>382947445 / 4294967296 * 10 :: real\<rfloor>)"
    by simp
  show "fold (decoCell e0 16) [0..<6]
          (382947445,
           [newBlock (2188481283761 / 3221225472) 472 38 24 Stone,
       newBlock (2317330302641 / 3221225472) 472 38 24 Wood,
       newBlock (2317330302641 / 3221225472) 446 38 24 Stone,
       newBlock (2188481283761 / 3221225472) 420 38 24 Metal,
       newBlock (2317330302641 / 3221225472) 420 38 24 Metal,
       newBlock (2188481283761 / 3221225472) 394 38 24 Stone,
       newBlock (2317330302641 / 3221225472) 394 38 24 Wood,
       newBlock (2188481283761 / 3221225472) 368 38 24 Metal,
       newBlock (2317330302641 / 3221225472) 368 38 24 Stone,
       newBlock (2188481283761 / 3221225472) 342 38 24 Stone,
       newBlock (2317330302641 / 3221225472) 342 38 24 Metal,
       newBlock (2188481283761 / 3221225472) 316 38 24 Metal,
       newBlock (2317330302641 / 3221225472) 316 38 24 Wood,
       newBlock (2188481283761 / 3221225472) 290 38 24 Metal,
       newBlock (2317330302641 / 3221225472) 290 38 24 Metal,
       newBlock (5182571098463 / 6442450944) 472 38 24 Metal,
       newBlock (5440269136223 / 6442450944) 472 38 24 Metal,
       newBlock (5182571098463 / 6442450944) 446 38 24 Wood,
       newBlock (5440269136223 / 6442450944) 446 38 24 Stone,
       newBlock (5182571098463 / 6442450944) 420 38 24 Wood,
       newBlock (5440269136223 / 6442450944) 420 38 24 Stone,
       newBlock (5182571098463 / 6442450944) 394 38 24 Wood,
       newBlock (5440269136223 / 6442450944) 394 38 24 Stone,
       newBlock (5182571098463 / 6442450944) 368 38 24 Wood,
       newBlock (5440269136223 / 6442450944) 368 38 24 Wood,
       newBlock (5182571098463 / 6442450944) 342 38 24 Stone,
       newBlock (5440269136223 / 6442450944) 342 38 24 Metal,
       newBlock (2068 / 3) 258 (684 / 25) (78 / 5) Wood,
       newBlock (53923 / 75) 258 (684 / 25) (78 / 5) Wood,
       newBlock (60592 / 75) 258 (684 / 25) (78 / 5) Wood,
       newBlock (65038 / 75) 258 (684 / 25) (78 / 5) Wood,
       newBlock (67261 / 75) 258 (684 / 25) (78 / 5) Wood,
       newBlock (69484 / 75) 258 (684 / 25) (78 / 5) Wood,
       newBlock (71707 / 75) 258 (684 / 25) (78 / 5) Wood,
       newBlock (14786 / 15) 258 (684 / 25) (78 / 5) Wood,
       newBlock (76153 / 75) 258 (684 / 25) (78 / 5) Wood]) =
     (1933174593,
      [newBlock (2188481283761 / 3221225472) 472 38 24 Stone,
      newBlock (2317330302641 / 3221225472) 472 38 24 Wood,
      newBlock (2317330302641 / 3221225472) 446 38 24 Stone,
      newBlock (2188481283761 / 3221225472) 420 38 24 Metal,
      newBlock (2317330302641 / 3221225472) 420 38 24 Metal,
      newBlock (2188481283761 / 3221225472) 394 38 24 Stone,
      newBlock (2317330302641 / 3221225472) 394 38 24 Wood,
      newBlock (2188481283761 / 3221225472) 368 38 24 Metal,
      newBlock (2317330302641 / 3221225472) 368 38 24 Stone,
      newBlock (2188481283761 / 3221225472) 342 38 24 Stone,
      newBlock (2317330302641 / 3221225472) 342 38 24 Metal,
      newBlock (2188481283761 / 3221225472) 316 38 24 Metal,
      newBlock (2317330302641 / 3221225472) 316 38 24 Wood,
      newBlock (2188481283761 / 3221225472) 290 38 24 Metal,
      newBlock (2317330302641 / 3221225472) 290 38 24 Metal,
      newBlock (5182571098463 / 6442450944) 472 38 24 Metal,
      newBlock (5440269136223 / 6442450944) 472 38 24 Metal,
      newBlock (5182571098463 / 6442450944) 446 38 24 Wood,
      newBlock (5440269136223 / 6442450944) 446 38 24 Stone,
      newBlock (5182571098463 / 6442450944) 420 38 24 Wood,
      newBlock (5440269136223 / 6442450944) 420 38 24 Stone,
      newBlock (5182571098463 / 6442450944) 394 38 24 Wood,
      newBlock (5440269136223 / 6442450944) 394 38 24 Stone,
      newBlock (5182571098463 / 6442450944) 368 38 24 Wood,
      newBlock (5440269136223 / 6442450944) 368 38 24 Wood,
      newBlock (5182571098463 / 6442450944) 342 38 24 Stone,
      newBlock (5440269136223 / 6442450944) 342 38 24 Metal,
      newBlock (2068 / 3) 258 (684 / 25) (78 / 5) Wood,
      newBlock (53923 / 75) 258 (684 / 25) (78 / 5) Wood,
      newBlock (60592 / 75) 258 (684 / 25) (78 / 5) Wood,
      newBlock (65038 / 75) 258 (684 / 25) (78 / 5) Wood,
      newBlock (67261 / 75) 258 (684 / 25) (78 / 5) Wood,
      newBlock (69484 / 75) 258 (684 / 25) (78 / 5) Wood,
      newBlock (71707 / 75) 258 (684 / 25) (78 / 5) Wood,
      newBlock (14786 / 15) 258 (684 / 25) (78 / 5) Wood,
      newBlock (76153 / 75) 258 (684 / 25) (78 / 5) Wood,
      newBlock (753641756465 / 1073741824) 420 (57 / 2) 18 Glass,
      newBlock (756098989225 / 1073741824) 342 (57 / 2) 18 Glass])"
    by (simp add: tower_flat del: tower_simps)
qed

subsection \<open>The top row of the castle wall\<close>

lemma level1_top_row:
  "wallRow e0 1 (586221330605 / 1073741824) 10 2 (3906782450, []) =
     (4124517148, [newBlock (586221330605 / 1073741824) 408 44 28 Stone,
      newBlock (635613454509 / 1073741824) 408 44 28 Stone,
      newBlock (685005578413 / 1073741824) 408 44 28 Stone,
      newBlock (734397702317 / 1073741824) 408 44 28 Stone,
      newBlock (882574074029 / 1073741824) 408 44 28 Stone,
      newBlock (931966197933 / 1073741824) 408 44 28 Stone])"
  using c1_row2 [of "[]"] by (simp del: One_nat_def)

lemma wallRow_appends:
  "\<exists>new. snd (wallRow e n startX ww y (s, bs)) = bs @ new
      \<and> (\<forall>b\<in>set new. b_y b = groundY e - (real y + 1) * (bh n + 2)
            \<and> (int y = wallHeight n - 1 \<longrightarrow> b_mat b = Stone \<and> b_hp b = 150))"
  unfolding wallRow_def
proof (rule fold_invariant [where I = "\<lambda>g. \<exists>new. snd g = bs @ new
      \<and> (\<forall>b\<in>set new. b_y b = groundY e - (real y + 1) * (bh n + 2)
            \<and> (int y = wallHeight n - 1 \<longrightarrow> b_mat b = Stone \<and> b_hp b = 150))"])
  show "\<exists>new. snd (s, bs) = bs @ new
      \<and> (\<forall>b\<in>set new. b_y b = groundY e - (real y + 1) * (bh n + 2)
            \<and> (int y = wallHeight n - 1 \<longrightarrow> b_mat b = Stone \<and> b_hp b = 150))"
    by simp
next
  fix x and g :: "nat \<times> block list"
  assume "\<exists>new. snd g = bs @ new
      \<and> (\<forall>b\<in>set new. b_y b = groundY e - (real y + 1) * (bh n + 2)
            \<and> (int y = wallHeight n - 1 \<longrightarrow> b_mat b = Stone \<and> b_hp b = 150))"
  then obtain new where new: "snd g = bs @ new"
      "\<forall>b\<in>set new. b_y b = groundY e - (real y + 1) * (bh n + 2)
            \<and> (int y = wallHeight n - 1 \<longrightarrow> b_mat b = Stone \<and> b_hp b = 150)"
    by blast
  obtain s' where g: "g = (s', bs @ new)" using new(1) by (cases g) simp
  have "snd (wallCell e n startX y x g) = bs @ new
     \<or> (\<exists>m. snd (wallCell e n startX y x g)
          = bs @ (new @ [newBlock (startX + real x * (bw n + 2)) (groundY e - (real y + 1) * (bh n + 2))
                     (bw n) (bh n) (if int y = wallHeight n - 1 then Stone else m)]))"
    unfolding g by (auto simp add: addBlock_def Let_def split: prod.splits)
  then show "\<exists>new. snd (wallCell e n startX y x g) = bs @ new
      \<and> (\<forall>b\<in>set new. b_y b = groundY e - (real y + 1) * (bh n + 2)
            \<and> (int y = wallHeight n - 1 \<longrightarrow> b_mat b = Stone \<and> b_hp b = 150))"
  proof
    assume "snd (wallCell e n startX y x g) = bs @ new"
    with new(2) show ?thesis by blast
  next
    assume "\<exists>m. snd (wallCell e n startX y x g)
          = bs @ (new @ [newBlock (startX + real x * (bw n + 2)) (groundY e - (real y + 1) * (bh n + 2))
                     (bw n) (bh n) (if int y = wallHeight n - 1 then Stone else m)])"
    then obtain m where m: "snd (wallCell e n startX y x g)
          = bs @ (new @ [newBlock (startX + real x * (bw n + 2)) (groundY e - (real y + 1) * (bh n + 2))
                     (bw n) (bh n) (if int y = wallHeight n - 1 then Stone else m)])"
      by blast
    have "\<forall>b\<in>set (new @ [newBlock (startX + real x * (bw n + 2)) (groundY e - (real y + 1) * (bh n + 2))
                     (bw n) (bh n) (if int y = wallHeight n - 1 then Stone else m)]).
             b_y b = groundY e - (real y + 1) * (bh n + 2)
            \<and> (int y = wallHeight n - 1 \<longrightarrow> b_mat b = Stone \<and> b_hp b = 150)"
      using new(2) by (auto simp add: newBlock_fields material_entry_simps)
    with m show ?thesis by blast
  qed
qed

text \<open>
  C1, as stated, fails: level 1 is a castle with a wall of three rows, the first block of the
  top row (block 11 of the level) is made of stone, and stone (hp 150) is not the material
  with the highest base hp, which is metal (hp 220).
\<close>

theorem C1_top_row_counterexample:
  "fst (themeOf 1) = Castle
   \<and> int 2 = wallHeight 1 - 1
   \<and> snd (wallRow e0 1 (586221330605 / 1073741824) 10 2 (3906782450, []))
       = [newBlock (586221330605 / 1073741824) 408 44 28 Stone,
          newBlock (635613454509 / 1073741824) 408 44 28 Stone,
          newBlock (685005578413 / 1073741824) 408 44 28 Stone,
          newBlock (734397702317 / 1073741824) 408 44 28 Stone,
          newBlock (882574074029 / 1073741824) 408 44 28 Stone,
          newBlock (931966197933 / 1073741824) 408 44 28 Stone]
   \<and> levelBlocks e0 1 ! 11 = newBlock (586221330605 / 1073741824) 408 44 28 Stone
   \<and> b_mat (levelBlocks e0 1 ! 11) = Stone
   \<and> m_hp (material_entry (b_mat (levelBlocks e0 1 ! 11))) = 150
   \<and> m_hp (material_entry Metal) = 220"
  by (simp add: themeOf_1 level1_top_row level1_blocks newBlock_fields material_entry_simps
      level1_params del: One_nat_def)

text \<open>
  C1, amended: in every castle level, every block that has the size of a wall block and
  stands at the height of the top row of the wall is made of stone, with hp 150, less than
  the hp of metal; and every block that the loop over the top row (row index
  \<open>wallHeight - 1\<close>) appends is such a block. Metal, with hp 220, is the material with
  the highest base hp.
\<close>

theorem C1_amended:
  assumes "fst (themeOf n) = Castle"
  shows "(\<forall>b\<in>set (levelBlocks e n).
            b_w b = bw n \<and> b_h b = bh n \<and> b_y b = groundY e - of_int (wallHeight n) * (bh n + 2)
            \<longrightarrow> b_mat b = Stone \<and> b_hp b = 150 \<and> b_hp b < m_hp (material_entry Metal))
    \<and> (int y = wallHeight n - 1 \<longrightarrow>
         (\<exists>new. snd (wallRow e n startX ww y (s, bs)) = bs @ new
            \<and> (\<forall>b\<in>set new. b_mat b = Stone \<and> b_hp b = 150 \<and> b_hp b < m_hp (material_entry Metal)
                  \<and> b_y b = groundY e - of_int (wallHeight n) * (bh n + 2))))
    \<and> (\<forall>m. m_hp (material_entry m) \<le> m_hp (material_entry Metal))
    \<and> m_hp (material_entry Stone) = 150 \<and> m_hp (material_entry Metal) = 220"
proof (intro conjI impI)
  let ?top = "groundY e - of_int (wallHeight n) * (bh n + 2)"
  let ?P = "\<lambda>b. b_w b = bw n \<and> b_h b = bh n \<and> b_y b = ?top
     \<longrightarrow> b_mat b = Stone \<and> b_hp b = 150 \<and> b_hp b < m_hp (material_entry Metal)"
  have bhp: "0 < bh n + 2" "0 < bh n" and bwp: "0 < bw n"
    using bh_bounds(1) [of n] bw_bounds(1) [of n] by simp_all
  have wall: "?P (newBlock x (groundY e - (real k + 1) * (bh n + 2)) (bw n) (bh n)
             (if int k = wallHeight n - 1 then Stone else m))" for x k m
  proof (cases "int k = wallHeight n - 1")
    case True
    then show ?thesis by (simp add: newBlock_fields material_entry_simps)
  next
    case False
    then have "real k + 1 \<noteq> of_int (wallHeight n)"
      by (metis add_diff_cancel_right' of_int_1 of_int_add of_int_eq_iff of_int_of_nat_eq)
    then have "(real k + 1) * (bh n + 2) \<noteq> of_int (wallHeight n) * (bh n + 2)"
      using bhp by simp
    then show ?thesis by (simp add: newBlock_fields)
  qed
  have tw: "?P (newBlock x y' (bw n) (bh n) Stone)" for x y'
    by (simp add: newBlock_fields material_entry_simps)
  have bt: "?P (newBlock x y' (bw n) (bh n * 0.7) Wood)" for x y'
    using bhp by (simp add: newBlock_fields)
  have dc: "?P (newBlock x y' (bw n * 0.75) (bh n * 0.75) m)" for x y' m
    using bwp by (simp add: newBlock_fields)
  have e: "\<forall>b\<in>set (snd (snd (themeOf n), [] :: block list)). ?P b" by simp
  have "\<forall>b\<in>set (snd (buildCastle e n (snd (themeOf n), []))). ?P b"
    by (rule buildCastle_inv [OF e]) (rule wall, rule tw, rule bt)
  then have "\<forall>b\<in>set (levelBlocks e n). ?P b"
    unfolding levelBlocks_alt assms by (simp only: theme.case) (rule buildDeco_inv, assumption, rule dc)
  then show "\<forall>b\<in>set (levelBlocks e n).
            b_w b = bw n \<and> b_h b = bh n \<and> b_y b = groundY e - of_int (wallHeight n) * (bh n + 2)
            \<longrightarrow> b_mat b = Stone \<and> b_hp b = 150 \<and> b_hp b < m_hp (material_entry Metal)" .
next
  assume top: "int y = wallHeight n - 1"
  then have "real y + 1 = of_int (wallHeight n)"
    by (metis add_diff_cancel_right' of_int_1 of_int_add of_int_of_nat_eq diff_add_cancel)
  with top wallRow_appends [of e n startX ww y s bs]
  show "\<exists>new. snd (wallRow e n startX ww y (s, bs)) = bs @ new
            \<and> (\<forall>b\<in>set new. b_mat b = Stone \<and> b_hp b = 150 \<and> b_hp b < m_hp (material_entry Metal)
                  \<and> b_y b = groundY e - of_int (wallHeight n) * (bh n + 2))"
    by (auto simp add: material_entry_simps)
next
  show "\<forall>m. m_hp (material_entry m) \<le> m_hp (material_entry Metal)"
    by (simp add: material_hp_cases split: material.splits)
next
  show "m_hp (material_entry Stone) = 150" by (simp add: material_entry_simps)
next
  show "m_hp (material_entry Metal) = 220" by (simp add: material_entry_simps)
qed

text \<open>Witness for C1: level 1, its block 11 and the top row of its wall.\<close>

theorem C1_amended_witness:
  "fst (themeOf 1) = Castle
   \<and> levelBlocks e0 1 ! 11 \<in> set (levelBlocks e0 1)
   \<and> b_w (levelBlocks e0 1 ! 11) = bw 1 \<and> b_h (levelBlocks e0 1 ! 11) = bh 1
   \<and> b_y (levelBlocks e0 1 ! 11) = groundY e0 - of_int (wallHeight 1) * (bh 1 + 2)
   \<and> b_mat (levelBlocks e0 1 ! 11) = Stone \<and> b_hp (levelBlocks e0 1 ! 11) = 150
   \<and> b_hp (levelBlocks e0 1 ! 11) < m_hp (material_entry Metal)
   \<and> int 2 = wallHeight 1 - 1
   \<and> (\<exists>new. snd (wallRow e0 1 (586221330605 / 1073741824) 10 2 (3906782450, [])) = [] @ new
         \<and> new \<noteq> []
         \<and> (\<forall>b\<in>set new. b_mat b = Stone \<and> b_hp b = 150 \<and> b_hp b < m_hp (material_entry Metal)
               \<and> b_y b = groundY e0 - of_int (wallHeight 1) * (bh 1 + 2)))"
proof -
  have 1: "fst (themeOf 1) = Castle" by (simp add: themeOf_1 del: One_nat_def)
  note c = C1_amended [OF 1, where e = e0 and y = 2 and startX = "586221330605 / 1073741824"
      and ww = 10 and s = 3906782450 and bs = "[]"]
  have len: "length (levelBlocks e0 1) = 58" by (simp add: level1_blocks del: One_nat_def)
  then have 2: "levelBlocks e0 1 ! 11 \<in> set (levelBlocks e0 1)" by simp
  have 3: "b_w (levelBlocks e0 1 ! 11) = bw 1 \<and> b_h (levelBlocks e0 1 ! 11) = bh 1
     \<and> b_y (levelBlocks e0 1 ! 11) = groundY e0 - of_int (wallHeight 1) * (bh 1 + 2)"
    by (simp add: level1_blocks newBlock_fields level1_params del: One_nat_def)
  from c 2 3 have 4: "b_mat (levelBlocks e0 1 ! 11) = Stone \<and> b_hp (levelBlocks e0 1 ! 11) = 150
     \<and> b_hp (levelBlocks e0 1 ! 11) < m_hp (material_entry Metal)"
    by blast
  have 5: "int 2 = wallHeight 1 - 1" by (simp add: level1_params del: One_nat_def)
  with c have 6: "\<exists>new. snd (wallRow e0 1 (586221330605 / 1073741824) 10 2 (3906782450, [])) = [] @ new
            \<and> (\<forall>b\<in>set new. b_mat b = Stone \<and> b_hp b = 150 \<and> b_hp b < m_hp (material_entry Metal)
                  \<and> b_y b = groundY e0 - of_int (wallHeight 1) * (bh 1 + 2))"
    by blast
  then obtain new where new: "snd (wallRow e0 1 (586221330605 / 1073741824) 10 2 (3906782450, [])) = [] @ new"
     "\<forall>b\<in>set new. b_mat b = Stone \<and> b_hp b = 150 \<and> b_hp b < m_hp (material_entry Metal)
                  \<and> b_y b = groundY e0 - of_int (wallHeight 1) * (bh 1 + 2)"
    by blast
  from new(1) have "new \<noteq> []" by (auto simp add: level1_top_row simp del: One_nat_def)
  with new have 7: "\<exists>new. snd (wallRow e0 1 (586221330605 / 1073741824) 10 2 (3906782450, [])) = [] @ new
         \<and> new \<noteq> []
         \<and> (\<forall>b\<in>set new. b_mat b = Stone \<and> b_hp b = 150 \<and> b_hp b < m_hp (material_entry Metal)
               \<and> b_y b = groundY e0 - of_int (wallHeight 1) * (bh 1 + 2))"
    by blast
  from 1 2 3 4 5 7 show ?thesis by blast
qed

subsection \<open>The bridge of a towers level\<close>

lemma bridge_appends:
  "\<exists>new. snd (fold (bridgeCell n bridgeX bridgeY) ks (s, bs)) = bs @ new
      \<and> (\<forall>b\<in>set new. b_y b = bridgeY \<and> b_w b = bw n * 0.72 \<and> b_h b = bh n * 0.65
            \<and> b_mat b = Wood)"
proof (rule fold_invariant [where I = "\<lambda>g. \<exists>new. snd g = bs @ new
      \<and> (\<forall>b\<in>set new. b_y b = bridgeY \<and> b_w b = bw n * 0.72 \<and> b_h b = bh n * 0.65
            \<and> b_mat b = Wood)"])
  show "\<exists>new. snd (s, bs) = bs @ new
      \<and> (\<forall>b\<in>set new. b_y b = bridgeY \<and> b_w b = bw n * 0.72 \<and> b_h b = bh n * 0.65
            \<and> b_mat b = Wood)"
    by simp
next
  fix i and g :: "nat \<times> block list"
  assume "\<exists>new. snd g = bs @ new
      \<and> (\<forall>b\<in>set new. b_y b = bridgeY \<and> b_w b = bw n * 0.72 \<and> b_h b = bh n * 0.65
            \<and> b_mat b = Wood)"
  then obtain new where new: "snd g = bs @ new"
      "\<forall>b\<in>set new. b_y b = bridgeY \<and> b_w b = bw n * 0.72 \<and> b_h b = bh n * 0.65 \<and> b_mat b = Wood"
    by blast
  obtain s' where g: "g = (s', bs @ new)" using new(1) by (cases g) simp
  let ?b = "newBlock (bridgeX + real i * (bw n * 0.78)) bridgeY (bw n * 0.72) (bh n * 0.65) Wood"
  have "snd (bridgeCell n bridgeX bridgeY i g) = bs @ new
     \<or> snd (bridgeCell n bridgeX bridgeY i g) = bs @ (new @ [?b])"
    unfolding g by (simp add: bridgeCell_flat addBlock_def del: bridgeCell.simps)
  then show "\<exists>new. snd (bridgeCell n bridgeX bridgeY i g) = bs @ new
      \<and> (\<forall>b\<in>set new. b_y b = bridgeY \<and> b_w b = bw n * 0.72 \<and> b_h b = bh n * 0.65
            \<and> b_mat b = Wood)"
  proof
    assume "snd (bridgeCell n bridgeX bridgeY i g) = bs @ new"
    with new(2) show ?thesis by blast
  next
    assume a: "snd (bridgeCell n bridgeX bridgeY i g) = bs @ (new @ [?b])"
    have "\<forall>b\<in>set (new @ [?b]). b_y b = bridgeY \<and> b_w b = bw n * 0.72 \<and> b_h b = bh n * 0.65
            \<and> b_mat b = Wood"
      using new(2) by (auto simp add: newBlock_fields)
    with a show ?thesis by blast
  qed
qed

lemma level16_first_bridge_cell:
  "snd (fold (bridgeCell 16 (2068 / 3) 258) [0..<1] (4237396575, [])) =
     [newBlock (2068 / 3) 258 (684 / 25) (78 / 5) Wood]"
  by (simp add: tower_flat del: tower_simps)

text \<open>
  C2, as stated, fails: level 16 has two towers, of eight and of six rows, with tops at
  290 and 342 (y grows downward, so the shortest tower has the largest top). The bridge
  lies at \<open>258 = 290 - (bh + 8)\<close>, above the top of the tallest tower; its lower edge is
  more than two block rows above the top of the shortest tower, and the other tower has
  blocks in between (block 13 tops the first tower, block 25 the second).
\<close>

theorem C2_shortest_tower_counterexample:
  "fst (themeOf 16) = Towers
   \<and> towerTops e0 16 = [290, 342]
   \<and> Min (set (towerTops e0 16)) = 290 \<and> Max (set (towerTops e0 16)) = 342
   \<and> levelBlocks e0 16 ! 27 = newBlock (2068 / 3) 258 (684 / 25) (78 / 5) Wood
   \<and> b_w (levelBlocks e0 16 ! 27) = bw 16 * 0.72 \<and> b_h (levelBlocks e0 16 ! 27) = bh 16 * 0.65
   \<and> b_y (levelBlocks e0 16 ! 27) = Min (set (towerTops e0 16)) - (bh 16 + 8)
   \<and> b_y (levelBlocks e0 16 ! 27) \<noteq> Max (set (towerTops e0 16)) - (bh 16 + 8)
   \<and> b_y (levelBlocks e0 16 ! 27) + b_h (levelBlocks e0 16 ! 27) + 2 * (bh 16 + 2)
        < Max (set (towerTops e0 16))
   \<and> b_y (levelBlocks e0 16 ! 13) = 290 \<and> b_h (levelBlocks e0 16 ! 13) = bh 16
   \<and> b_y (levelBlocks e0 16 ! 13) < Max (set (towerTops e0 16))
   \<and> b_y (levelBlocks e0 16 ! 25) = 342 \<and> b_h (levelBlocks e0 16 ! 25) = bh 16
   \<and> b_x (levelBlocks e0 16 ! 13) + b_w (levelBlocks e0 16 ! 13) < b_x (levelBlocks e0 16 ! 25)"
  by (simp add: themeOf_16 level16_towerTops level16_blocks newBlock_fields level16_params)

text \<open>
  C2, amended: in every towers level, every block that has the size of a bridge block lies
  at \<open>Min topYs - (bh + 8)\<close>, where \<open>Min topYs\<close> is the top of the tallest tower, and
  its lower edge is above the top of every tower; and the bridge loop appends only wooden
  blocks of that size at the height it is given.
\<close>

theorem C2_amended:
  assumes "fst (themeOf n) = Towers"
  shows "(\<forall>b\<in>set (levelBlocks e n).
            b_w b = bw n * 0.72 \<and> b_h b = bh n * 0.65 \<longrightarrow>
            b_y b = Min (set (towerTops e n)) - (bh n + 8)
            \<and> (\<forall>t\<in>set (towerTops e n). b_y b + b_h b < t))
    \<and> (\<exists>new. snd (fold (bridgeCell n bridgeX bridgeY) ks (s, bs)) = bs @ new
          \<and> (\<forall>b\<in>set new. b_y b = bridgeY \<and> b_w b = bw n * 0.72 \<and> b_h b = bh n * 0.65
                \<and> b_mat b = Wood))"
proof (rule conjI)
  let ?tops = "towerTops e n"
  let ?P = "\<lambda>b. b_w b = bw n * 0.72 \<and> b_h b = bh n * 0.65 \<longrightarrow>
            b_y b = Min (set ?tops) - (bh n + 8) \<and> (\<forall>t\<in>set ?tops. b_y b + b_h b < t)"
  have bhp: "0 < bh n" and bwp: "0 < bw n"
    using bh_bounds(1) [of n] bw_bounds(1) [of n] by simp_all
  have tw: "?P (newBlock x y (bw n) (bh n) m)" for x y m
    using bwp by (simp add: newBlock_fields)
  have dc: "?P (newBlock x y (bw n * 0.75) (bh n * 0.75) m)" for x y m
    using bwp by (simp add: newBlock_fields)
  have br: "?P (newBlock x (Min (set (snd (snd (towerLoop e n (snd (themeOf n), []))))) - (bh n + 8))
                  (bw n * 0.72) (bh n * 0.65) Wood)" for x
  proof -
    have "Min (set ?tops) - (bh n + 8) + bh n * 0.65 < t" if "t \<in> set ?tops" for t
    proof -
      have "Min (set ?tops) \<le> t" using that by (intro Min_le) simp_all
      with bhp show ?thesis by simp
    qed
    then show ?thesis by (simp add: newBlock_fields towerTops_def)
  qed
  have e: "\<forall>b\<in>set (snd (snd (themeOf n), [] :: block list)). ?P b" by simp
  have "\<forall>b\<in>set (snd (buildTowers e n (snd (themeOf n), []))). ?P b"
    by (rule buildTowers_inv [OF e]) (rule tw, rule br)
  then have "\<forall>b\<in>set (levelBlocks e n). ?P b"
    unfolding levelBlocks_alt assms by (simp only: theme.case) (rule buildDeco_inv, assumption, rule dc)
  then show "\<forall>b\<in>set (levelBlocks e n).
            b_w b = bw n * 0.72 \<and> b_h b = bh n * 0.65 \<longrightarrow>
            b_y b = Min (set (towerTops e n)) - (bh n + 8)
            \<and> (\<forall>t\<in>set (towerTops e n). b_y b + b_h b < t)" .
next
  show "\<exists>new. snd (fold (bridgeCell n bridgeX bridgeY) ks (s, bs)) = bs @ new
          \<and> (\<forall>b\<in>set new. b_y b = bridgeY \<and> b_w b = bw n * 0.72 \<and> b_h b = bh n * 0.65
                \<and> b_mat b = Wood)"
    by (rule bridge_appends)
qed

text \<open>Witness for C2: level 16, its block 27 and the first cell of its bridge.\<close>

theorem C2_amended_witness:
  "fst (themeOf 16) = Towers
   \<and> levelBlocks e0 16 ! 27 \<in> set (levelBlocks e0 16)
   \<and> b_w (levelBlocks e0 16 ! 27) = bw 16 * 0.72 \<and> b_h (levelBlocks e0 16 ! 27) = bh 16 * 0.65
   \<and> b_y (levelBlocks e0 16 ! 27) = Min (set (towerTops e0 16)) - (bh 16 + 8)
   \<and> 290 \<in> set (towerTops e0 16) \<and> 342 \<in> set (towerTops e0 16)
   \<and> b_y (levelBlocks e0 16 ! 27) + b_h (levelBlocks e0 16 ! 27) < 290
   \<and> b_y (levelBlocks e0 16 ! 27) + b_h (levelBlocks e0 16 ! 27) < 342
   \<and> (\<exists>new. snd (fold (bridgeCell 16 (2068 / 3) 258) [0..<1] (4237396575, [])) = [] @ new
         \<and> new \<noteq> []
         \<and> (\<forall>b\<in>set new. b_y b = 258 \<and> b_w b = bw 16 * 0.72 \<and> b_h b = bh 16 * 0.65
               \<and> b_mat b = Wood))"
proof -
  have 1: "fst (themeOf 16) = Towers" by (simp add: themeOf_16)
  note c = C2_amended [OF 1, where e = e0 and bridgeX = "2068 / 3" and bridgeY = 258
      and ks = "[0..<1]" and s = 4237396575 and bs = "[]"]
  have len: "length (levelBlocks e0 16) = 38" by (simp add: level16_blocks)
  then have 2: "levelBlocks e0 16 ! 27 \<in> set (levelBlocks e0 16)" by simp
  have 3: "b_w (levelBlocks e0 16 ! 27) = bw 16 * 0.72 \<and> b_h (levelBlocks e0 16 ! 27) = bh 16 * 0.65"
    by (simp add: level16_blocks newBlock_fields level16_params)
  from c 2 3 have 4: "b_y (levelBlocks e0 16 ! 27) = Min (set (towerTops e0 16)) - (bh 16 + 8)
     \<and> (\<forall>t\<in>set (towerTops e0 16). b_y (levelBlocks e0 16 ! 27) + b_h (levelBlocks e0 16 ! 27) < t)"
    by blast
  have 5: "290 \<in> set (towerTops e0 16) \<and> 342 \<in> set (towerTops e0 16)"
    by (simp add: level16_towerTops)
  with 4 have 6: "b_y (levelBlocks e0 16 ! 27) + b_h (levelBlocks e0 16 ! 27) < 290
     \<and> b_y (levelBlocks e0 16 ! 27) + b_h (levelBlocks e0 16 ! 27) < 342"
    by blast
  from c obtain new where new:
    "snd (fold (bridgeCell 16 (2068 / 3) 258) [0..<1] (4237396575, [])) = [] @ new"
    "\<forall>b\<in>set new. b_y b = 258 \<and> b_w b = bw 16 * 0.72 \<and> b_h b = bh 16 * 0.65 \<and> b_mat b = Wood"
    by blast
  from new(1) have "new \<noteq> []" unfolding level16_first_bridge_cell by auto
  with new have 7: "\<exists>new. snd (fold (bridgeCell 16 (2068 / 3) 258) [0..<1] (4237396575, [])) = [] @ new
         \<and> new \<noteq> []
         \<and> (\<forall>b\<in>set new. b_y b = 258 \<and> b_w b = bw 16 * 0.72 \<and> b_h b = bh 16 * 0.65
               \<and> b_mat b = Wood)"
    by blast
  from 1 2 3 4 5 6 7 show ?thesis by blast
qed

subsection \<open>Invariants of a run\<close>

text \<open>Every handler and every step preserves \<open>sound\<close>, which holds of the first level.\<close>

lemma impactDamage_nonneg: "0 \<le> p_damage bl \<Longrightarrow> 0 \<le> impactDamage bl"
  using impactDamage_bounds(1) [of bl] by simp

lemma impactDamage_pos: "0 < p_damage bl \<Longrightarrow> 0 < impactDamage bl"
  using impactDamage_bounds(1) [of bl] by simp

lemma impactDamage_explicit:
  "impactDamage bl
     = p_damage bl * (0.35 + max 0 (min 1.2 (sqrt (p_vx bl * p_vx bl + p_vy bl * p_vy bl) / 1200)))"
  by (simp add: impactDamage_def clamp_def len_def)

lemma collide_blocks_sound:
  assumes d: "0 \<le> p_damage bl"
    and bs: "\<forall>b\<in>set bs. b_alive b \<longrightarrow> 0 < b_hp b \<and> b_hp b \<le> b_maxHp b"
  shows "\<forall>b\<in>set (snd (collide bl bs)). b_alive b \<longrightarrow> 0 < b_hp b \<and> b_hp b \<le> b_maxHp b"
proof (cases "firstHit bl bs")
  case None
  with bs show ?thesis by (simp add: collide_firstHit)
next
  case (Some i)
  then have i: "i < length bs" and al: "b_alive (bs ! i)"
    by (simp_all add: firstHit_Some_iff)
  from i have mem: "bs ! i \<in> set bs" by simp
  with bs al have hp: "0 < b_hp (bs ! i)" "b_hp (bs ! i) \<le> b_maxHp (bs ! i)" by auto
  have nn: "0 \<le> impactDamage bl" using d by (rule impactDamage_nonneg)
  have new: "b_alive (snd (hitBlock bl (bs ! i))) \<longrightarrow>
      0 < b_hp (snd (hitBlock bl (bs ! i)))
      \<and> b_hp (snd (hitBlock bl (bs ! i))) \<le> b_maxHp (snd (hitBlock bl (bs ! i)))"
    using hp nn by (simp add: hitBlock_block)
  have "set (bs[i := snd (hitBlock bl (bs ! i))]) \<subseteq> insert (snd (hitBlock bl (bs ! i))) (set bs)"
    by (rule set_update_subset_insert)
  with new bs have "\<forall>b\<in>set (bs[i := snd (hitBlock bl (bs ! i))]).
      b_alive b \<longrightarrow> 0 < b_hp b \<and> b_hp b \<le> b_maxHp b"
    by blast
  with Some show ?thesis by (simp add: collide_firstHit)
qed

lemma sound_makeLevel:
  assumes "level st = n" "1 \<le> n"
  shows "sound e (makeLevel e n st)"
  unfolding sound_def using assms levelBlocks_fresh [of e n]
  by (auto simp add: makeLevel_fields)

lemma sound_syncHud: "sound e (syncHud st) = sound e st"
  by (simp add: sound_def syncHud_fields)

lemma sound_fire:
  assumes "sound e st"
  shows "sound e (fire fx fy tx ty st)"
proof -
  from assms have pm: "1 \<le> powerMult st" by (simp add: sound_def)
  have "0 \<le> clamp (len (fx - tx) (fy - ty)) 0 (160::real)"
    by (simp add: clamp_def)
  then have "0 < 120 + clamp (len (fx - tx) (fy - ty)) 0 160 * 1.4"
    by (simp add: add_pos_nonneg)
  with pm have "0 < (120 + clamp (len (fx - tx) (fy - ty)) 0 160 * 1.4) * powerMult st"
    by (intro mult_pos_pos) auto
  with assms show ?thesis
    by (simp add: fire_def Let_def sound_syncHud) (simp add: sound_def)
qed

lemma sound_onDown: "sound e st \<Longrightarrow> sound e (onDown p st)"
  by (simp add: sound_def onDown_def)

lemma sound_onMove: "sound e st \<Longrightarrow> sound e (onMove p st)"
  by (simp add: sound_def onMove_def)

lemma sound_aiming: "sound e (st\<lparr>aiming := a\<rparr>) = sound e st"
  by (simp add: sound_def)

lemma sound_onUp: "sound e st \<Longrightarrow> sound e (onUp e st)"
  by (auto simp add: onUp_def Let_def sound_aiming sound_fire split: prod.splits option.splits)

lemma sound_update:
  assumes s: "sound e st"
  shows "sound e (update e dt st)"
proof (cases "\<exists>bl. ball st = Some bl \<and> p_alive bl")
  case False
  then have "ball st = None \<or> (\<exists>bl. ball st = Some bl \<and> \<not> p_alive bl)"
    by (cases "ball st") auto
  then have "update e dt st = syncHud st" by (rule update_idle)
  with s show ?thesis by (simp add: sound_syncHud)
next
  case True
  then obtain bl where bl: "ball st = Some bl" "p_alive bl" by blast
  from s bl have d: "0 < p_damage bl" by (simp add: sound_def)
  then have d': "0 \<le> p_damage (moved e dt bl)" by (simp add: moved_frame)
  from s have bs: "\<forall>b\<in>set (blocks st). b_alive b \<longrightarrow> 0 < b_hp b \<and> b_hp b \<le> b_maxHp b"
    by (simp add: sound_def)
  note cb = collide_blocks_sound [OF d' bs]
  from s have lv: "1 \<le> level st" and pm: "1 \<le> powerMult st" by (simp_all add: sound_def)
  let ?c = "collide (moved e dt bl) (blocks st)"
  show ?thesis
  proof (cases "destroyedPct (totalBlocks st) (snd ?c) \<ge> 0.85")
    case True
    then have "update e dt st = syncHud (makeLevel e (level st + 1)
             (st\<lparr>blocks := snd ?c, ball := Some ((fst ?c)\<lparr>p_alive := False\<rparr>),
                 level := level st + 1\<rparr>))"
      by (simp add: update_live [OF bl])
    moreover have "sound e (makeLevel e (level st + 1)
             (st\<lparr>blocks := snd ?c, ball := Some ((fst ?c)\<lparr>p_alive := False\<rparr>),
                 level := level st + 1\<rparr>))"
      by (rule sound_makeLevel) simp_all
    ultimately show ?thesis by (simp add: sound_syncHud)
  next
    case False
    then have "update e dt st = syncHud (st\<lparr>ball := Some (fst ?c), blocks := snd ?c\<rparr>)"
      by (simp add: update_live [OF bl])
    moreover have "sound e (st\<lparr>ball := Some (fst ?c), blocks := snd ?c\<rparr>)"
      unfolding sound_def using lv pm cb d moved_grounded [of e dt bl]
      by (simp add: collide_ball_frame moved_frame)
    ultimately show ?thesis by (simp add: sound_syncHud)
  qed
qed

lemma sound_last: "sound e (st\<lparr>last := t\<rparr>) = sound e st"
  by (simp add: sound_def)

lemma reachable_sound: "reachable e st \<Longrightarrow> sound e st"
proof (induction rule: reachable.induct)
  case (start t0 d)
  show ?case by (rule sound_makeLevel) (simp_all add: initial_def)
next
  case (down st p)
  then show ?case by (simp add: sound_onDown)
next
  case (move st p)
  then show ?case by (simp add: sound_onMove)
next
  case (up st)
  then show ?case by (simp add: sound_onUp)
next
  case (again st)
  then have "1 \<le> level st" by (simp add: sound_def)
  then show ?case unfolding restart_def by (intro sound_makeLevel) simp_all
next
  case (frame st now)
  then show ?case unfolding tick_def by (intro sound_update) (simp add: sound_last)
qed

lemma reachable_damage_pos:
  assumes "reachable e st" "ball st = Some bl"
  shows "0 < p_damage bl"
  using reachable_sound [OF assms(1)] assms(2) by (simp add: sound_def)

subsection \<open>Out of bounds\<close>

text \<open>
  C3, as stated, fails on the top side: after a step from \<open>exTop\<close> the projectile is
  entirely more than 300 pixels above the top edge of the window and is still alive.
\<close>

theorem C3_top_counterexample:
  "ball exTop = Some shotTop \<and> p_alive shotTop
   \<and> ball (update e0 (1 / 30) exTop) = Some (the (ball (update e0 (1 / 30) exTop)))
   \<and> p_y (the (ball (update e0 (1 / 30) exTop))) + p_r (the (ball (update e0 (1 / 30) exTop))) < - 300
   \<and> p_alive (the (ball (update e0 (1 / 30) exTop)))"
  by (simp add: step_defs ex_all)

text \<open>
  C3, amended: during a simulation step with a flying projectile, if the projectile's
  position is beyond the margin on the left (\<open>x < -200\<close>), on the right
  (\<open>x > innerWidth + 200\<close>) or at the bottom (\<open>y > innerHeight + 300\<close>), the projectile
  is inert after the step. There is no check on the top side.
\<close>

theorem C3_amended:
  assumes "ball st = Some bl" "p_alive bl"
    and "ball (update e dt st) = Some bl'"
    and "p_x bl' < - 200 \<or> p_x bl' > innerWidth e + 200 \<or> p_y bl' > innerHeight e + 300"
  shows "\<not> p_alive bl'"
proof (cases "destroyedPct (totalBlocks st) (snd (collide (moved e dt bl) (blocks st))) \<ge> 0.85")
  case True
  then have "ball (update e dt st) = None"
    by (simp add: update_live [OF assms(1,2)] syncHud_fields makeLevel_fields)
  with assms(3) show ?thesis by simp
next
  case False
  then have "bl' = fst (collide (moved e dt bl) (blocks st))"
    using assms(3) by (simp add: update_live [OF assms(1,2)] syncHud_fields)
  then have "p_x bl' = p_x (moved e dt bl)" "p_y bl' = p_y (moved e dt bl)"
    "p_alive bl' = p_alive (moved e dt bl)"
    by (simp_all add: collide_ball_frame)
  with assms(4) moved_outside [of e dt bl] show ?thesis by simp
qed

text \<open>Witness for C3: the projectile of \<open>exLeft\<close> leaves on the left and is inert after the step.\<close>

theorem C3_amended_witness:
  "ball exLeft = Some shotLeft \<and> p_alive shotLeft
   \<and> ball (update e0 (1 / 30) exLeft) = Some (the (ball (update e0 (1 / 30) exLeft)))
   \<and> p_x (the (ball (update e0 (1 / 30) exLeft))) < - 200
   \<and> \<not> p_alive (the (ball (update e0 (1 / 30) exLeft)))"
proof -
  have 1: "ball exLeft = Some shotLeft" by (simp add: ex_all)
  have 2: "p_alive shotLeft" by (simp add: ex_all)
  have 3: "ball (update e0 (1 / 30) exLeft) = Some (the (ball (update e0 (1 / 30) exLeft)))"
    by (simp add: step_defs ex_all)
  have 4: "p_x (the (ball (update e0 (1 / 30) exLeft))) < - 200"
    by (simp add: step_defs ex_all)
  from C3_amended [OF 1 2 3] 4 have "\<not> p_alive (the (ball (update e0 (1 / 30) exLeft)))"
    by blast
  with 1 2 3 4 show ?thesis by blast
qed

subsection \<open>Firing while a projectile is alive\<close>

text \<open>
  C7: completing an aim gesture while a projectile is alive only clears the aiming flag:
  the projectile (the single slot \<open>ball\<close>) is the same, with all its fields, and the shot
  counter, the blocks, the level and the HUD are unchanged.
\<close>

theorem C7_confirmed:
  assumes "ball st = Some bl" "p_alive bl"
  shows "onUp e st = st\<lparr>aiming := False\<rparr>
    \<and> ball (onUp e st) = Some bl
    \<and> shots (onUp e st) = shots st
    \<and> blocks (onUp e st) = blocks st
    \<and> level (onUp e st) = level st
    \<and> display (onUp e st) = display st"
  using assms by (simp add: onUp_def Let_def split: prod.splits)

text \<open>Witness for C7: the state \<open>exAiming\<close>, where the player aims during a flight.\<close>

theorem C7_confirmed_witness:
  "aiming exAiming \<and> ball exAiming = Some shot \<and> p_alive shot
   \<and> ball (onUp e0 exAiming) = Some shot
   \<and> shots (onUp e0 exAiming) = shots exAiming
   \<and> \<not> aiming (onUp e0 exAiming)"
proof -
  have 1: "ball exAiming = Some shot" by (simp add: ex_all)
  have 2: "p_alive shot" by (simp add: ex_all)
  have 3: "aiming exAiming" by (simp add: ex_all)
  note c = C7_confirmed [OF 1 2, of e0]
  from c have 4: "ball (onUp e0 exAiming) = Some shot" by blast
  from c have 5: "shots (onUp e0 exAiming) = shots exAiming" by blast
  from c have "onUp e0 exAiming = exAiming\<lparr>aiming := False\<rparr>" by blast
  then have 6: "\<not> aiming (onUp e0 exAiming)" by simp
  from 1 2 3 4 5 6 show ?thesis by blast
qed

subsection \<open>A level without blocks\<close>

text \<open>
  C4, as stated, fails for the destroyed-percentage snapshot and for a first step without
  a projectile: in \<open>exEmpty\<close> the HUD shows 0 percent and the step does not advance the
  level.
\<close>

theorem C4_snapshot_counterexample:
  "totalBlocks exEmpty = 0
   \<and> elDestroyed (display (update e0 (1 / 30) exEmpty)) = 0
   \<and> level (update e0 (1 / 30) exEmpty) = level exEmpty"
  by (simp add: step_defs ex_all)

text \<open>
  C4, amended: if \<open>totalBlocks = 0\<close>, the destroyed fraction of the level-advance check is
  defined to be 1, so a step taken while a projectile is alive advances the level; the
  destroyed percentage shown by \<^verbatim>\<open>syncHud\<close> is defined to be 0; a step without a live
  projectile does not evaluate the check and leaves the level as it is. No case divides
  by zero.
\<close>

theorem C4_amended:
  assumes "totalBlocks st = 0"
  shows "destroyedPct (totalBlocks st) bs = 1
    \<and> elDestroyed (display (syncHud st)) = 0
    \<and> (\<forall>bl. ball st = Some bl \<and> p_alive bl \<longrightarrow>
          level (update e dt st) = level st + 1
          \<and> blocks (update e dt st) = levelBlocks e (level st + 1)
          \<and> ball (update e dt st) = None)
    \<and> (ball st = None \<or> (\<exists>bl. ball st = Some bl \<and> \<not> p_alive bl) \<longrightarrow>
          level (update e dt st) = level st \<and> elDestroyed (display (update e dt st)) = 0)"
proof (intro conjI allI impI)
  show "destroyedPct (totalBlocks st) bs = 1"
    using assms by (simp add: destroyedPct_def)
  show z: "elDestroyed (display (syncHud st)) = 0"
    using assms by (simp add: syncHud_def)
  {
    fix bl assume live: "ball st = Some bl \<and> p_alive bl"
    have adv: "destroyedPct (totalBlocks st) (snd (collide (moved e dt bl) (blocks st))) \<ge> 0.85"
      using assms by (simp add: destroyedPct_def)
    from live have u: "update e dt st =
        syncHud (makeLevel e (level st + 1)
             (st\<lparr>blocks := snd (collide (moved e dt bl) (blocks st)),
                 ball := Some ((fst (collide (moved e dt bl) (blocks st)))\<lparr>p_alive := False\<rparr>),
                 level := level st + 1\<rparr>))"
      using adv by (simp add: update_live)
    show "level (update e dt st) = level st + 1"
      by (simp add: u syncHud_fields makeLevel_fields)
    show "blocks (update e dt st) = levelBlocks e (level st + 1)"
      by (simp add: u syncHud_fields makeLevel_fields)
    show "ball (update e dt st) = None"
      by (simp add: u syncHud_fields makeLevel_fields)
  }
  {
    assume idle: "ball st = None \<or> (\<exists>bl. ball st = Some bl \<and> \<not> p_alive bl)"
    show "level (update e dt st) = level st"
      by (simp add: update_idle [OF idle] syncHud_fields)
    show "elDestroyed (display (update e dt st)) = 0"
      by (simp add: update_idle [OF idle] z)
  }
qed

text \<open>
  Witness for C4: \<open>exEmptyLive\<close> (a projectile is alive, the step advances the level) and
  \<open>exEmpty\<close> (no projectile, the level stays).
\<close>

theorem C4_amended_witness:
  "totalBlocks exEmptyLive = 0
   \<and> ball exEmptyLive = Some shot \<and> p_alive shot
   \<and> level (update e0 (1 / 30) exEmptyLive) = level exEmptyLive + 1
   \<and> ball (update e0 (1 / 30) exEmptyLive) = None
   \<and> totalBlocks exEmpty = 0 \<and> ball exEmpty = None
   \<and> level (update e0 (1 / 30) exEmpty) = level exEmpty
   \<and> elDestroyed (display (update e0 (1 / 30) exEmpty)) = 0"
proof -
  have 1: "totalBlocks exEmptyLive = 0" by (simp add: ex_all)
  have 2: "ball exEmptyLive = Some shot \<and> p_alive shot" by (simp add: ex_all)
  have 3: "totalBlocks exEmpty = 0" by (simp add: ex_all)
  have 4: "ball exEmpty = None" by (simp add: ex_all)
  from C4_amended [OF 1, of "[]" e0 "1 / 30"] 2
  have a: "level (update e0 (1 / 30) exEmptyLive) = level exEmptyLive + 1"
    "ball (update e0 (1 / 30) exEmptyLive) = None"
    by blast+
  from C4_amended [OF 3, of "[]" e0 "1 / 30"] 4
  have b: "level (update e0 (1 / 30) exEmpty) = level exEmpty"
    "elDestroyed (display (update e0 (1 / 30) exEmpty)) = 0"
    by blast+
  from 1 2 3 4 a b show ?thesis by blast
qed

subsection \<open>Damage and repeated hits\<close>

lemma collide_damage:
  "(\<forall>i<length bs. snd (collide bl bs) ! i \<noteq> bs ! i \<longrightarrow>
       firstHit bl bs = Some i
       \<and> b_hp (snd (collide bl bs) ! i)
           = b_hp (bs ! i) - p_damage bl * (0.35 + clamp (len (p_vx bl) (p_vy bl) / 1200) 0 1.2))
   \<and> (\<forall>i. firstHit bl bs = Some i \<longrightarrow>
       b_hp (snd (collide bl bs) ! i)
           = b_hp (bs ! i) - p_damage bl * (0.35 + clamp (len (p_vx bl) (p_vy bl) / 1200) 0 1.2))
   \<and> (0 \<le> p_damage bl \<and> p_damage bl2 = p_damage bl
        \<and> len (p_vx bl) (p_vy bl) \<le> len (p_vx bl2) (p_vy bl2) \<longrightarrow>
       b_hp b - b_hp (snd (hitBlock bl b)) \<le> b_hp b - b_hp (snd (hitBlock bl2 b)))"
proof (intro conjI allI impI)
  fix i assume "i < length bs" and ch: "snd (collide bl bs) ! i \<noteq> bs ! i"
  show fh: "firstHit bl bs = Some i"
  proof (cases "firstHit bl bs")
    case None
    with ch show ?thesis by (simp add: collide_firstHit)
  next
    case (Some k)
    with ch have "bs[k := snd (hitBlock bl (bs ! k))] ! i \<noteq> bs ! i"
      by (simp add: collide_firstHit)
    then have "k = i" by (cases "k = i") simp_all
    with Some show ?thesis by simp
  qed
  then show "b_hp (snd (collide bl bs) ! i)
           = b_hp (bs ! i) - p_damage bl * (0.35 + clamp (len (p_vx bl) (p_vy bl) / 1200) 0 1.2)"
    using \<open>i < length bs\<close>
    by (simp add: collide_firstHit hitBlock_block impactDamage_def)
next
  fix i assume h: "firstHit bl bs = Some i"
  then have "i < length bs" by (simp add: firstHit_Some_iff)
  with h show "b_hp (snd (collide bl bs) ! i)
           = b_hp (bs ! i) - p_damage bl * (0.35 + clamp (len (p_vx bl) (p_vy bl) / 1200) 0 1.2)"
    by (simp add: collide_firstHit hitBlock_block impactDamage_def)
next
  assume "0 \<le> p_damage bl \<and> p_damage bl2 = p_damage bl
        \<and> len (p_vx bl) (p_vy bl) \<le> len (p_vx bl2) (p_vy bl2)"
  then have "impactDamage bl \<le> impactDamage bl2"
    by (intro impactDamage_mono) auto
  then show "b_hp b - b_hp (snd (hitBlock bl b)) \<le> b_hp b - b_hp (snd (hitBlock bl2 b))"
    by (simp add: hitBlock_block)
qed

lemma update_live_same:
  assumes "ball st = Some bl" "p_alive bl" "level (update e dt st) = level st"
  shows "blocks (update e dt st) = snd (collide (moved e dt bl) (blocks st))"
    and "ball (update e dt st) = Some (fst (collide (moved e dt bl) (blocks st)))"
proof -
  from assms(3) have na: "\<not> destroyedPct (totalBlocks st) (snd (collide (moved e dt bl) (blocks st))) \<ge> 0.85"
    by (simp add: update_live_level [OF assms(1,2)])
  show "blocks (update e dt st) = snd (collide (moved e dt bl) (blocks st))"
    using na by (simp add: update_live [OF assms(1,2)] syncHud_fields)
  show "ball (update e dt st) = Some (fst (collide (moved e dt bl) (blocks st)))"
    using na by (simp add: update_live [OF assms(1,2)] syncHud_fields)
qed

lemma collide_block_frame:
  assumes "i < length bs"
  shows "b_x (snd (collide bl bs) ! i) = b_x (bs ! i)" "b_y (snd (collide bl bs) ! i) = b_y (bs ! i)"
    "b_w (snd (collide bl bs) ! i) = b_w (bs ! i)" "b_h (snd (collide bl bs) ! i) = b_h (bs ! i)"
    "b_maxHp (snd (collide bl bs) ! i) = b_maxHp (bs ! i)" "b_mat (snd (collide bl bs) ! i) = b_mat (bs ! i)"
proof -
  consider "firstHit bl bs = None" | "firstHit bl bs = Some i"
    | k where "firstHit bl bs = Some k" "k \<noteq> i"
    by (cases "firstHit bl bs") auto
  then have "b_x (snd (collide bl bs) ! i) = b_x (bs ! i) \<and> b_y (snd (collide bl bs) ! i) = b_y (bs ! i)
    \<and> b_w (snd (collide bl bs) ! i) = b_w (bs ! i) \<and> b_h (snd (collide bl bs) ! i) = b_h (bs ! i)
    \<and> b_maxHp (snd (collide bl bs) ! i) = b_maxHp (bs ! i) \<and> b_mat (snd (collide bl bs) ! i) = b_mat (bs ! i)"
  proof cases
    case 1
    then show ?thesis by (simp add: collide_firstHit)
  next
    case 2
    with assms show ?thesis by (simp add: collide_firstHit hitBlock_block)
  next
    case 3
    then show ?thesis by (simp add: collide_firstHit)
  qed
  then show "b_x (snd (collide bl bs) ! i) = b_x (bs ! i)" "b_y (snd (collide bl bs) ! i) = b_y (bs ! i)"
    "b_w (snd (collide bl bs) ! i) = b_w (bs ! i)" "b_h (snd (collide bl bs) ! i) = b_h (bs ! i)"
    "b_maxHp (snd (collide bl bs) ! i) = b_maxHp (bs ! i)" "b_mat (snd (collide bl bs) ! i) = b_mat (bs ! i)"
    by simp_all
qed

text \<open>The two example runs, step by step.\<close>

lemma exTwo1_eval:
  "exTwo1 = exTwo\<lparr>ball := Some \<lparr>p_x = 101, p_y = 4749 / 25, p_vx = 0, p_vy = 68862 / 125,
                              p_r = 15, p_damage = 744 / 5, p_alive = True,
                              p_traveled = 10499 / 25\<rparr>,
                   blocks := [blockA, blockB\<lparr>b_hp := 14793 / 625\<rparr>]\<rparr>"
  by (simp add: exTwo1_def step_defs ex_all)

lemma exRepeat1_eval:
  "exRepeat1 = exTwo\<lparr>ball := Some \<lparr>p_x = 101, p_y = 4749 / 25, p_vx = 0, p_vy = 68862 / 125,
                              p_r = 15, p_damage = 744 / 5, p_alive = True,
                              p_traveled = 10499 / 25\<rparr>,
                   blocks := [blockB\<lparr>b_hp := 14793 / 625\<rparr>, blockA]\<rparr>"
  by (simp add: exRepeat1_def step_defs ex_all)

lemma exTwo2_eval:
  "exTwo2 = exTwo\<lparr>ball := Some \<lparr>p_x = 101, p_y = 196516069 / 937500, p_vx = 0,
                              p_vy = - (4662427957 / 15625000), p_r = 15, p_damage = 744 / 5,
                              p_alive = True, p_traveled = 412141069 / 937500\<rparr>,
                   blocks := [blockA\<lparr>b_hp := 193714361 / 7812500\<rparr>,
                              blockB\<lparr>b_hp := 14793 / 625\<rparr>]\<rparr>"
  by (simp add: exTwo2_def exTwo1_eval step_defs ex_all)

text \<open>Square roots of the example speeds, the first level and a first shot.\<close>

lemma sqrt_examples: "sqrt 250000 = 500" "sqrt 1000000 = 1000" "sqrt 4000000 = 2000"
proof -
  have "sqrt (500 * 500) = \<bar>500::real\<bar>" "sqrt (1000 * 1000) = \<bar>1000::real\<bar>"
    "sqrt (2000 * 2000) = \<bar>2000::real\<bar>"
    by (rule real_sqrt_abs2)+
  then show "sqrt 250000 = 500" "sqrt 1000000 = 1000" "sqrt 4000000 = 2000"
    by simp_all
qed

lemmas ex_more = exLast_def shotDiag_def blockG_def shotLand_def
  exLand_def

lemma exStart_reachable: "reachable e0 exStart"
  unfolding exStart_def by (rule reachable.start)

lemma exFired_reachable: "reachable e0 exFired"
  unfolding exFired_def by (intro reachable.up reachable.down exStart_reachable)

lemma exFired_ball:
  "ball exFired = Some \<lparr>p_x = 140, p_y = 486, p_vx = 700, p_vy = 0, p_r = 57 / 4, p_damage = 120,
                         p_alive = True, p_traveled = 0\<rparr>"
  by (simp add: exFired_def exStart_def onUp_def onDown_def fire_def cannonPos_def groundY_def
      e0_def initial_def makeLevel_fields syncHud_fields atan2_def len_vertical clamp_def Let_def)

lemma exLast_advance:
  "destroyedPct (totalBlocks exLast) (snd (collide (moved e0 (1 / 30) shot) (blocks exLast))) \<ge> 0.85"
  by (simp add: moved_def step_defs ex_all ex_more)

lemma exLand1_facts:
  "ball exLand1 = Some (the (ball exLand1))" "\<not> p_alive (the (ball exLand1))"
  "b_alive (blocks exLand1 ! 0)" "overlaps (the (ball exLand1)) (blocks exLand1 ! 0)"
  "b_hp (blocks exLand1 ! 0) < b_hp (blocks exLand ! 0)"
  "p_y (the (ball exLand1)) + p_r (the (ball exLand1)) = groundY e0"
  by (simp_all add: exLand1_def overlaps_def step_defs ex_all ex_more)

text \<open>
  C9: whenever the block loop changes a block (the first live block in collection order that
  the projectile overlaps), the block loses exactly
  \<open>damage * (0.35 + max 0 (min 1.2 (sqrt (vx * vx + vy * vy) / 1200)))\<close>, where \<open>damage\<close>,
  \<open>vx\<close> and \<open>vy\<close> are those of the projectile that enters the loop. In a step on a live
  projectile this is the projectile after integration, ground bounce and bounds check, with
  the damage fixed at launch, and the loop runs before the level-advance check, also in a
  step that ends the level. The damage of the projectile of a state of a run is positive, and
  for projectiles with that damage the hp taken by a hit does not decrease when the speed
  grows.
\<close>

theorem C9_confirmed:
  "(\<forall>i<length bs.
       snd (collide bl bs) ! i \<noteq> bs ! i \<or> firstHit bl bs = Some i \<longrightarrow>
       b_hp (bs ! i) - b_hp (snd (collide bl bs) ! i)
         = p_damage bl
             * (0.35 + max 0 (min 1.2 (sqrt (p_vx bl * p_vx bl + p_vy bl * p_vy bl) / 1200))))
   \<and> (ball st = Some bl0 \<and> p_alive bl0 \<longrightarrow>
        p_damage (moved e dt bl0) = p_damage bl0
        \<and> update e dt st =
           (if destroyedPct (totalBlocks st) (snd (collide (moved e dt bl0) (blocks st))) \<ge> 0.85
            then syncHud (makeLevel e (level st + 1)
                   (st\<lparr>blocks := snd (collide (moved e dt bl0) (blocks st)),
                       ball := Some ((fst (collide (moved e dt bl0) (blocks st)))\<lparr>p_alive := False\<rparr>),
                       level := level st + 1\<rparr>))
            else syncHud (st\<lparr>ball := Some (fst (collide (moved e dt bl0) (blocks st))),
                             blocks := snd (collide (moved e dt bl0) (blocks st))\<rparr>)))
   \<and> (reachable e st' \<and> ball st' = Some bl' \<and> p_damage bl1 = p_damage bl' \<and> p_damage bl2 = p_damage bl'
        \<and> sqrt (p_vx bl1 * p_vx bl1 + p_vy bl1 * p_vy bl1)
            \<le> sqrt (p_vx bl2 * p_vx bl2 + p_vy bl2 * p_vy bl2) \<longrightarrow>
       0 < p_damage bl'
       \<and> b_hp b - b_hp (snd (hitBlock bl1 b)) \<le> b_hp b - b_hp (snd (hitBlock bl2 b)))"
proof (intro conjI allI impI)
  fix i
  assume i: "i < length bs"
    and ch: "snd (collide bl bs) ! i \<noteq> bs ! i \<or> firstHit bl bs = Some i"
  with collide_damage [of bs bl]
  have "b_hp (snd (collide bl bs) ! i)
      = b_hp (bs ! i) - p_damage bl * (0.35 + clamp (len (p_vx bl) (p_vy bl) / 1200) 0 1.2)"
    by blast
  then show "b_hp (bs ! i) - b_hp (snd (collide bl bs) ! i)
         = p_damage bl
             * (0.35 + max 0 (min 1.2 (sqrt (p_vx bl * p_vx bl + p_vy bl * p_vy bl) / 1200)))"
    by (simp add: clamp_def len_def)
next
  assume "ball st = Some bl0 \<and> p_alive bl0"
  then have bl0: "ball st = Some bl0" "p_alive bl0" by simp_all
  show "p_damage (moved e dt bl0) = p_damage bl0" by (simp add: moved_frame)
  show "update e dt st =
           (if destroyedPct (totalBlocks st) (snd (collide (moved e dt bl0) (blocks st))) \<ge> 0.85
            then syncHud (makeLevel e (level st + 1)
                   (st\<lparr>blocks := snd (collide (moved e dt bl0) (blocks st)),
                       ball := Some ((fst (collide (moved e dt bl0) (blocks st)))\<lparr>p_alive := False\<rparr>),
                       level := level st + 1\<rparr>))
            else syncHud (st\<lparr>ball := Some (fst (collide (moved e dt bl0) (blocks st))),
                             blocks := snd (collide (moved e dt bl0) (blocks st))\<rparr>))"
    by (rule update_live [OF bl0])
next
  assume h: "reachable e st' \<and> ball st' = Some bl' \<and> p_damage bl1 = p_damage bl' \<and> p_damage bl2 = p_damage bl'
        \<and> sqrt (p_vx bl1 * p_vx bl1 + p_vy bl1 * p_vy bl1)
            \<le> sqrt (p_vx bl2 * p_vx bl2 + p_vy bl2 * p_vy bl2)"
  then show pos: "0 < p_damage bl'" by (intro reachable_damage_pos [of e st']) simp_all
  from h pos have "0 \<le> p_damage bl1" "p_damage bl2 = p_damage bl1"
    "len (p_vx bl1) (p_vy bl1) \<le> len (p_vx bl2) (p_vy bl2)"
    by (simp_all add: len_def)
  then have "impactDamage bl1 \<le> impactDamage bl2" by (rule impactDamage_mono)
  then show "b_hp b - b_hp (snd (hitBlock bl1 b)) \<le> b_hp b - b_hp (snd (hitBlock bl2 b))"
    by (simp add: hitBlock_block)
qed

text \<open>
  Witness for C9: a diagonal hit at speed 500 takes \<open>148.8 * (0.35 + 500 / 1200)\<close> hp; the
  step from \<open>exLast\<close> ends the level and its hit obeys the formula; with the damage 120 of
  the first shot of a run, speeds 500, 1000 and 2000 take 92, 142 and 186 hp (the last one
  with the speed term capped at 1.2).
\<close>

theorem C9_confirmed_witness:
  "firstHit shotDiag [blockA, blockB] = Some 1
   \<and> b_hp ([blockA, blockB] ! 1) - b_hp (snd (collide shotDiag [blockA, blockB]) ! 1) = 2852 / 25
   \<and> p_vx shotDiag = 300 \<and> p_vy shotDiag = 400 \<and> p_damage shotDiag = 744 / 5
   \<and> ball exLast = Some shot \<and> p_alive shot
   \<and> level (update e0 (1 / 30) exLast) = level exLast + 1
   \<and> firstHit (moved e0 (1 / 30) shot) (blocks exLast) = Some 0
   \<and> b_hp (blocks exLast ! 0) - b_hp (snd (collide (moved e0 (1 / 30) shot) (blocks exLast)) ! 0)
       = p_damage shot * (0.35 + max 0 (min 1.2 (sqrt (p_vx (moved e0 (1 / 30) shot) * p_vx (moved e0 (1 / 30) shot)
            + p_vy (moved e0 (1 / 30) shot) * p_vy (moved e0 (1 / 30) shot)) / 1200)))
   \<and> reachable e0 exFired \<and> ball exFired = Some (the (ball exFired))
   \<and> 0 < p_damage (the (ball exFired))
   \<and> b_hp blockB - b_hp (snd (hitBlock ((the (ball exFired))\<lparr>p_vx := 300, p_vy := 400\<rparr>) blockB)) = 92
   \<and> b_hp blockB - b_hp (snd (hitBlock ((the (ball exFired))\<lparr>p_vx := 600, p_vy := 800\<rparr>) blockB)) = 142
   \<and> b_hp blockB - b_hp (snd (hitBlock ((the (ball exFired))\<lparr>p_vx := 1200, p_vy := 1600\<rparr>) blockB)) = 186
   \<and> b_hp blockB - b_hp (snd (hitBlock ((the (ball exFired))\<lparr>p_vx := 300, p_vy := 400\<rparr>) blockB))
       \<le> b_hp blockB - b_hp (snd (hitBlock ((the (ball exFired))\<lparr>p_vx := 600, p_vy := 800\<rparr>) blockB))"
proof -
  let ?m = "moved e0 (1 / 30) shot"
  let ?f = "the (ball exFired)"
  have a1: "(1::nat) < length [blockA, blockB]" by simp
  have a2: "firstHit shotDiag [blockA, blockB] = Some 1"
    by (simp add: overlaps_def circleRectCollision_def clamp_def Let_def ex_all ex_more)
  note c1 = C9_confirmed [where bs = "[blockA, blockB]" and bl = shotDiag and st = exLast and ?bl0.0 = shot
      and e = e0 and dt = "1 / 30" and st' = exFired and bl' = ?f
      and ?bl1.0 = "?f\<lparr>p_vx := 300, p_vy := 400\<rparr>" and ?bl2.0 = "?f\<lparr>p_vx := 600, p_vy := 800\<rparr>"
      and b = blockB]
  from c1 a1 a2 have "b_hp ([blockA, blockB] ! 1) - b_hp (snd (collide shotDiag [blockA, blockB]) ! 1)
         = p_damage shotDiag
             * (0.35 + max 0 (min 1.2 (sqrt (p_vx shotDiag * p_vx shotDiag + p_vy shotDiag * p_vy shotDiag) / 1200)))"
    by blast
  then have a3: "b_hp ([blockA, blockB] ! 1) - b_hp (snd (collide shotDiag [blockA, blockB]) ! 1) = 2852 / 25"
    by (simp add: ex_all ex_more sqrt_examples)
  have a4: "p_vx shotDiag = 300 \<and> p_vy shotDiag = 400 \<and> p_damage shotDiag = 744 / 5"
    by (simp add: ex_all ex_more)
  have b1: "ball exLast = Some shot \<and> p_alive shot" by (simp add: ex_all ex_more)
  with c1 have "update e0 (1 / 30) exLast =
           (if destroyedPct (totalBlocks exLast) (snd (collide ?m (blocks exLast))) \<ge> 0.85
            then syncHud (makeLevel e0 (level exLast + 1)
                   (exLast\<lparr>blocks := snd (collide ?m (blocks exLast)),
                       ball := Some ((fst (collide ?m (blocks exLast)))\<lparr>p_alive := False\<rparr>),
                       level := level exLast + 1\<rparr>))
            else syncHud (exLast\<lparr>ball := Some (fst (collide ?m (blocks exLast))),
                             blocks := snd (collide ?m (blocks exLast))\<rparr>))"
    by blast
  then have b2: "level (update e0 (1 / 30) exLast) = level exLast + 1"
    using exLast_advance by (simp add: syncHud_fields makeLevel_fields)
  have b3: "(0::nat) < length (blocks exLast)" by (simp add: ex_all ex_more)
  have b4: "firstHit ?m (blocks exLast) = Some 0"
    by (simp add: moved_def overlaps_def step_defs ex_all ex_more)
  note c2 = C9_confirmed [where bs = "blocks exLast" and bl = ?m]
  from c2 b3 b4 have b5: "b_hp (blocks exLast ! 0) - b_hp (snd (collide ?m (blocks exLast)) ! 0)
       = p_damage ?m * (0.35 + max 0 (min 1.2 (sqrt (p_vx ?m * p_vx ?m + p_vy ?m * p_vy ?m) / 1200)))"
    by blast
  have b6: "p_damage ?m = p_damage shot" by (simp add: moved_frame)
  have d1: "reachable e0 exFired" by (rule exFired_reachable)
  have d2: "ball exFired = Some ?f" by (simp add: exFired_ball)
  have d3: "p_damage (?f\<lparr>p_vx := 300, p_vy := 400\<rparr>) = p_damage ?f
      \<and> p_damage (?f\<lparr>p_vx := 600, p_vy := 800\<rparr>) = p_damage ?f
      \<and> sqrt (p_vx (?f\<lparr>p_vx := 300, p_vy := 400\<rparr>) * p_vx (?f\<lparr>p_vx := 300, p_vy := 400\<rparr>)
              + p_vy (?f\<lparr>p_vx := 300, p_vy := 400\<rparr>) * p_vy (?f\<lparr>p_vx := 300, p_vy := 400\<rparr>))
          \<le> sqrt (p_vx (?f\<lparr>p_vx := 600, p_vy := 800\<rparr>) * p_vx (?f\<lparr>p_vx := 600, p_vy := 800\<rparr>)
              + p_vy (?f\<lparr>p_vx := 600, p_vy := 800\<rparr>) * p_vy (?f\<lparr>p_vx := 600, p_vy := 800\<rparr>))"
    by simp
  from c1 d1 d2 d3 have d4: "0 < p_damage ?f
       \<and> b_hp blockB - b_hp (snd (hitBlock (?f\<lparr>p_vx := 300, p_vy := 400\<rparr>) blockB))
          \<le> b_hp blockB - b_hp (snd (hitBlock (?f\<lparr>p_vx := 600, p_vy := 800\<rparr>) blockB))"
    by blast
  have d5: "b_hp blockB - b_hp (snd (hitBlock (?f\<lparr>p_vx := 300, p_vy := 400\<rparr>) blockB)) = 92"
    "b_hp blockB - b_hp (snd (hitBlock (?f\<lparr>p_vx := 600, p_vy := 800\<rparr>) blockB)) = 142"
    "b_hp blockB - b_hp (snd (hitBlock (?f\<lparr>p_vx := 1200, p_vy := 1600\<rparr>) blockB)) = 186"
    by (simp_all add: exFired_ball hitBlock_block impactDamage_explicit sqrt_examples ex_all)
  from a2 a3 a4 b1 b2 b4 b5 b6 d1 d2 d4 d5 show ?thesis by simp
qed

text \<open>
  C10, as stated, fails when another live block comes earlier in the collection: in the run
  from \<open>exTwo\<close> the projectile hits the second block in the first step; in the next step
  it still overlaps that block, which is alive, but it now also overlaps the first block,
  and only the first block is damaged.
\<close>

theorem C10_repeat_counterexample:
  "b_hp (blocks exTwo1 ! 1) < b_hp (blocks exTwo ! 1)
   \<and> b_alive (blocks exTwo1 ! 1)
   \<and> p_alive (the (ball exTwo1))
   \<and> overlaps (moved e0 (1 / 30) (the (ball exTwo1))) (blocks exTwo1 ! 1)
   \<and> level exTwo2 = level exTwo1
   \<and> overlaps (the (ball exTwo2)) (blocks exTwo2 ! 1)
   \<and> b_hp (blocks exTwo2 ! 1) = b_hp (blocks exTwo1 ! 1)"
  by (simp add: exTwo2_eval exTwo1_eval moved_def overlaps_def step_defs ex_all)

text \<open>
  C10, amended: the block loop changes neither position, radius, damage, alive flag nor
  travelled length of the projectile, and changes no block other than the first live block
  that the projectile overlaps, of which only hp and the alive flag change. A step on a live
  projectile runs the loop on the moved projectile and keeps every other field of the state,
  the display apart, unless it ends the level; the first live block in order that the moved
  projectile overlaps loses the impact damage, which is positive in every state of a run,
  also when that block was hit in the step before. A step on a projectile that is no longer
  alive (it came to rest or left the bounds in the step of the hit) changes neither the
  blocks nor the projectile, whatever it overlaps.
\<close>

theorem C10_amended:
  "(p_x (fst (collide bl bs)) = p_x bl \<and> p_y (fst (collide bl bs)) = p_y bl
      \<and> p_r (fst (collide bl bs)) = p_r bl \<and> p_damage (fst (collide bl bs)) = p_damage bl
      \<and> p_alive (fst (collide bl bs)) = p_alive bl \<and> p_traveled (fst (collide bl bs)) = p_traveled bl
      \<and> length (snd (collide bl bs)) = length bs
      \<and> (\<forall>i<length bs.
            b_x (snd (collide bl bs) ! i) = b_x (bs ! i) \<and> b_y (snd (collide bl bs) ! i) = b_y (bs ! i)
            \<and> b_w (snd (collide bl bs) ! i) = b_w (bs ! i) \<and> b_h (snd (collide bl bs) ! i) = b_h (bs ! i)
            \<and> b_maxHp (snd (collide bl bs) ! i) = b_maxHp (bs ! i)
            \<and> b_mat (snd (collide bl bs) ! i) = b_mat (bs ! i)
            \<and> (snd (collide bl bs) ! i \<noteq> bs ! i \<longrightarrow> firstHit bl bs = Some i)))
   \<and> (ball st = Some bl0 \<and> p_alive bl0 \<longrightarrow>
        update e dt st =
           (if destroyedPct (totalBlocks st) (snd (collide (moved e dt bl0) (blocks st))) \<ge> 0.85
            then syncHud (makeLevel e (level st + 1)
                   (st\<lparr>blocks := snd (collide (moved e dt bl0) (blocks st)),
                       ball := Some ((fst (collide (moved e dt bl0) (blocks st)))\<lparr>p_alive := False\<rparr>),
                       level := level st + 1\<rparr>))
            else syncHud (st\<lparr>ball := Some (fst (collide (moved e dt bl0) (blocks st))),
                             blocks := snd (collide (moved e dt bl0) (blocks st))\<rparr>))
        \<and> (\<forall>i<length (blocks st).
              b_alive (blocks st ! i) \<and> overlaps (moved e dt bl0) (blocks st ! i)
              \<and> (\<forall>j<i. \<not> (b_alive (blocks st ! j) \<and> overlaps (moved e dt bl0) (blocks st ! j)))
              \<longrightarrow> b_hp (snd (collide (moved e dt bl0) (blocks st)) ! i)
                     = b_hp (blocks st ! i) - impactDamage (moved e dt bl0)
                  \<and> (level (update e dt st) = level st \<longrightarrow>
                       b_hp (blocks (update e dt st) ! i)
                         = b_hp (blocks st ! i) - impactDamage (moved e dt bl0))))
   \<and> (reachable e st \<and> ball st = Some bl0 \<longrightarrow> 0 < impactDamage (moved e dt bl0))
   \<and> (ball st = None \<or> (\<exists>bl. ball st = Some bl \<and> \<not> p_alive bl) \<longrightarrow>
        update e dt st = syncHud st \<and> blocks (update e dt st) = blocks st
        \<and> ball (update e dt st) = ball st)"
proof -
  have 1: "p_x (fst (collide bl bs)) = p_x bl \<and> p_y (fst (collide bl bs)) = p_y bl
      \<and> p_r (fst (collide bl bs)) = p_r bl \<and> p_damage (fst (collide bl bs)) = p_damage bl
      \<and> p_alive (fst (collide bl bs)) = p_alive bl \<and> p_traveled (fst (collide bl bs)) = p_traveled bl
      \<and> length (snd (collide bl bs)) = length bs
      \<and> (\<forall>i<length bs.
            b_x (snd (collide bl bs) ! i) = b_x (bs ! i) \<and> b_y (snd (collide bl bs) ! i) = b_y (bs ! i)
            \<and> b_w (snd (collide bl bs) ! i) = b_w (bs ! i) \<and> b_h (snd (collide bl bs) ! i) = b_h (bs ! i)
            \<and> b_maxHp (snd (collide bl bs) ! i) = b_maxHp (bs ! i)
            \<and> b_mat (snd (collide bl bs) ! i) = b_mat (bs ! i)
            \<and> (snd (collide bl bs) ! i \<noteq> bs ! i \<longrightarrow> firstHit bl bs = Some i))"
  proof -
    have "\<forall>i<length bs. snd (collide bl bs) ! i \<noteq> bs ! i \<longrightarrow> firstHit bl bs = Some i"
      using collide_damage [of bs bl] by blast
    then show ?thesis
      by (simp add: collide_ball_frame collide_length collide_block_frame)
  qed
  have 2: "ball st = Some bl0 \<and> p_alive bl0 \<longrightarrow>
        update e dt st =
           (if destroyedPct (totalBlocks st) (snd (collide (moved e dt bl0) (blocks st))) \<ge> 0.85
            then syncHud (makeLevel e (level st + 1)
                   (st\<lparr>blocks := snd (collide (moved e dt bl0) (blocks st)),
                       ball := Some ((fst (collide (moved e dt bl0) (blocks st)))\<lparr>p_alive := False\<rparr>),
                       level := level st + 1\<rparr>))
            else syncHud (st\<lparr>ball := Some (fst (collide (moved e dt bl0) (blocks st))),
                             blocks := snd (collide (moved e dt bl0) (blocks st))\<rparr>))
        \<and> (\<forall>i<length (blocks st).
              b_alive (blocks st ! i) \<and> overlaps (moved e dt bl0) (blocks st ! i)
              \<and> (\<forall>j<i. \<not> (b_alive (blocks st ! j) \<and> overlaps (moved e dt bl0) (blocks st ! j)))
              \<longrightarrow> b_hp (snd (collide (moved e dt bl0) (blocks st)) ! i)
                     = b_hp (blocks st ! i) - impactDamage (moved e dt bl0)
                  \<and> (level (update e dt st) = level st \<longrightarrow>
                       b_hp (blocks (update e dt st) ! i)
                         = b_hp (blocks st ! i) - impactDamage (moved e dt bl0)))"
  proof (intro impI conjI allI)
    assume "ball st = Some bl0 \<and> p_alive bl0"
    then have bl0: "ball st = Some bl0" "p_alive bl0" by simp_all
    show "update e dt st =
           (if destroyedPct (totalBlocks st) (snd (collide (moved e dt bl0) (blocks st))) \<ge> 0.85
            then syncHud (makeLevel e (level st + 1)
                   (st\<lparr>blocks := snd (collide (moved e dt bl0) (blocks st)),
                       ball := Some ((fst (collide (moved e dt bl0) (blocks st)))\<lparr>p_alive := False\<rparr>),
                       level := level st + 1\<rparr>))
            else syncHud (st\<lparr>ball := Some (fst (collide (moved e dt bl0) (blocks st))),
                             blocks := snd (collide (moved e dt bl0) (blocks st))\<rparr>))"
      by (rule update_live [OF bl0])
    fix i
    assume i: "i < length (blocks st)"
      and h: "b_alive (blocks st ! i) \<and> overlaps (moved e dt bl0) (blocks st ! i)
              \<and> (\<forall>j<i. \<not> (b_alive (blocks st ! j) \<and> overlaps (moved e dt bl0) (blocks st ! j)))"
    from i h have fh: "firstHit (moved e dt bl0) (blocks st) = Some i"
      by (simp add: firstHit_Some_iff)
    then show eq: "b_hp (snd (collide (moved e dt bl0) (blocks st)) ! i)
                     = b_hp (blocks st ! i) - impactDamage (moved e dt bl0)"
      using i by (simp add: collide_firstHit hitBlock_block)
    assume "level (update e dt st) = level st"
    then have "blocks (update e dt st) = snd (collide (moved e dt bl0) (blocks st))"
      by (rule update_live_same(1) [OF bl0])
    with eq show "b_hp (blocks (update e dt st) ! i)
                         = b_hp (blocks st ! i) - impactDamage (moved e dt bl0)"
      by simp
  qed
  have 3: "reachable e st \<and> ball st = Some bl0 \<longrightarrow> 0 < impactDamage (moved e dt bl0)"
  proof
    assume "reachable e st \<and> ball st = Some bl0"
    then have "0 < p_damage bl0" by (intro reachable_damage_pos [of e st]) simp_all
    then have "0 < p_damage (moved e dt bl0)" by (simp add: moved_frame)
    then show "0 < impactDamage (moved e dt bl0)" by (rule impactDamage_pos)
  qed
  have 4: "ball st = None \<or> (\<exists>bl. ball st = Some bl \<and> \<not> p_alive bl) \<longrightarrow>
        update e dt st = syncHud st \<and> blocks (update e dt st) = blocks st
        \<and> ball (update e dt st) = ball st"
  proof
    assume "ball st = None \<or> (\<exists>bl. ball st = Some bl \<and> \<not> p_alive bl)"
    then have "update e dt st = syncHud st" by (rule update_idle)
    then show "update e dt st = syncHud st \<and> blocks (update e dt st) = blocks st
        \<and> ball (update e dt st) = ball st"
      by (simp add: syncHud_fields)
  qed
  show ?thesis
    by (rule conjI [OF 1 conjI [OF 2 conjI [OF 3 4]]])
qed

text \<open>
  Witness for C10: in the run from \<open>exRepeat\<close> the same block is hit in two consecutive
  steps; the projectile of \<open>exLand\<close> hits a block in the step in which it comes to rest,
  and the next step leaves that block alone although the projectile still overlaps it.
\<close>

theorem C10_amended_witness:
  "ball exRepeat1 = Some (the (ball exRepeat1)) \<and> p_alive (the (ball exRepeat1))
   \<and> b_alive (blocks exRepeat1 ! 0)
   \<and> overlaps (moved e0 (1 / 30) (the (ball exRepeat1))) (blocks exRepeat1 ! 0)
   \<and> b_hp (blocks exRepeat1 ! 0) < b_hp (blocks exRepeat ! 0)
   \<and> level (update e0 (1 / 30) exRepeat1) = level exRepeat1
   \<and> b_hp (blocks (update e0 (1 / 30) exRepeat1) ! 0)
       = b_hp (blocks exRepeat1 ! 0) - impactDamage (moved e0 (1 / 30) (the (ball exRepeat1)))
   \<and> b_hp (blocks (update e0 (1 / 30) exRepeat1) ! 0) < b_hp (blocks exRepeat1 ! 0)
   \<and> blocks (update e0 (1 / 30) exRepeat1) ! 0 \<noteq> blocks exRepeat1 ! 0
   \<and> firstHit (moved e0 (1 / 30) (the (ball exRepeat1))) (blocks exRepeat1) = Some 0
   \<and> reachable e0 exFired \<and> ball exFired = Some (the (ball exFired))
   \<and> 0 < impactDamage (moved e0 (1 / 30) (the (ball exFired)))
   \<and> ball exLand1 = Some (the (ball exLand1)) \<and> \<not> p_alive (the (ball exLand1))
   \<and> b_alive (blocks exLand1 ! 0) \<and> overlaps (the (ball exLand1)) (blocks exLand1 ! 0)
   \<and> b_hp (blocks exLand1 ! 0) < b_hp (blocks exLand ! 0)
   \<and> blocks (update e0 (1 / 30) exLand1) = blocks exLand1
   \<and> ball (update e0 (1 / 30) exLand1) = ball exLand1"
proof -
  let ?b = "the (ball exRepeat1)"
  let ?m = "moved e0 (1 / 30) ?b"
  note c = C10_amended [where st = exRepeat1 and ?bl0.0 = ?b and e = e0 and dt = "1 / 30"
      and bl = ?m and bs = "blocks exRepeat1"]
  have 1: "ball exRepeat1 = Some ?b \<and> p_alive ?b"
    by (simp add: exRepeat1_eval ex_all)
  have 2: "level (update e0 (1 / 30) exRepeat1) = level exRepeat1"
    by (simp add: exRepeat1_eval step_defs ex_all)
  have 3: "0 < length (blocks exRepeat1)"
    by (simp add: exRepeat1_eval ex_all)
  have 4: "b_alive (blocks exRepeat1 ! 0) \<and> overlaps ?m (blocks exRepeat1 ! 0)
     \<and> (\<forall>j<0. \<not> (b_alive (blocks exRepeat1 ! j) \<and> overlaps ?m (blocks exRepeat1 ! j)))"
    by (simp add: exRepeat1_eval moved_def overlaps_def step_defs ex_all)
  have 5: "b_hp (blocks exRepeat1 ! 0) < b_hp (blocks exRepeat ! 0)"
    by (simp add: exRepeat1_eval ex_all)
  from c 1 2 3 4
  have 6: "b_hp (blocks (update e0 (1 / 30) exRepeat1) ! 0)
       = b_hp (blocks exRepeat1 ! 0) - impactDamage ?m"
    by blast
  have "0 < p_damage ?m" by (simp add: moved_frame exRepeat1_eval ex_all)
  then have 7: "0 < impactDamage ?m" by (rule impactDamage_pos)
  with 6 have 8: "b_hp (blocks (update e0 (1 / 30) exRepeat1) ! 0) < b_hp (blocks exRepeat1 ! 0)"
    by simp
  then have 9: "blocks (update e0 (1 / 30) exRepeat1) ! 0 \<noteq> blocks exRepeat1 ! 0"
    by auto
  from 1 2 have 10: "blocks (update e0 (1 / 30) exRepeat1) = snd (collide ?m (blocks exRepeat1))"
    by (intro update_live_same(1)) simp_all
  from c 3 9 10 have 11: "firstHit ?m (blocks exRepeat1) = Some 0"
    by simp
  note f = C10_amended [where st = exFired and ?bl0.0 = "the (ball exFired)" and e = e0 and dt = "1 / 30"]
  have 12: "reachable e0 exFired \<and> ball exFired = Some (the (ball exFired))"
    by (simp add: exFired_reachable exFired_ball)
  with f have 13: "0 < impactDamage (moved e0 (1 / 30) (the (ball exFired)))"
    by blast
  note l = C10_amended [where st = exLand1 and e = e0 and dt = "1 / 30"]
  have 14: "ball exLand1 = None \<or> (\<exists>bl. ball exLand1 = Some bl \<and> \<not> p_alive bl)"
    using exLand1_facts(1,2) by blast
  with l have 15: "blocks (update e0 (1 / 30) exLand1) = blocks exLand1
      \<and> ball (update e0 (1 / 30) exLand1) = ball exLand1"
    by blast
  from 1 2 4 5 6 8 9 11 12 13 15 exLand1_facts show ?thesis by simp
qed

subsection \<open>The first frame of the first shot\<close>







lemma sound_blocks:
  assumes "reachable e st" "b \<in> set (blocks st)" "b_alive b"
  shows "0 < b_hp b" "b_hp b \<le> b_maxHp b"
  using reachable_sound [OF assms(1)] assms(2,3) by (simp_all add: sound_def)

lemma collide_dead_untouched:
  assumes "i < length bs" "\<not> b_alive (bs ! i)"
  shows "snd (collide bl bs) ! i = bs ! i"
proof (cases "firstHit bl bs")
  case None
  then show ?thesis by (simp add: collide_firstHit)
next
  case (Some k)
  then have "b_alive (bs ! k)" by (simp add: firstHit_Some_iff)
  with assms(2) have "k \<noteq> i" by auto
  with Some show ?thesis by (simp add: collide_firstHit)
qed

lemma collide_kills:
  assumes "i < length bs" "snd (collide bl bs) ! i \<noteq> bs ! i"
  shows "b_alive (bs ! i)"
    and "b_hp (snd (collide bl bs) ! i) = b_hp (bs ! i) - impactDamage bl"
    and "b_alive (snd (collide bl bs) ! i) \<longleftrightarrow> 0 < b_hp (snd (collide bl bs) ! i)"
proof -
  from assms collide_damage [of bs bl] have fh: "firstHit bl bs = Some i" by blast
  then show al: "b_alive (bs ! i)" by (simp add: firstHit_Some_iff)
  from fh assms(1) have eq: "snd (collide bl bs) ! i = snd (hitBlock bl (bs ! i))"
    by (simp add: collide_firstHit)
  show "b_hp (snd (collide bl bs) ! i) = b_hp (bs ! i) - impactDamage bl"
    by (simp add: eq hitBlock_block)
  show "b_alive (snd (collide bl bs) ! i) \<longleftrightarrow> 0 < b_hp (snd (collide bl bs) ! i)"
    using al by (auto simp add: eq hitBlock_block)
qed

lemma handlers_blocks:
  "blocks (onDown p st) = blocks st" "blocks (onMove p st) = blocks st" "blocks (onUp e st) = blocks st"
  by (simp_all add: onDown_def onMove_def onUp_def fire_def syncHud_fields Let_def
      split: prod.splits option.splits)

lemma exRepeat2_facts:
  "level exRepeat2 = level exRepeat1"
  "ball exRepeat2 = Some (the (ball exRepeat2))" "p_alive (the (ball exRepeat2))"
  "length (blocks exRepeat2) = 2"
  "\<not> b_alive (blocks exRepeat2 ! 0)" "b_hp (blocks exRepeat2 ! 0) \<le> 0"
  "blocks exRepeat2 ! 0 \<noteq> blocks exRepeat1 ! 0"
  "overlaps (moved e0 (1 / 30) (the (ball exRepeat2))) (blocks exRepeat2 ! 0)"
  by (simp_all add: exRepeat2_def exRepeat1_eval moved_def overlaps_def step_defs ex_all)

lemma exRepeat1_facts:
  "ball exRepeat1 = Some (the (ball exRepeat1))" "p_alive (the (ball exRepeat1))"
  "length (blocks exRepeat1) = 2" "b_alive (blocks exRepeat1 ! 0)" "0 < b_hp (blocks exRepeat1 ! 0)"
  "blocks exRepeat1 ! 0 \<noteq> blocks exRepeat ! 0"
  "\<not> destroyedPct (totalBlocks exRepeat1)
        (snd (collide (moved e0 (1 / 30) (the (ball exRepeat1))) (blocks exRepeat1))) \<ge> 0.85"
  by (simp_all add: exRepeat1_eval moved_def overlaps_def step_defs ex_all)

lemma exStart_fields: "blocks exStart = levelBlocks e0 1" "level exStart = 1"
  by (simp_all add: exStart_def makeLevel_fields initial_def)


subsection \<open>Hit points of blocks\<close>

text \<open>
  C6: in every state of a run every live block has \<open>0 < hp \<le> maxHp\<close>. The block loop
  changes only a block that is alive; after the change the block is alive exactly when its
  hp is still positive, so a block whose hp drops to 0 or below is marked dead in the same
  step; and the loop never touches a block that is dead. Between two generations of a level
  the blocks change only through the block loop: a step on a live projectile either ends
  the level (the blocks are replaced by those of the next level) or stores the result of
  the loop, a step without a live projectile and the pointer handlers leave the blocks
  alone, and the restart button generates the level again.
\<close>

theorem C6_confirmed:
  "(reachable e st \<longrightarrow> (\<forall>b\<in>set (blocks st). b_alive b \<longrightarrow> 0 < b_hp b \<and> b_hp b \<le> b_maxHp b))
   \<and> (\<forall>i<length bs.
         (snd (collide bl bs) ! i \<noteq> bs ! i \<longrightarrow>
            b_alive (bs ! i)
            \<and> (b_hp (snd (collide bl bs) ! i) \<le> 0 \<longrightarrow> \<not> b_alive (snd (collide bl bs) ! i))
            \<and> (0 < b_hp (snd (collide bl bs) ! i) \<longrightarrow> b_alive (snd (collide bl bs) ! i)))
         \<and> (\<not> b_alive (bs ! i) \<longrightarrow> snd (collide bl bs) ! i = bs ! i))
   \<and> (ball st = Some bl0 \<and> p_alive bl0 \<longrightarrow>
         (if destroyedPct (totalBlocks st) (snd (collide (moved e dt bl0) (blocks st))) \<ge> 0.85
          then level (update e dt st) = level st + 1
               \<and> blocks (update e dt st) = levelBlocks e (level st + 1)
          else level (update e dt st) = level st
               \<and> blocks (update e dt st) = snd (collide (moved e dt bl0) (blocks st))))
   \<and> (ball st = None \<or> (\<exists>bl. ball st = Some bl \<and> \<not> p_alive bl) \<longrightarrow>
         blocks (update e dt st) = blocks st \<and> level (update e dt st) = level st)
   \<and> blocks (onDown p st) = blocks st \<and> blocks (onMove p st) = blocks st
   \<and> blocks (onUp e st) = blocks st \<and> blocks (restart e st) = levelBlocks e (level st)"
proof -
  have 1: "reachable e st \<longrightarrow> (\<forall>b\<in>set (blocks st). b_alive b \<longrightarrow> 0 < b_hp b \<and> b_hp b \<le> b_maxHp b)"
    using sound_blocks [of e st] by blast
  have 2: "\<forall>i<length bs.
         (snd (collide bl bs) ! i \<noteq> bs ! i \<longrightarrow>
            b_alive (bs ! i)
            \<and> (b_hp (snd (collide bl bs) ! i) \<le> 0 \<longrightarrow> \<not> b_alive (snd (collide bl bs) ! i))
            \<and> (0 < b_hp (snd (collide bl bs) ! i) \<longrightarrow> b_alive (snd (collide bl bs) ! i)))
         \<and> (\<not> b_alive (bs ! i) \<longrightarrow> snd (collide bl bs) ! i = bs ! i)"
  proof (intro allI impI conjI)
    fix i assume i: "i < length bs"
    {
      assume ch: "snd (collide bl bs) ! i \<noteq> bs ! i"
      show "b_alive (bs ! i)" by (rule collide_kills(1) [OF i ch])
      note k = collide_kills(3) [OF i ch]
      {
        assume "b_hp (snd (collide bl bs) ! i) \<le> 0"
        with k show "\<not> b_alive (snd (collide bl bs) ! i)" by simp
      }
      {
        assume "0 < b_hp (snd (collide bl bs) ! i)"
        with k show "b_alive (snd (collide bl bs) ! i)" by simp
      }
    }
    {
      assume "\<not> b_alive (bs ! i)"
      with i show "snd (collide bl bs) ! i = bs ! i" by (rule collide_dead_untouched)
    }
  qed
  have 3: "ball st = Some bl0 \<and> p_alive bl0 \<longrightarrow>
         (if destroyedPct (totalBlocks st) (snd (collide (moved e dt bl0) (blocks st))) \<ge> 0.85
          then level (update e dt st) = level st + 1
               \<and> blocks (update e dt st) = levelBlocks e (level st + 1)
          else level (update e dt st) = level st
               \<and> blocks (update e dt st) = snd (collide (moved e dt bl0) (blocks st)))"
  proof
    assume "ball st = Some bl0 \<and> p_alive bl0"
    then have b: "ball st = Some bl0" "p_alive bl0" by simp_all
    show "if destroyedPct (totalBlocks st) (snd (collide (moved e dt bl0) (blocks st))) \<ge> 0.85
          then level (update e dt st) = level st + 1
               \<and> blocks (update e dt st) = levelBlocks e (level st + 1)
          else level (update e dt st) = level st
               \<and> blocks (update e dt st) = snd (collide (moved e dt bl0) (blocks st))"
      by (simp add: update_live [OF b] syncHud_fields makeLevel_fields)
  qed
  have 4: "ball st = None \<or> (\<exists>bl. ball st = Some bl \<and> \<not> p_alive bl) \<longrightarrow>
         blocks (update e dt st) = blocks st \<and> level (update e dt st) = level st"
  proof
    assume "ball st = None \<or> (\<exists>bl. ball st = Some bl \<and> \<not> p_alive bl)"
    then have "update e dt st = syncHud st" by (rule update_idle)
    then show "blocks (update e dt st) = blocks st \<and> level (update e dt st) = level st"
      by (simp add: syncHud_fields)
  qed
  have 5: "blocks (onDown p st) = blocks st \<and> blocks (onMove p st) = blocks st
   \<and> blocks (onUp e st) = blocks st \<and> blocks (restart e st) = levelBlocks e (level st)"
    by (simp add: handlers_blocks restart_def makeLevel_fields)
  show ?thesis
    by (rule conjI [OF 1 conjI [OF 2 conjI [OF 3 conjI [OF 4 5]]]])
qed

text \<open>
  Witness for C6: the first block of level 1 at the start of a run; in the run from
  \<open>exRepeat\<close> the first block survives the first hit, is killed by the second, and is
  left alone by the third step although the projectile overlaps it; the step from \<open>exLast\<close>
  ends the level; the step from \<open>exLand1\<close> has no live projectile.
\<close>

theorem C6_confirmed_witness:
  "reachable e0 exStart \<and> levelBlocks e0 1 ! 0 \<in> set (blocks exStart)
   \<and> b_alive (levelBlocks e0 1 ! 0)
   \<and> 0 < b_hp (levelBlocks e0 1 ! 0) \<and> b_hp (levelBlocks e0 1 ! 0) \<le> b_maxHp (levelBlocks e0 1 ! 0)
   \<and> ball exRepeat = Some shot \<and> p_alive shot \<and> level exRepeat1 = level exRepeat
   \<and> blocks exRepeat1 ! 0 \<noteq> blocks exRepeat ! 0
   \<and> 0 < b_hp (blocks exRepeat1 ! 0) \<and> b_alive (blocks exRepeat1 ! 0)
   \<and> ball exRepeat1 = Some (the (ball exRepeat1)) \<and> p_alive (the (ball exRepeat1))
   \<and> level exRepeat2 = level exRepeat1
   \<and> blocks exRepeat2 ! 0 \<noteq> blocks exRepeat1 ! 0
   \<and> b_hp (blocks exRepeat2 ! 0) \<le> 0 \<and> \<not> b_alive (blocks exRepeat2 ! 0)
   \<and> ball exRepeat2 = Some (the (ball exRepeat2)) \<and> p_alive (the (ball exRepeat2))
   \<and> overlaps (moved e0 (1 / 30) (the (ball exRepeat2))) (blocks exRepeat2 ! 0)
   \<and> snd (collide (moved e0 (1 / 30) (the (ball exRepeat2))) (blocks exRepeat2)) ! 0 = blocks exRepeat2 ! 0
   \<and> ball exLast = Some shot
   \<and> level (update e0 (1 / 30) exLast) = level exLast + 1
   \<and> blocks (update e0 (1 / 30) exLast) = levelBlocks e0 (level exLast + 1)
   \<and> ball exLand1 = Some (the (ball exLand1)) \<and> \<not> p_alive (the (ball exLand1))
   \<and> blocks (update e0 (1 / 30) exLand1) = blocks exLand1"
proof -
  have a1: "reachable e0 exStart" by (rule exStart_reachable)
  have len: "length (levelBlocks e0 1) = 58" by (simp add: level1_blocks del: One_nat_def)
  then have a2: "levelBlocks e0 1 ! 0 \<in> set (blocks exStart)" by (simp add: exStart_fields del: One_nat_def)
  have a3: "b_alive (levelBlocks e0 1 ! 0)"
    by (simp add: level1_blocks newBlock_fields del: One_nat_def)
  from C6_confirmed [where e = e0 and st = exStart] a1 a2 a3
  have a4: "0 < b_hp (levelBlocks e0 1 ! 0) \<and> b_hp (levelBlocks e0 1 ! 0) \<le> b_maxHp (levelBlocks e0 1 ! 0)"
    by blast
  let ?m0 = "moved e0 (1 / 30) shot"
  have b1: "ball exRepeat = Some shot \<and> p_alive shot" by (simp add: ex_all)
  have b2: "\<not> destroyedPct (totalBlocks exRepeat) (snd (collide ?m0 (blocks exRepeat))) \<ge> 0.85"
    by (simp add: moved_def overlaps_def step_defs ex_all)
  from C6_confirmed [where e = e0 and st = exRepeat and ?bl0.0 = shot and dt = "1 / 30"] b1 b2
  have b3: "level (update e0 (1 / 30) exRepeat) = level exRepeat
      \<and> blocks (update e0 (1 / 30) exRepeat) = snd (collide ?m0 (blocks exRepeat))"
    by (simp del: One_nat_def)
  then have b4: "level exRepeat1 = level exRepeat" "blocks exRepeat1 = snd (collide ?m0 (blocks exRepeat))"
    by (simp_all add: exRepeat1_def)
  have b5: "(0::nat) < length (blocks exRepeat)" by (simp add: ex_all)
  have b6: "snd (collide ?m0 (blocks exRepeat)) ! 0 \<noteq> blocks exRepeat ! 0"
    using exRepeat1_facts(6) b4(2) by simp
  have b7: "0 < b_hp (snd (collide ?m0 (blocks exRepeat)) ! 0)"
    using exRepeat1_facts(5) b4(2) by simp
  from C6_confirmed [where bs = "blocks exRepeat" and bl = ?m0] b5 b6 b7
  have "b_alive (snd (collide ?m0 (blocks exRepeat)) ! 0)" by blast
  then have b8: "b_alive (blocks exRepeat1 ! 0)" by (simp add: b4(2))
  let ?m1 = "moved e0 (1 / 30) (the (ball exRepeat1))"
  have c1: "ball exRepeat1 = Some (the (ball exRepeat1)) \<and> p_alive (the (ball exRepeat1))"
    using exRepeat1_facts(1,2) by simp
  from C6_confirmed [where e = e0 and st = exRepeat1 and ?bl0.0 = "the (ball exRepeat1)" and dt = "1 / 30"]
    c1 exRepeat1_facts(7)
  have c2: "level (update e0 (1 / 30) exRepeat1) = level exRepeat1
      \<and> blocks (update e0 (1 / 30) exRepeat1) = snd (collide ?m1 (blocks exRepeat1))"
    by (simp del: One_nat_def)
  then have c3: "level exRepeat2 = level exRepeat1" "blocks exRepeat2 = snd (collide ?m1 (blocks exRepeat1))"
    by (simp_all add: exRepeat2_def)
  have c4: "(0::nat) < length (blocks exRepeat1)" by (simp add: exRepeat1_facts)
  have c5: "snd (collide ?m1 (blocks exRepeat1)) ! 0 \<noteq> blocks exRepeat1 ! 0"
    using exRepeat2_facts(7) c3(2) by simp
  have c6: "b_hp (snd (collide ?m1 (blocks exRepeat1)) ! 0) \<le> 0"
    using exRepeat2_facts(6) c3(2) by simp
  from C6_confirmed [where bs = "blocks exRepeat1" and bl = ?m1] c4 c5 c6
  have "\<not> b_alive (snd (collide ?m1 (blocks exRepeat1)) ! 0)" by blast
  then have c7: "\<not> b_alive (blocks exRepeat2 ! 0)" by (simp add: c3(2))
  let ?m2 = "moved e0 (1 / 30) (the (ball exRepeat2))"
  have d1: "(0::nat) < length (blocks exRepeat2)" by (simp add: exRepeat2_facts)
  from C6_confirmed [where bs = "blocks exRepeat2" and bl = ?m2] d1 c7
  have d2: "snd (collide ?m2 (blocks exRepeat2)) ! 0 = blocks exRepeat2 ! 0" by blast
  have e1: "ball exLast = Some shot \<and> p_alive shot" by (simp add: ex_all ex_more)
  from C6_confirmed [where e = e0 and st = exLast and ?bl0.0 = shot and dt = "1 / 30"] e1 exLast_advance
  have e2: "level (update e0 (1 / 30) exLast) = level exLast + 1
      \<and> blocks (update e0 (1 / 30) exLast) = levelBlocks e0 (level exLast + 1)"
    by (simp del: One_nat_def)
  have f1: "ball exLand1 = None \<or> (\<exists>bl. ball exLand1 = Some bl \<and> \<not> p_alive bl)"
    using exLand1_facts(1,2) by blast
  with C6_confirmed [where e = e0 and st = exLand1 and dt = "1 / 30"]
  have f2: "blocks (update e0 (1 / 30) exLand1) = blocks exLand1" by blast
  from a1 a2 a3 a4 b1 b4(1) exRepeat1_facts(5,6) b8 c1 c3(1) exRepeat2_facts(2,3,6,7,8) c7 d2 e1 e2
    exLand1_facts(1,2) f2
  show ?thesis by simp
qed

subsection \<open>Ground containment\<close>




end
